(* ===== verification/Prelude.thy ===== *)
theory Prelude
  imports Complex_Main "HOL-Library.AList"
begin

text \<open>
  Shared vocabulary of the model of the \<^verbatim>\<open>script\<close> package: the Python values the
  program handles (strings, \<^verbatim>\<open>None\<close>, lists, ints, floats), Python dictionaries as
  insertion-ordered association lists, the exceptions the program raises or lets escape,
  and the error monad \<open>exc + 'a\<close> in which every raising operation is written.
  A HOL \<open>char\<close> stands for one Python code point below 256 (Latin-1); the program's
  input files are read as such code points.
\<close>

named_theorems py_simps "evaluation rules of the Python model, for simp add:"

subsection \<open>Python values\<close>

text \<open>
  A Python \<^verbatim>\<open>float\<close> is a finite value or one of the three IEEE special values.
  Finite values are exact rationals: the model does not round to binary64 (see the
  header of \<open>Spec2Isabelle\<close>).
\<close>

datatype pyfloat = Fin rat | PInf | NInf | NaN

text \<open>Dictionary keys: the field names of a CSV header, or \<^verbatim>\<open>None\<close>, the
  \<^verbatim>\<open>restkey\<close> under which \<^verbatim>\<open>csv.DictReader\<close> stores surplus cells.\<close>

datatype pykey = KStr string | KNone

datatype pyval = VStr string | VNone | VList "string list" | VInt int | VFloat pyfloat

type_synonym pydict = "(pykey \<times> pyval) list"

text \<open>The columns the program reads.\<close>

abbreviation K_completed_tasks :: pykey where "K_completed_tasks \<equiv> KStr ''completed_tasks''"
abbreviation K_performance :: pykey where "K_performance \<equiv> KStr ''performance''"
abbreviation K_experience_years :: pykey where "K_experience_years \<equiv> KStr ''experience_years''"
abbreviation K_position :: pykey where "K_position \<equiv> KStr ''position''"


subsection \<open>Exceptions\<close>

text \<open>
  The exception classes that reach the program's handlers, with the data their messages
  carry. \<open>BadDataFormat p e\<close> is the \<^verbatim>\<open>ValueError\<close> that \<^verbatim>\<open>read_csv_files\<close>
  raises for file \<open>p\<close> with cause \<open>e\<close>; \<open>UnknownReportName n ks\<close> the one of
  \<^verbatim>\<open>ReportFactory.create_report\<close>, listing the registered names \<open>ks\<close>.
\<close>

datatype tmsg =
    IntArgType          \<comment> \<open>\<^verbatim>\<open>int()\<close> applied to \<^verbatim>\<open>None\<close> or a list\<close>
  | FloatArgType        \<comment> \<open>\<^verbatim>\<open>float()\<close> applied to \<^verbatim>\<open>None\<close> or a list\<close>
  | UnsupportedOperand  \<comment> \<open>\<^verbatim>\<open>+\<close> between a number and a non-number in \<^verbatim>\<open>sum\<close>\<close>
  | UnhashableType      \<comment> \<open>a list used as a dictionary key\<close>
  | IssubclassArg       \<comment> \<open>\<^verbatim>\<open>issubclass()\<close> applied to a non-class\<close>
  | NotReportSubclass   \<comment> \<open>the \<^verbatim>\<open>TypeError\<close> raised by \<^verbatim>\<open>register_report\<close>\<close>
  | AbstractClass string \<comment> \<open>instantiating a class with abstract methods\<close>
  | UnsupportedFormat string \<comment> \<open>a non-empty format spec for \<^verbatim>\<open>None\<close> or a list, by type name\<close>

datatype cmsg =
    FieldLimit nat          \<comment> \<open>\<^verbatim>\<open>_csv.Error: field larger than field limit\<close>\<close>
  | NewlineInUnquoted       \<comment> \<open>\<^verbatim>\<open>_csv.Error: new-line character seen in unquoted field\<close>\<close>

datatype exc =
    ValueError vmsg
  | KeyError pykey
  | TypeError tmsg
  | FileNotFoundError string
  | IsADirectoryError string
  | CsvError cmsg
  | OverflowError           \<comment> \<open>\<^verbatim>\<open>int(float('inf'))\<close>\<close>
  | PlainException string   \<comment> \<open>\<^verbatim>\<open>raise Exception(msg)\<close>\<close>
  | AttributeError string string \<comment> \<open>\<^verbatim>\<open>'type' object has no attribute 'name'\<close>\<close>
and vmsg =
    InvalidIntLiteral string
  | IntDigitLimit nat         \<comment> \<open>\<^verbatim>\<open>Exceeds the limit (4300 digits) for integer string conversion\<close>\<close>
  | InvalidFloatLiteral string
  | NaNToInt                  \<comment> \<open>\<^verbatim>\<open>int(float('nan'))\<close>\<close>
  | BadDataFormat string exc
  | UnknownReportName string "string list"

type_synonym 'a result = "exc + 'a"

text \<open>\<^verbatim>\<open>type(v).__name__\<close>, as messages name it.\<close>

definition py_type_name :: "pyval \<Rightarrow> string" where
  "py_type_name v = (case v of VStr _ \<Rightarrow> ''str'' | VNone \<Rightarrow> ''NoneType'' | VList _ \<Rightarrow> ''list''
     | VInt _ \<Rightarrow> ''int'' | VFloat _ \<Rightarrow> ''float'')"

subsection \<open>The error monad\<close>

text \<open>Sequencing of raising operations: an exception aborts what follows.\<close>

fun ebind :: "'a result \<Rightarrow> ('a \<Rightarrow> 'b result) \<Rightarrow> 'b result" where
  "ebind (Inl e) f = Inl e"
| "ebind (Inr x) f = f x"

lemma ebind_Inr_iff [simp]:
  "ebind m f = Inr y \<longleftrightarrow> (\<exists>x. m = Inr x \<and> f x = Inr y)"
  by (cases m) auto

lemma ebind_Inl_iff [simp]:
  "ebind m f = Inl e \<longleftrightarrow> m = Inl e \<or> (\<exists>x. m = Inr x \<and> f x = Inl e)"
  by (cases m) auto

lemma ebind_assoc [simp]:
  "ebind (ebind m f) g = ebind m (\<lambda>x. ebind (f x) g)"
  by (cases m) auto

lemma ebind_Inr_right [simp]: "ebind m Inr = m"
  by (cases m) auto

text \<open>Mapping the result of a computation commutes with sequencing.\<close>

lemma ebind_eq_case: "ebind m f = (case m of Inl e \<Rightarrow> Inl e | Inr x \<Rightarrow> f x)"
  by (cases m) auto

lemma ebind_map_sum: "ebind m (\<lambda>x. map_sum id f (g x)) = map_sum id f (ebind m g)"
  by (cases m) auto

lemma case_prod_map_sum:
  "(case x of (a, b) \<Rightarrow> map_sum id f (g a b)) = map_sum id f (case x of (a, b) \<Rightarrow> g a b)"
  by (cases x) simp

subsection \<open>Dictionaries\<close>

text \<open>\<^verbatim>\<open>d[k]\<close>: \<^verbatim>\<open>KeyError\<close> when the key is absent.\<close>

definition py_getitem :: "pydict \<Rightarrow> pykey \<Rightarrow> pyval result" where
  "py_getitem d k = (case map_of d k of None \<Rightarrow> Inl (KeyError k) | Some v \<Rightarrow> Inr v)"

lemma py_getitem_Inr_iff [simp]: "py_getitem d k = Inr v \<longleftrightarrow> map_of d k = Some v"
  by (auto simp: py_getitem_def split: option.splits)

lemma py_getitem_Inl_iff [simp]: "py_getitem d k = Inl e \<longleftrightarrow> map_of d k = None \<and> e = KeyError k"
  by (auto simp: py_getitem_def split: option.splits)

lemma py_getitem_update [py_simps]:
  "py_getitem (AList.update k v d) k' = (if k' = k then Inr v else py_getitem d k')"
  by (simp add: py_getitem_def update_conv')

text \<open>\<^verbatim>\<open>dict(zip(ks, vs))\<close>: later duplicates overwrite earlier ones in place.\<close>

definition dict_of_pairs :: "(pykey \<times> pyval) list \<Rightarrow> pydict" where
  "dict_of_pairs ps = fold (\<lambda>(k, v) d. AList.update k v d) ps []"

lemma map_of_fold_update:
  "map_of (fold (\<lambda>(k, v) d. AList.update k v d) ps d) = map_of d ++ map_of (rev ps)"
  by (induction ps arbitrary: d) (auto simp: update_conv' map_add_def fun_eq_iff split: option.splits)

lemma map_of_dict_of_pairs [py_simps]: "map_of (dict_of_pairs ps) = map_of (rev ps)"
  by (simp add: dict_of_pairs_def map_of_fold_update)

text \<open>Association lists built from a list of distinct keys.\<close>

lemma map_of_map_pairs: "map_of (map (\<lambda>k. (k, f k)) ks) k = (if k \<in> set ks then Some (f k) else None)"
  by (induction ks) auto

lemma update_map_pairs:
  "distinct ks \<Longrightarrow> AList.update k v (map (\<lambda>k'. (k', f k')) ks) =
     (if k \<in> set ks then map (\<lambda>k'. (k', if k' = k then v else f k')) ks
      else map (\<lambda>k'. (k', f k')) ks @ [(k, v)])"
  by (induction ks) auto

subsection \<open>Lists\<close>

text \<open>The distinct elements of a list in the order of their first occurrence, the order in
  which a Python dictionary keeps its keys. (\<open>remdups\<close> keeps the last occurrence.)\<close>

definition first_seen :: "'a list \<Rightarrow> 'a list" where
  "first_seen xs = rev (remdups (rev xs))"

lemma first_seen_Nil [simp]: "first_seen [] = []"
  by (simp add: first_seen_def)

lemma first_seen_snoc:
  "first_seen (xs @ [x]) = (if x \<in> set xs then first_seen xs else first_seen xs @ [x])"
  by (simp add: first_seen_def)

lemma set_first_seen [simp]: "set (first_seen xs) = set xs"
  by (simp add: first_seen_def)

lemma distinct_first_seen [simp]: "distinct (first_seen xs)"
  by (simp add: first_seen_def)

end
