(* ===== verification/PyNum.thy ===== *)
theory PyNum
  imports Prelude
begin

text \<open>
  The Python built-ins the reader applies to CSV cells: \<^verbatim>\<open>int(s)\<close> and
  \<^verbatim>\<open>float(s)\<close> on strings (CPython's \<^verbatim>\<open>PyLong_FromString\<close> and
  \<^verbatim>\<open>PyFloat_FromString\<close>, base 10), and the float arithmetic that
  \<^verbatim>\<open>sum(...) / len(...)\<close> and the report's sort perform. Both parsers strip Python
  whitespace, take an optional sign, and allow single underscores between digits;
  \<^verbatim>\<open>int()\<close> refuses literals of more than 4300 digits (CPython 3.11 and later).
\<close>

subsection \<open>Characters\<close>

text \<open>\<^verbatim>\<open>str.isspace\<close> on the code points below 256.\<close>

definition py_isspace :: "char \<Rightarrow> bool" where
  "py_isspace c \<longleftrightarrow> of_char c \<in> {9, 10, 11, 12, 13, 28, 29, 30, 31, 32, 133, 160 :: nat}"

definition is_digit :: "char \<Rightarrow> bool" where
  "is_digit c \<longleftrightarrow> 48 \<le> (of_char c :: nat) \<and> (of_char c :: nat) \<le> 57"

definition digit_val :: "char \<Rightarrow> nat" where
  "digit_val c = of_char c - 48"

definition digits_val :: "string \<Rightarrow> nat" where
  "digits_val ds = foldl (\<lambda>n c. 10 * n + digit_val c) 0 ds"

definition py_strip :: "string \<Rightarrow> string" where
  "py_strip s = rev (dropWhile py_isspace (rev (dropWhile py_isspace s)))"

text \<open>The sign prefix, \<open>True\<close> for a minus sign.\<close>

definition sign_split :: "string \<Rightarrow> bool \<times> string" where
  "sign_split t = (case t of
      [] \<Rightarrow> (False, [])
    | c # r \<Rightarrow> if c = CHR ''-'' then (True, r) else if c = CHR ''+'' then (False, r) else (False, t))"

text \<open>
  The underscore rule of both parsers, as CPython's scan writes it with the previous
  character \<open>prev\<close> (NUL at the start): an underscore must follow a digit, whatever
  follows an underscore must be a digit, and the text must not end in an underscore.
\<close>

fun us_ok :: "char \<Rightarrow> string \<Rightarrow> bool" where
  "us_ok prev [] = (prev \<noteq> CHR ''_'')"
| "us_ok prev (c # cs) =
     (if c = CHR ''_'' then is_digit prev \<and> us_ok c cs
      else (if prev = CHR ''_'' then is_digit c else True) \<and> us_ok c cs)"

subsection \<open>\<^verbatim>\<open>int(s)\<close>\<close>

definition int_max_str_digits :: nat where
  "int_max_str_digits = 4300"

definition py_int_of_str :: "string \<Rightarrow> int result" where
  "py_int_of_str s =
     (let (neg, b) = sign_split (py_strip s)
      in if b \<noteq> [] \<and> list_all (\<lambda>c. is_digit c \<or> c = CHR ''_'') b \<and> us_ok (CHR 0x00) b
         then (let ds = filter is_digit b
               in if int_max_str_digits < length ds
                  then Inl (ValueError (IntDigitLimit (length ds)))
                  else Inr ((if neg then -1 else 1) * int (digits_val ds)))
         else Inl (ValueError (InvalidIntLiteral s)))"

subsection \<open>\<^verbatim>\<open>float(s)\<close>\<close>

definition ascii_lower :: "char \<Rightarrow> char" where
  "ascii_lower c = (if 65 \<le> (of_char c :: nat) \<and> (of_char c :: nat) \<le> 90 then char_of (of_char c + (32 :: nat)) else c)"

definition pow10 :: "int \<Rightarrow> rat" where
  "pow10 k = (if 0 \<le> k then 10 ^ nat k else 1 / 10 ^ nat (- k))"

text \<open>
  The decimal syntax \<open>digits [. digits] [(e|E) [sign] digits]\<close> with at least one
  mantissa digit, read as the exact rational it denotes.
\<close>

definition parse_decimal :: "string \<Rightarrow> rat option" where
  "parse_decimal b =
     (let ip = takeWhile is_digit b; r1 = dropWhile is_digit b;
          (fp, r2) = (case r1 of
                        c # r \<Rightarrow> if c = CHR ''.'' then (takeWhile is_digit r, dropWhile is_digit r)
                                 else ([], r1)
                      | [] \<Rightarrow> ([], []));
          ex = (case r2 of
                  [] \<Rightarrow> Some 0
                | e # r3 \<Rightarrow>
                    if e = CHR ''e'' \<or> e = CHR ''E'' then
                      (let (eneg, ed) = sign_split r3
                       in if ed \<noteq> [] \<and> list_all is_digit ed
                          then Some ((if eneg then -1 else 1) * int (digits_val ed)) else None)
                    else None)
      in if ip @ fp = [] then None
         else (case ex of
                 None \<Rightarrow> None
               | Some k \<Rightarrow> Some (of_nat (digits_val (ip @ fp)) * pow10 (k - int (length fp)))))"

definition parse_float_body :: "string \<Rightarrow> pyfloat option" where
  "parse_float_body t =
     (let (neg, b) = sign_split t; lb = map ascii_lower b
      in if lb = ''inf'' \<or> lb = ''infinity'' then Some (if neg then NInf else PInf)
         else if lb = ''nan'' then Some NaN
         else map_option (\<lambda>r. Fin (if neg then - r else r)) (parse_decimal b))"

definition py_float_of_str :: "string \<Rightarrow> pyfloat result" where
  "py_float_of_str s =
     (if \<not> us_ok (CHR 0x00) s then Inl (ValueError (InvalidFloatLiteral s))
      else (case parse_float_body (filter (\<lambda>c. c \<noteq> CHR ''_'') (py_strip s)) of
              None \<Rightarrow> Inl (ValueError (InvalidFloatLiteral s))
            | Some f \<Rightarrow> Inr f))"

subsection \<open>Float arithmetic and comparison\<close>

text \<open>IEEE addition on the special values; finite sums are exact.\<close>

fun fadd :: "pyfloat \<Rightarrow> pyfloat \<Rightarrow> pyfloat" where
  "fadd NaN y = NaN"
| "fadd x NaN = NaN"
| "fadd PInf NInf = NaN"
| "fadd NInf PInf = NaN"
| "fadd PInf y = PInf"
| "fadd x PInf = PInf"
| "fadd NInf y = NInf"
| "fadd x NInf = NInf"
| "fadd (Fin a) (Fin b) = Fin (a + b)"

lemma fadd_NaN_right [simp]: "fadd x NaN = NaN"
  by (cases x) auto

text \<open>Division by a positive count.\<close>

fun fdiv_nat :: "pyfloat \<Rightarrow> nat \<Rightarrow> pyfloat" where
  "fdiv_nat (Fin a) n = Fin (a / of_nat n)"
| "fdiv_nat x n = x"

text \<open>Python's \<open><\<close> on floats: every comparison with \<^verbatim>\<open>nan\<close> is false.\<close>

fun py_flt :: "pyfloat \<Rightarrow> pyfloat \<Rightarrow> bool" where
  "py_flt (Fin a) (Fin b) = (a < b)"
| "py_flt NInf (Fin b) = True"
| "py_flt NInf PInf = True"
| "py_flt (Fin a) PInf = True"
| "py_flt x y = False"

subsection \<open>Formatting\<close>

text \<open>\<^verbatim>\<open>str(n)\<close> of an integer.\<close>

fun nat_str :: "nat \<Rightarrow> string" where
  "nat_str n = (if n < 10 then [char_of (48 + n)] else nat_str (n div 10) @ [char_of (48 + n mod 10)])"

declare nat_str.simps [simp del]

definition int_str :: "int \<Rightarrow> string" where
  "int_str i = (if i < 0 then CHR ''-'' # nat_str (nat (- i)) else nat_str (nat i))"

text \<open>Rounding half to even, as the fixed-point conversion of \<^verbatim>\<open>format\<close> rounds
  the exact value of a float.\<close>

definition round_half_even :: "rat \<Rightarrow> nat" where
  "round_half_even q =
     (let n = nat \<lfloor>q\<rfloor>; d = q - of_nat n
      in if d < 1 / 2 then n else if 1 / 2 < d then n + 1 else if even n then n else n + 1)"

text \<open>\<^verbatim>\<open>format(x, '.2f')\<close>: the sign of a negative value (kept when the value
  rounds to zero: \<^verbatim>\<open>'-0.00'\<close>), the integer part, a point and two digits.\<close>

definition fmt_fixed2 :: "pyfloat \<Rightarrow> string" where
  "fmt_fixed2 x = (case x of
      Fin r \<Rightarrow>
        (let ds = nat_str (round_half_even (\<bar>r\<bar> * 100));
             ds' = replicate (3 - length ds) CHR ''0'' @ ds
         in (if r < 0 then ''-'' else []) @ take (length ds' - 2) ds' @ ''.'' @ drop (length ds' - 2) ds')
    | PInf \<Rightarrow> ''inf''
    | NInf \<Rightarrow> ''-inf''
    | NaN \<Rightarrow> ''nan'')"

subsection \<open>Evaluation\<close>

text \<open>The floor of a rational literal, for evaluation by \<open>simp\<close>.\<close>

lemma floor_numeral_div [simp]: "\<lfloor>(numeral a / numeral b :: rat)\<rfloor> = numeral a div numeral b"
  using floor_divide_of_int_eq [of "numeral a" "numeral b", where 'a = rat] by simp

lemma floor_one_div [simp]: "\<lfloor>(1 / numeral b :: rat)\<rfloor> = 1 div numeral b"
  using floor_divide_of_int_eq [of 1 "numeral b", where 'a = rat] by simp


lemma Char_eq_char_of:
  "Char b0 b1 b2 b3 b4 b5 b6 b7 = char_of n \<longleftrightarrow> char_of n = Char b0 b1 b2 b3 b4 b5 b6 b7"
  by (rule eq_commute)

lemmas pynum_eval = py_int_of_str_def py_float_of_str_def parse_float_body_def parse_decimal_def
  ascii_lower_def pow10_def py_strip_def py_isspace_def sign_split_def is_digit_def digits_val_def
  digit_val_def int_max_str_digits_def char_of_eq_iff Char_eq_char_of

lemmas fmt_eval = fmt_fixed2_def round_half_even_def nat_str.simps int_str_def char_of_eq_iff Char_eq_char_of Let_def

subsection \<open>\<^verbatim>\<open>int()\<close> reads back what \<^verbatim>\<open>str()\<close> prints\<close>

lemma digit_char: "d < 10 \<Longrightarrow> is_digit (char_of (48 + d)) \<and> digit_val (char_of (48 + d)) = d"
  by (simp add: is_digit_def digit_val_def of_char_of)

lemma nat_str_digits: "list_all is_digit (nat_str n)"
  by (induction n rule: nat_str.induct) (subst nat_str.simps, simp add: digit_char)

lemma nat_str_ne: "nat_str n \<noteq> []"
  by (subst nat_str.simps) simp

lemma digits_val_snoc: "digits_val (xs @ [c]) = 10 * digits_val xs + digit_val c"
  by (simp add: digits_val_def)

lemma digits_val_nat_str: "digits_val (nat_str n) = n"
proof (induction n rule: nat_str.induct)
  case (1 n)
  show ?case
  proof (cases "n < 10")
    case True
    then show ?thesis by (subst nat_str.simps) (simp add: digits_val_def digit_char)
  next
    case False
    then have "digits_val (nat_str n) = 10 * (n div 10) + n mod 10"
      using 1 by (subst nat_str.simps) (simp add: digits_val_snoc digit_char)
    then show ?thesis by simp
  qed
qed

lemma us_ok_no_us: "prev \<noteq> CHR ''_'' \<Longrightarrow> CHR ''_'' \<notin> set cs \<Longrightarrow> us_ok prev cs"
  by (induction prev cs rule: us_ok.induct) auto

lemma digit_not_space: "is_digit c \<Longrightarrow> \<not> py_isspace c"
  by (auto simp: is_digit_def py_isspace_def)

lemma digit_not_us: "is_digit c \<Longrightarrow> c \<noteq> CHR ''_''"
  by (auto simp: is_digit_def)

lemma py_strip_id: "s \<noteq> [] \<Longrightarrow> \<not> py_isspace (hd s) \<Longrightarrow> \<not> py_isspace (last s) \<Longrightarrow> py_strip s = s"
proof -
  assume a: "s \<noteq> []" "\<not> py_isspace (hd s)" "\<not> py_isspace (last s)"
  then have "dropWhile py_isspace s = s" by (simp add: dropWhile_eq_self_iff)
  moreover have "dropWhile py_isspace (rev s) = rev s" using a by (simp add: dropWhile_eq_self_iff hd_rev)
  ultimately show ?thesis by (simp add: py_strip_def)
qed

lemma int_str_cases:
  "int_str i = (if i < 0 then CHR ''-'' # nat_str (nat \<bar>i\<bar>) else nat_str (nat \<bar>i\<bar>))"
  by (simp add: int_str_def)

text \<open>Numbers below \<open>10 ^ k\<close> print in at most \<open>k\<close> digits.\<close>

lemma nat_str_length: "n < 10 ^ k \<Longrightarrow> 0 < k \<Longrightarrow> length (nat_str n) \<le> k"
proof (induction n arbitrary: k rule: nat_str.induct)
  case (1 n)
  show ?case
  proof (cases "n < 10")
    case True
    then show ?thesis using "1.prems" by (subst nat_str.simps) simp
  next
    case False
    from "1.prems"(2) obtain k' where k: "k = Suc k'"
      by (cases k) auto
    have k': "0 < k'"
    proof (rule ccontr)
      assume "\<not> 0 < k'"
      with k "1.prems"(1) False show False by simp
    qed
    have "n div 10 < 10 ^ k'"
      using "1.prems"(1) k by (simp add: less_mult_imp_div_less mult.commute)
    with False k' have "length (nat_str (n div 10)) \<le> k'"
      by (intro "1.IH")
    with False k show ?thesis by (subst nat_str.simps) simp
  qed
qed

lemma int_str_length: "\<bar>i\<bar> < 10 ^ 9 \<Longrightarrow> length (int_str i) \<le> 10"
proof -
  assume "\<bar>i\<bar> < 10 ^ 9"
  then have "nat \<bar>i\<bar> < 10 ^ 9" by (simp add: nat_less_iff)
  then have "length (nat_str (nat \<bar>i\<bar>)) \<le> 9" by (rule nat_str_length) simp
  then show ?thesis by (cases "i < 0") (simp_all add: int_str_def abs_if)
qed

text \<open>\<^verbatim>\<open>int(str(i)) == i\<close> for every integer whose decimal representation
  is within the 4300-digit limit of \<^verbatim>\<open>int()\<close>.\<close>

lemma py_int_of_str_int_str:
  assumes "length (nat_str (nat \<bar>i\<bar>)) \<le> int_max_str_digits"
  shows "py_int_of_str (int_str i) = Inr i"
proof -
  let ?ds = "nat_str (nat \<bar>i\<bar>)"
  have dg: "list_all is_digit ?ds" "?ds \<noteq> []" by (rule nat_str_digits, rule nat_str_ne)
  then have hd: "is_digit (hd ?ds)" "is_digit (last ?ds)" by (auto simp: list_all_iff)
  have us: "CHR ''_'' \<notin> set ?ds" using dg(1) digit_not_us by (auto simp: list_all_iff)
  have flt: "filter is_digit ?ds = ?ds" using dg(1) by (simp add: list_all_iff)
  have minus: "\<not> py_isspace CHR ''-''" by (simp add: py_isspace_def)
  have strip: "py_strip (int_str i) = int_str i"
    using dg(2) hd minus by (intro py_strip_id) (auto simp: int_str_cases digit_not_space)
  have sgn: "sign_split (int_str i) = (i < 0, ?ds)"
    using hd(1) dg(2) by (cases ?ds) (auto simp: int_str_cases sign_split_def is_digit_def)
  have ok: "us_ok (CHR 0x00) ?ds" using us by (intro us_ok_no_us) auto
  show ?thesis
    using assms dg ok strip sgn flt digits_val_nat_str [of "nat \<bar>i\<bar>"]
    by (auto simp: py_int_of_str_def list_all_iff)
qed

end
