(* ===== verification/PyIO.thy ===== *)
theory PyIO
  imports Prelude
begin

text \<open>
  Text-mode file access as the program uses it: \<^verbatim>\<open>open(path, 'r', encoding='utf-8')\<close>
  with the default \<^verbatim>\<open>newline=None\<close>, so that reading translates \<^verbatim>\<open>\r\n\<close> and a lone
  \<^verbatim>\<open>\r\<close> into \<^verbatim>\<open>\n\<close> (universal newlines), and iteration over the file object, which
  yields the text line by line, each line keeping its \<^verbatim>\<open>\n\<close>. The file system is a
  map from paths to entries; a path that is absent makes \<^verbatim>\<open>open\<close> raise
  \<^verbatim>\<open>FileNotFoundError\<close>, a directory \<^verbatim>\<open>IsADirectoryError\<close>.
\<close>

datatype fs_entry = RegularFile string | Directory

type_synonym fs = "string \<rightharpoonup> fs_entry"

abbreviation LF :: char where "LF \<equiv> CHR 0x0A"
abbreviation CR :: char where "CR \<equiv> CHR 0x0D"

fun translate_newlines :: "string \<Rightarrow> string" where
  "translate_newlines [] = []"
| "translate_newlines [c] = (if c = CR then [LF] else [c])"
| "translate_newlines (c # d # cs) =
     (if c = CR then (if d = LF then LF # translate_newlines cs else LF # translate_newlines (d # cs))
      else c # translate_newlines (d # cs))"

definition py_open :: "fs \<Rightarrow> string \<Rightarrow> string result" where
  "py_open fs p = (case fs p of
      None \<Rightarrow> Inl (FileNotFoundError p)
    | Some Directory \<Rightarrow> Inl (IsADirectoryError p)
    | Some (RegularFile s) \<Rightarrow> Inr (translate_newlines s))"

text \<open>\<^verbatim>\<open>for line in file\<close>: the current line \<open>cur\<close> grows until a \<^verbatim>\<open>\n\<close>.\<close>

fun split_lines_acc :: "string \<Rightarrow> string \<Rightarrow> string list" where
  "split_lines_acc cur [] = (if cur = [] then [] else [cur])"
| "split_lines_acc cur (c # cs) =
     (if c = LF then (cur @ [c]) # split_lines_acc [] cs else split_lines_acc (cur @ [c]) cs)"

definition file_lines :: "string \<Rightarrow> string list" where
  "file_lines s = split_lines_acc [] s"

subsection \<open>Facts\<close>

lemma py_open_Inr_iff [simp]:
  "py_open fs p = Inr t \<longleftrightarrow> (\<exists>s. fs p = Some (RegularFile s) \<and> t = translate_newlines s)"
  by (auto simp: py_open_def split: option.splits fs_entry.splits)

lemma py_open_None [simp]: "fs p = None \<Longrightarrow> py_open fs p = Inl (FileNotFoundError p)"
  by (simp add: py_open_def)

lemma CR_not_in_translate_newlines: "CR \<notin> set (translate_newlines s)"
  by (induction s rule: translate_newlines.induct) auto

lemma concat_split_lines_acc: "concat (split_lines_acc cur s) = cur @ s"
  by (induction cur s rule: split_lines_acc.induct) auto

lemma split_lines_acc_nonempty: "l \<in> set (split_lines_acc cur s) \<Longrightarrow> l \<noteq> []"
  by (induction cur s rule: split_lines_acc.induct) (auto split: if_splits)

lemma split_lines_acc_shape:
  "LF \<notin> set cur \<Longrightarrow> l \<in> set (split_lines_acc cur s) \<Longrightarrow> LF \<notin> set (butlast l)"
  by (induction cur s rule: split_lines_acc.induct) (auto split: if_splits dest: in_set_butlastD)

lemma split_lines_acc_ends:
  "ls = split_lines_acc cur s \<Longrightarrow> i < length ls - 1 \<Longrightarrow> last (ls ! i) = LF"
proof (induction cur s arbitrary: ls i rule: split_lines_acc.induct)
  case (1 cur)
  then show ?case by (simp split: if_splits)
next
  case (2 cur c cs)
  show ?case
  proof (cases "c = LF")
    case True
    with "2.prems" show ?thesis
      using "2.IH"(1)[OF True refl, of "i - 1"] by (cases i) auto
  next
    case False
    with "2.prems" show ?thesis using "2.IH"(2)[OF False refl] by simp
  qed
qed

lemma translate_newlines_id: "CR \<notin> set s \<Longrightarrow> translate_newlines s = s"
  by (induction s rule: translate_newlines.induct) auto

end
