(* ===== verification/Delimiter.thy ===== *)
theory Delimiter
  imports PyIO
begin

text \<open>
  \<^verbatim>\<open>detect_delimiter\<close> (src/script/reader.py): read the first 1024 characters of the
  file (after newline translation), count commas, tabs and semicolons, and return the one
  whose count is strictly greater than both others, a comma otherwise.
\<close>

abbreviation TAB :: char where "TAB \<equiv> CHR 0x09"

definition sample_size :: nat where
  "sample_size = 1024"

definition choose_delimiter :: "string \<Rightarrow> char" where
  "choose_delimiter sample =
     (let comma_count = count_list sample (CHR '','');
          tab_count = count_list sample TAB;
          semicolon_count = count_list sample (CHR '';'')
      in if comma_count > tab_count \<and> comma_count > semicolon_count then CHR '',''
         else if tab_count > comma_count \<and> tab_count > semicolon_count then TAB
         else if semicolon_count > comma_count \<and> semicolon_count > tab_count then CHR '';''
         else CHR '','')"

definition detect_delimiter :: "fs \<Rightarrow> string \<Rightarrow> char result" where
  "detect_delimiter fs p = ebind (py_open fs p) (\<lambda>text. Inr (choose_delimiter (take sample_size text)))"

definition delimiters :: "char set" where
  "delimiters = {CHR '','', TAB, CHR '';''}"

lemma detect_delimiter_Inr_iff [simp]:
  "detect_delimiter fs p = Inr d \<longleftrightarrow>
     (\<exists>s. fs p = Some (RegularFile s) \<and> d = choose_delimiter (take sample_size (translate_newlines s)))"
  by (auto simp: detect_delimiter_def)

lemma detect_delimiter_Inl_iff:
  "detect_delimiter fs p = Inl e \<longleftrightarrow> py_open fs p = Inl e"
  by (cases "py_open fs p") (auto simp: detect_delimiter_def)

lemma choose_delimiter_in: "choose_delimiter s \<in> delimiters"
  by (simp add: choose_delimiter_def delimiters_def Let_def)

lemma count_list_0_iff: "count_list xs x = 0 \<longleftrightarrow> x \<notin> set xs"
  by (induction xs) auto

text \<open>The candidate \<open>c\<close> occurs strictly more often in \<open>s\<close> than each other candidate.\<close>

definition strictly_dominant :: "string \<Rightarrow> char \<Rightarrow> bool" where
  "strictly_dominant s c \<longleftrightarrow> (\<forall>c'\<in>delimiters - {c}. count_list s c' < count_list s c)"

lemma delimiters_distinct [simp]:
  "CHR '','' \<noteq> TAB" "TAB \<noteq> CHR '';''" "CHR '','' \<noteq> CHR '';''"
  by simp_all

lemma strictly_dominant_iff:
  "strictly_dominant s CHR '','' \<longleftrightarrow>
     count_list s TAB < count_list s CHR '','' \<and> count_list s CHR '';'' < count_list s CHR '',''"
  "strictly_dominant s TAB \<longleftrightarrow>
     count_list s CHR '','' < count_list s TAB \<and> count_list s CHR '';'' < count_list s TAB"
  "strictly_dominant s CHR '';'' \<longleftrightarrow>
     count_list s CHR '','' < count_list s CHR '';'' \<and> count_list s TAB < count_list s CHR '';''"
  by (auto simp: strictly_dominant_def delimiters_def)

lemma choose_delimiter_spec:
  "choose_delimiter s \<in> delimiters \<and>
   (strictly_dominant s (choose_delimiter s) \<or>
    (choose_delimiter s = CHR '','' \<and> (\<forall>c\<in>delimiters. \<not> strictly_dominant s c)))"
  by (auto simp: choose_delimiter_def Let_def delimiters_def strictly_dominant_iff)

subsection \<open>Properties of \<^verbatim>\<open>detect_delimiter\<close>\<close>

text \<open>C16: For a readable file, \<^verbatim>\<open>detect_delimiter\<close> returns one of comma, tab and
  semicolon: the one that occurs strictly more often than each of the other two in the
  first 1024 characters of the text, and a comma when none does (a tie, or none of the
  three present).\<close>

theorem detect_delimiter_strict_max:
  assumes "fs p = Some (RegularFile t)"
  shows "\<exists>d. detect_delimiter fs p = Inr d \<and> d \<in> delimiters \<and>
           (strictly_dominant (take sample_size (translate_newlines t)) d \<or>
            (d = CHR '','' \<and> (\<forall>c\<in>delimiters. \<not> strictly_dominant (take sample_size (translate_newlines t)) c)))"
  using assms choose_delimiter_spec [of "take sample_size (translate_newlines t)"] by simp

theorem detect_delimiter_strict_max_witness:
  "detect_delimiter [''x.csv'' \<mapsto> RegularFile ''a;b;c\<newline>1,5;2;3''] ''x.csv'' = Inr CHR '';''
   \<and> count_list (take sample_size (translate_newlines ''a;b;c\<newline>1,5;2;3'')) CHR '','' = 1
   \<and> count_list (take sample_size (translate_newlines ''a;b;c\<newline>1,5;2;3'')) CHR '';'' = 4
   \<and> count_list (take sample_size (translate_newlines ''a;b;c\<newline>1,5;2;3'')) TAB = 0"
proof -
  let ?t = "''a;b;c\<newline>1,5;2;3''"
  obtain d where d: "detect_delimiter [''x.csv'' \<mapsto> RegularFile ?t] ''x.csv'' = Inr d"
    "strictly_dominant (take sample_size (translate_newlines ?t)) d \<or>
     (d = CHR '','' \<and> (\<forall>c\<in>delimiters. \<not> strictly_dominant (take sample_size (translate_newlines ?t)) c))"
    using detect_delimiter_strict_max [of "[''x.csv'' \<mapsto> RegularFile ?t]" "''x.csv''" ?t] by auto
  have dom: "strictly_dominant (take sample_size (translate_newlines ?t)) CHR '';''"
    by (simp add: strictly_dominant_iff sample_size_def)
  have "d \<in> delimiters" using d(1) choose_delimiter_in by auto
  then have "d = CHR '';''"
    using d(2) dom by (auto simp: delimiters_def strictly_dominant_iff)
  with d(1) show ?thesis by (simp add: sample_size_def)
qed

end
