(* ===== verification/Csv.thy ===== *)
theory Csv
  imports PyIO
begin

text \<open>
  \<^verbatim>\<open>csv.reader\<close> and \<^verbatim>\<open>csv.DictReader\<close> as \<^verbatim>\<open>read_csv_files\<close> uses them: the dialect
  is Excel's with the detected delimiter, so the quote character is \<^verbatim>\<open>"\<close>, quotes
  inside a quoted field are doubled, there is no escape character, initial spaces are kept
  and the parser is not strict. The parser is CPython's state machine
  (\<^verbatim>\<open>Modules/_csv.c\<close>, \<^verbatim>\<open>parse_process_char\<close>): one step per character of a line and
  one for the end of the line (\<open>EOL\<close>); \<^verbatim>\<open>Reader_iternext\<close> feeds lines until the
  machine is back at the start of a record. The two escape states are unreachable without
  an escape character and are left out. A field may not grow past
  \<^verbatim>\<open>csv.field_size_limit()\<close>, 131072 characters.
\<close>

datatype pstate =
    START_RECORD | START_FIELD | IN_FIELD | IN_QUOTED_FIELD | QUOTE_IN_QUOTED_FIELD | EAT_CRNL

datatype sym = Chr char | EOL

record parser =
  p_state :: pstate
  p_fields :: "string list"
  p_field :: string

abbreviation QUOTE :: char where "QUOTE \<equiv> CHR 0x22"

definition field_limit :: nat where
  "field_limit = 131072"

definition parser_init :: parser where
  "parser_init = \<lparr>p_state = START_RECORD, p_fields = [], p_field = []\<rparr>"

definition add_char :: "char \<Rightarrow> parser \<Rightarrow> parser result" where
  "add_char c p =
     (if field_limit \<le> length (p_field p) then Inl (CsvError (FieldLimit field_limit))
      else Inr (p\<lparr>p_field := p_field p @ [c]\<rparr>))"

definition save_field :: "parser \<Rightarrow> parser" where
  "save_field p = p\<lparr>p_fields := p_fields p @ [p_field p], p_field := []\<rparr>"

text \<open>\<^verbatim>\<open>c == '\n' || c == '\r'\<close>\<close>

fun is_nl :: "sym \<Rightarrow> bool" where
  "is_nl (Chr c) = (c = LF \<or> c = CR)"
| "is_nl EOL = False"

definition end_state :: "sym \<Rightarrow> pstate" where
  "end_state s = (if s = EOL then START_RECORD else EAT_CRNL)"

text \<open>
  The \<^verbatim>\<open>START_FIELD\<close> case, shared by the fall-through from \<^verbatim>\<open>START_RECORD\<close>.
\<close>

definition start_field :: "char \<Rightarrow> sym \<Rightarrow> parser \<Rightarrow> parser result" where
  "start_field d s p =
     (if is_nl s \<or> s = EOL then Inr ((save_field p)\<lparr>p_state := end_state s\<rparr>)
      else if s = Chr QUOTE then Inr (p\<lparr>p_state := IN_QUOTED_FIELD\<rparr>)
      else if s = Chr d then Inr (save_field p)
      else (case s of Chr c \<Rightarrow> ebind (add_char c p) (\<lambda>p'. Inr (p'\<lparr>p_state := IN_FIELD\<rparr>))
                    | EOL \<Rightarrow> Inr p))"

fun process_char :: "char \<Rightarrow> sym \<Rightarrow> parser \<Rightarrow> parser result" where
  "process_char d s p =
     (case p_state p of
        START_RECORD \<Rightarrow>
          (if s = EOL then Inr p
           else if is_nl s then Inr (p\<lparr>p_state := EAT_CRNL\<rparr>)
           else start_field d s (p\<lparr>p_state := START_FIELD\<rparr>))
      | START_FIELD \<Rightarrow> start_field d s p
      | IN_FIELD \<Rightarrow>
          (if is_nl s \<or> s = EOL then Inr ((save_field p)\<lparr>p_state := end_state s\<rparr>)
           else if s = Chr d then Inr ((save_field p)\<lparr>p_state := START_FIELD\<rparr>)
           else (case s of Chr c \<Rightarrow> add_char c p | EOL \<Rightarrow> Inr p))
      | IN_QUOTED_FIELD \<Rightarrow>
          (if s = EOL then Inr p
           else if s = Chr QUOTE then Inr (p\<lparr>p_state := QUOTE_IN_QUOTED_FIELD\<rparr>)
           else (case s of Chr c \<Rightarrow> add_char c p | EOL \<Rightarrow> Inr p))
      | QUOTE_IN_QUOTED_FIELD \<Rightarrow>
          (if s = Chr QUOTE then ebind (add_char QUOTE p) (\<lambda>p'. Inr (p'\<lparr>p_state := IN_QUOTED_FIELD\<rparr>))
           else if s = Chr d then Inr ((save_field p)\<lparr>p_state := START_FIELD\<rparr>)
           else if is_nl s \<or> s = EOL then Inr ((save_field p)\<lparr>p_state := end_state s\<rparr>)
           else (case s of Chr c \<Rightarrow> ebind (add_char c p) (\<lambda>p'. Inr (p'\<lparr>p_state := IN_FIELD\<rparr>))
                         | EOL \<Rightarrow> Inr p))
      | EAT_CRNL \<Rightarrow>
          (if is_nl s then Inr p
           else if s = EOL then Inr (p\<lparr>p_state := START_RECORD\<rparr>)
           else Inl (CsvError NewlineInUnquoted)))"

declare process_char.simps [simp del]

text \<open>One line: its characters, then \<open>EOL\<close>.\<close>

fun process_line :: "char \<Rightarrow> string \<Rightarrow> parser \<Rightarrow> parser result" where
  "process_line d [] p = process_char d EOL p"
| "process_line d (c # cs) p = ebind (process_char d (Chr c) p) (process_line d cs)"

text \<open>
  \<^verbatim>\<open>Reader_iternext\<close>: feed lines until the machine is back at \<^verbatim>\<open>START_RECORD\<close>; at
  the end of the input a pending field (or an open quote) is saved and returned, and
  otherwise iteration stops (\<open>None\<close>). The result also gives the lines not yet read.
\<close>

fun reader_next :: "char \<Rightarrow> string list \<Rightarrow> parser \<Rightarrow> (string list option \<times> string list) result" where
  "reader_next d [] p =
     (if p_field p \<noteq> [] \<or> p_state p = IN_QUOTED_FIELD then Inr (Some (p_fields (save_field p)), [])
      else Inr (None, []))"
| "reader_next d (l # ls) p =
     ebind (process_line d l p)
       (\<lambda>p'. if p_state p' = START_RECORD then Inr (Some (p_fields p'), ls) else reader_next d ls p')"

lemma reader_next_shorter:
  "reader_next d ls p = Inr (x, ls') \<Longrightarrow> length ls' < length ls \<or> (ls = [] \<and> ls' = [])"
proof (induction ls arbitrary: p x ls')
  case Nil
  then show ?case by (simp split: if_splits)
next
  case (Cons l ls)
  then obtain p' where p': "process_line d l p = Inr p'"
    and rest: "(if p_state p' = START_RECORD then Inr (Some (p_fields p'), ls) else reader_next d ls p')
               = Inr (x, ls')"
    by auto
  show ?case
  proof (cases "p_state p' = START_RECORD")
    case True
    with rest show ?thesis by simp
  next
    case False
    with rest Cons.IH [of p' x ls'] show ?thesis by auto
  qed
qed

lemma reader_next_init_Nil [simp]: "reader_next d [] parser_init = Inr (None, [])"
  by (simp add: parser_init_def)

lemma reader_next_init_shorter:
  "reader_next d ls parser_init = Inr (Some r, ls') \<Longrightarrow> length ls' < length ls"
  using reader_next_shorter [of d ls parser_init "Some r" ls'] by (cases ls) (auto simp: parser_init_def)

text \<open>
  Iterating the reader to exhaustion: the rows it yields in order and, if it stopped
  with an exception, that exception (raised after the rows before it were consumed).
\<close>

function reader_rows :: "char \<Rightarrow> string list \<Rightarrow> string list list \<times> exc option" where
  "reader_rows d ls =
     (case reader_next d ls parser_init of
        Inl e \<Rightarrow> ([], Some e)
      | Inr (None, _) \<Rightarrow> ([], None)
      | Inr (Some r, ls') \<Rightarrow> (case reader_rows d ls' of (rs, e) \<Rightarrow> (r # rs, e)))"
  by pat_completeness auto
termination
  by (relation "measure (\<lambda>(d, ls). length ls)") (auto dest: reader_next_init_shorter)

declare reader_rows.simps [simp del]

text \<open>The measure of the termination proof, for the records: each one consumes a line.\<close>

lemma reader_rows_length: "length (fst (reader_rows d ls)) \<le> length ls"
proof (induction d ls rule: reader_rows.induct)
  case (1 d ls)
  show ?case
  proof (cases "reader_next d ls parser_init")
    case (Inl e)
    then show ?thesis by (simp add: reader_rows.simps)
  next
    case (Inr res)
    then obtain x ls' where r: "reader_next d ls parser_init = Inr (x, ls')" by (cases res) auto
    show ?thesis
    proof (cases x)
      case None
      with r show ?thesis by (simp add: reader_rows.simps)
    next
      case (Some row)
      with r have "length ls' < length ls" using reader_next_init_shorter by blast
      moreover have "length (fst (reader_rows d ls')) \<le> length ls'" using 1 r Some by blast
      ultimately show ?thesis using r Some
        by (simp add: reader_rows.simps [of d ls] prod.case_eq_if)
    qed
  qed
qed

subsection \<open>\<^verbatim>\<open>csv.DictReader\<close>\<close>

text \<open>
  One data row as a dictionary: \<^verbatim>\<open>dict(zip(fieldnames, row))\<close>, surplus cells as a
  list under the key \<^verbatim>\<open>None\<close> (\<^verbatim>\<open>restkey\<close>), missing cells as \<^verbatim>\<open>None\<close>
  (\<^verbatim>\<open>restval\<close>).
\<close>

definition dict_row :: "string list \<Rightarrow> string list \<Rightarrow> pydict" where
  "dict_row fns row =
     (let d = dict_of_pairs (zip (map KStr fns) (map VStr row)); lf = length fns; lr = length row
      in if lf < lr then AList.update KNone (VList (drop lf row)) d
         else if lr < lf then fold (\<lambda>k d. AList.update (KStr k) VNone d) (drop lr fns) d
         else d)"

text \<open>
  The first row is the header (\<^verbatim>\<open>fieldnames\<close>); empty rows after it are skipped. An
  exception of the underlying reader surfaces after the rows before it.
\<close>

fun dict_reader :: "string list list \<times> exc option \<Rightarrow> pydict list \<times> exc option" where
  "dict_reader ([], e) = ([], e)"
| "dict_reader (h # rs, e) = (map (dict_row h) (filter (\<lambda>r. r \<noteq> []) rs), e)"

subsection \<open>Evaluation\<close>

lemmas csv_eval = reader_rows.simps file_lines_def parser_init_def process_char.simps start_field_def
  add_char_def save_field_def field_limit_def end_state_def dict_row_def dict_of_pairs_def

subsection \<open>Field sizes stay within the limit\<close>

definition fields_bounded :: "parser \<Rightarrow> bool" where
  "fields_bounded p \<longleftrightarrow> length (p_field p) \<le> field_limit \<and> (\<forall>f\<in>set (p_fields p). length f \<le> field_limit)"

lemma add_char_bounded: "add_char c p = Inr p' \<Longrightarrow> fields_bounded p \<Longrightarrow> fields_bounded p'"
  by (auto simp: add_char_def fields_bounded_def split: if_splits)

lemma save_field_bounded: "fields_bounded p \<Longrightarrow> fields_bounded (save_field p)"
  by (auto simp: save_field_def fields_bounded_def)

lemma fields_bounded_state [simp]: "fields_bounded (p\<lparr>p_state := st\<rparr>) = fields_bounded p"
  by (simp add: fields_bounded_def)

lemma start_field_bounded: "start_field d s p = Inr p' \<Longrightarrow> fields_bounded p \<Longrightarrow> fields_bounded p'"
  by (auto simp: start_field_def save_field_bounded split: if_splits sym.splits dest: add_char_bounded)

lemma process_char_bounded:
  "process_char d s p = Inr p' \<Longrightarrow> fields_bounded p \<Longrightarrow> fields_bounded p'"
  by (auto simp: process_char.simps save_field_bounded split: pstate.splits if_splits sym.splits
           dest: add_char_bounded start_field_bounded)

lemma process_line_bounded:
  "process_line d cs p = Inr p' \<Longrightarrow> fields_bounded p \<Longrightarrow> fields_bounded p'"
  by (induction d cs p rule: process_line.induct) (auto dest: process_char_bounded)

lemma reader_next_bounded:
  "reader_next d ls p = Inr (Some r, ls') \<Longrightarrow> fields_bounded p \<Longrightarrow> \<forall>f\<in>set r. length f \<le> field_limit"
proof (induction d ls p rule: reader_next.induct)
  case (1 d p)
  then show ?case by (auto simp: fields_bounded_def save_field_def split: if_splits)
next
  case (2 d l ls p)
  then obtain p' where p': "process_line d l p = Inr p'" by auto
  have b: "fields_bounded p'" by (rule process_line_bounded [OF p' "2.prems"(2)])
  show ?case
  proof (cases "p_state p' = START_RECORD")
    case True
    with p' "2.prems"(1) b show ?thesis by (auto simp: fields_bounded_def)
  next
    case False
    with p' "2.prems"(1) have "reader_next d ls p' = Inr (Some r, ls')" by simp
    with "2.IH"[of p'] False b show ?thesis by blast
  qed
qed

lemma fields_bounded_init: "fields_bounded parser_init"
  by (simp add: fields_bounded_def parser_init_def)

lemma reader_rows_bounded:
  "r \<in> set (fst (reader_rows d ls)) \<Longrightarrow> f \<in> set r \<Longrightarrow> length f \<le> field_limit"
proof (induction d ls rule: reader_rows.induct)
  case (1 d ls)
  show ?case
  proof (cases "reader_next d ls parser_init")
    case (Inl e)
    with "1.prems" show ?thesis by (simp add: reader_rows.simps)
  next
    case (Inr x)
    obtain y ls' where x: "x = (y, ls')" by (cases x)
    show ?thesis
    proof (cases y)
      case None
      with "1.prems" Inr x show ?thesis by (simp add: reader_rows.simps)
    next
      case (Some r0)
      with Inr x have rn: "reader_next d ls parser_init = Inr (Some r0, ls')" by simp
      from "1.prems"(1) rn have "r = r0 \<or> r \<in> set (fst (reader_rows d ls'))"
        by (simp add: reader_rows.simps split: prod.splits)
      then show ?thesis
      proof
        assume "r = r0"
        with reader_next_bounded [OF rn fields_bounded_init] "1.prems"(2) show ?thesis by blast
      next
        assume "r \<in> set (fst (reader_rows d ls'))"
        with "1.IH"[OF Inr x [symmetric] Some] "1.prems"(2) show ?thesis by blast
      qed
    qed
  qed
qed


subsection \<open>The only exception on file input is the field limit\<close>

definition field_limit_error :: exc where
  "field_limit_error = CsvError (FieldLimit field_limit)"

lemma add_char_Inl: "add_char c p = Inl e \<Longrightarrow> e = field_limit_error"
  by (simp add: add_char_def field_limit_error_def split: if_splits)

lemma start_field_Inl: "start_field d s p = Inl e \<Longrightarrow> e = field_limit_error"
  by (auto simp: start_field_def split: if_splits sym.splits dest: add_char_Inl)

lemma save_field_sel [simp]:
  "p_state (save_field p) = p_state p" "p_field (save_field p) = []"
  "p_fields (save_field p) = p_fields p @ [p_field p]"
  by (simp_all add: save_field_def)

lemma start_field_not_eat:
  "start_field d s p = Inr p' \<Longrightarrow> p_state p \<noteq> EAT_CRNL \<Longrightarrow> \<not> is_nl s \<Longrightarrow> p_state p' \<noteq> EAT_CRNL"
  by (auto simp: start_field_def end_state_def add_char_def split: if_splits sym.splits)

lemma process_char_Inl:
  "process_char d s p = Inl e \<Longrightarrow> e = field_limit_error \<or> (p_state p = EAT_CRNL \<and> \<not> is_nl s \<and> s \<noteq> EOL)"
  by (auto simp: process_char.simps split: pstate.splits if_splits sym.splits
           dest: add_char_Inl start_field_Inl)

lemma process_char_not_eat:
  "process_char d s p = Inr p' \<Longrightarrow> p_state p \<noteq> EAT_CRNL \<Longrightarrow> \<not> is_nl s \<Longrightarrow> p_state p' \<noteq> EAT_CRNL"
  by (auto simp: process_char.simps end_state_def add_char_def split: pstate.splits if_splits sym.splits
           dest: start_field_not_eat)

lemma process_char_EOL_not_eat:
  "process_char d EOL p = Inr p' \<Longrightarrow> p_state p' \<noteq> EAT_CRNL"
  by (auto simp: process_char.simps start_field_def end_state_def split: pstate.splits if_splits)

lemma reader_next_rest: "reader_next d ls p = Inr (x, ls') \<Longrightarrow> set ls' \<subseteq> set ls"
proof (induction d ls p rule: reader_next.induct)
  case (2 d l ls p)
  then show ?case by (auto split: if_splits)
qed (simp split: if_splits)

text \<open>A line whose only line break is its last character.\<close>

lemma process_line_safe:
  assumes "p_state p \<noteq> EAT_CRNL" "LF \<notin> set (butlast cs)" "CR \<notin> set cs"
  shows "(process_line d cs p = Inl e \<longrightarrow> e = field_limit_error)
       \<and> (process_line d cs p = Inr p' \<longrightarrow> p_state p' \<noteq> EAT_CRNL)"
  using assms
proof (induction cs arbitrary: p)
  case Nil
  then show ?case by (auto dest: process_char_Inl process_char_EOL_not_eat)
next
  case (Cons c cs)
  show ?case
  proof (cases "process_char d (Chr c) p")
    case (Inl e')
    with Cons.prems(1) show ?thesis by (auto dest: process_char_Inl)
  next
    case (Inr p1)
    show ?thesis
    proof (cases "cs = []")
      case True
      have "process_line d [] p1 = process_char d EOL p1" by simp
      with Inr True show ?thesis
        by (auto dest: process_char_Inl process_char_EOL_not_eat)
    next
      case False
      with Cons.prems(2,3) have "\<not> is_nl (Chr c)" by auto
      with Inr Cons.prems(1) have "p_state p1 \<noteq> EAT_CRNL" by (rule process_char_not_eat)
      moreover from False Cons.prems(2,3) have "LF \<notin> set (butlast cs)" "CR \<notin> set cs"
        by (auto dest: in_set_butlastD)
      ultimately have "(process_line d cs p1 = Inl e \<longrightarrow> e = field_limit_error)
          \<and> (process_line d cs p1 = Inr p' \<longrightarrow> p_state p' \<noteq> EAT_CRNL)"
        by (rule Cons.IH)
      with Inr show ?thesis by simp
    qed
  qed
qed

definition line_shaped :: "string \<Rightarrow> bool" where
  "line_shaped l \<longleftrightarrow> LF \<notin> set (butlast l) \<and> CR \<notin> set l"

lemma reader_next_safe:
  "reader_next d ls p = Inl e \<Longrightarrow> p_state p \<noteq> EAT_CRNL \<Longrightarrow> list_all line_shaped ls \<Longrightarrow> e = field_limit_error"
proof (induction d ls p rule: reader_next.induct)
  case (1 d p)
  then show ?case by (simp split: if_splits)
next
  case (2 d l ls p)
  show ?case
  proof (cases "process_line d l p")
    case (Inl e')
    with "2.prems" process_line_safe [of p l d e'] show ?thesis by (auto simp: line_shaped_def)
  next
    case (Inr p')
    with "2.prems"(2,3) process_line_safe [of p l d _ p'] have "p_state p' \<noteq> EAT_CRNL"
      by (auto simp: line_shaped_def)
    with Inr "2.prems" "2.IH"[of p'] show ?thesis by (auto split: if_splits)
  qed
qed

lemma reader_rows_safe:
  "list_all line_shaped ls \<Longrightarrow> snd (reader_rows d ls) = Some e \<Longrightarrow> e = field_limit_error"
proof (induction d ls rule: reader_rows.induct)
  case (1 d ls)
  show ?case
  proof (cases "reader_next d ls parser_init")
    case (Inl e')
    with "1.prems" reader_next_safe [of d ls parser_init e'] show ?thesis
      by (simp add: reader_rows.simps parser_init_def)
  next
    case (Inr x)
    obtain y ls' where x: "x = (y, ls')" by (cases x)
    show ?thesis
    proof (cases y)
      case None
      with "1.prems" Inr x show ?thesis by (simp add: reader_rows.simps)
    next
      case (Some r0)
      with Inr x have rn: "reader_next d ls parser_init = Inr (Some r0, ls')" by simp
      from "1.prems"(1) reader_next_rest [OF rn] have "list_all line_shaped ls'"
        by (auto simp: list_all_iff)
      moreover from "1.prems"(2) rn have "snd (reader_rows d ls') = Some e"
        by (simp add: reader_rows.simps split: prod.splits)
      ultimately show ?thesis using "1.IH"[OF Inr x [symmetric] Some] by blast
    qed
  qed
qed

lemma file_lines_shaped: "CR \<notin> set t \<Longrightarrow> list_all line_shaped (file_lines t)"
proof -
  assume cr: "CR \<notin> set t"
  have "LF \<notin> set (butlast l) \<and> CR \<notin> set l" if l: "l \<in> set (file_lines t)" for l
  proof
    from l show "LF \<notin> set (butlast l)"
      unfolding file_lines_def by (rule split_lines_acc_shape [rotated]) simp
    from l have "set l \<subseteq> set (concat (file_lines t))" by auto
    also have "concat (file_lines t) = t" by (simp add: file_lines_def concat_split_lines_acc)
    finally show "CR \<notin> set l" using cr by blast
  qed
  then show ?thesis by (simp add: list_all_iff line_shaped_def)
qed

subsection \<open>Files of plain rows read back as their rows\<close>

text \<open>
  \<open>split_fields\<close> and \<open>join_fields\<close> are Python's \<^verbatim>\<open>str.split(d)\<close> and
  \<^verbatim>\<open>d.join(...)\<close>; \<open>csv_text d rows\<close> is the text of a file written row by row,
  without a final newline.
\<close>

fun split_fields :: "char \<Rightarrow> string \<Rightarrow> string list" where
  "split_fields d [] = [[]]"
| "split_fields d (c # cs) =
     (if c = d then [] # split_fields d cs
      else (case split_fields d cs of w # ws \<Rightarrow> (c # w) # ws | [] \<Rightarrow> [[c]]))"

fun join_fields :: "char \<Rightarrow> string list \<Rightarrow> string" where
  "join_fields d [] = []"
| "join_fields d [f] = f"
| "join_fields d (f # g # fs) = f @ d # join_fields d (g # fs)"

lemma split_fields_ne [simp]: "split_fields d xs \<noteq> []"
  by (induction xs) (auto split: list.splits)

lemma split_fields_append:
  "d \<notin> set xs \<Longrightarrow> split_fields d (xs @ ys) =
     (case split_fields d ys of w # ws \<Rightarrow> (xs @ w) # ws | [] \<Rightarrow> [xs])"
  by (induction xs) (auto split: list.splits)

lemma split_fields_join:
  "r \<noteq> [] \<Longrightarrow> \<forall>f\<in>set r. d \<notin> set f \<Longrightarrow> split_fields d (join_fields d r) = r"
proof (induction r rule: induct_list012)
  case (2 x)
  then show ?case using split_fields_append [of d x "[]"] by simp
next
  case (3 x y zs)
  then have "split_fields d (join_fields d (y # zs)) = y # zs" by simp
  with "3.prems" show ?case
    using split_fields_append [of d x "d # join_fields d (y # zs)"] by simp
qed simp

lemma split_fields_single: "d \<notin> set xs \<Longrightarrow> split_fields d xs = [xs]"
  using split_fields_append [of d xs "[]"] by simp

lemma map_of_dict_row_single:
  "row \<noteq> [] \<Longrightarrow> k \<noteq> h \<Longrightarrow> map_of (dict_row [h] row) (KStr k) = None"
  by (cases row) (auto simp: dict_row_def Let_def map_of_dict_of_pairs update_conv')

definition simple_chars :: "string \<Rightarrow> bool" where
  "simple_chars l \<longleftrightarrow> QUOTE \<notin> set l \<and> LF \<notin> set l \<and> CR \<notin> set l"

lemma process_char_start_record:
  "p_state p = START_RECORD \<Longrightarrow> \<not> is_nl s \<Longrightarrow> s \<noteq> EOL \<Longrightarrow>
   process_char d s p = process_char d s (p\<lparr>p_state := START_FIELD\<rparr>)"
  by (simp add: process_char.simps)

lemma process_line_unquoted:
  assumes "simple_chars cs" "d \<notin> {QUOTE, LF, CR}" "d \<notin> set (p_field p)"
    "p_state p = IN_FIELD \<or> (p_state p = START_FIELD \<and> p_field p = [])"
    "length (p_field p) + length cs \<le> field_limit" "eol = [] \<or> eol = [LF]"
  shows "process_line d (cs @ eol) p =
    Inr (p\<lparr>p_state := START_RECORD, p_fields := p_fields p @ split_fields d (p_field p @ cs), p_field := []\<rparr>)"
  using assms
proof (induction cs arbitrary: p)
  case Nil
  from Nil.prems(3,4,6) show ?case
    using split_fields_append [of d "p_field p" "[]"]
    by (auto simp: process_char.simps start_field_def save_field_def end_state_def)
next
  case (Cons c cs)
  show ?case
  proof (cases "c = d")
    case True
    let ?p = "(save_field p)\<lparr>p_state := START_FIELD\<rparr>"
    have step: "process_char d (Chr c) p = Inr ?p"
      using Cons.prems(2,4) True
      by (auto simp: process_char.simps start_field_def end_state_def save_field_def)
    have "process_line d (cs @ eol) ?p =
        Inr (?p\<lparr>p_state := START_RECORD, p_fields := p_fields ?p @ split_fields d (p_field ?p @ cs), p_field := []\<rparr>)"
      using Cons.prems by (intro Cons.IH) (auto simp: simple_chars_def)
    with step True Cons.prems(3) show ?thesis
      using split_fields_append [of d "p_field p" "d # cs"] by simp
  next
    case False
    let ?p = "p\<lparr>p_state := IN_FIELD, p_field := p_field p @ [c]\<rparr>"
    have step: "process_char d (Chr c) p = Inr ?p"
      using Cons.prems(1,4,5) False
      by (auto simp: process_char.simps start_field_def add_char_def simple_chars_def)
    have "process_line d (cs @ eol) ?p =
        Inr (?p\<lparr>p_state := START_RECORD, p_fields := p_fields ?p @ split_fields d (p_field ?p @ cs), p_field := []\<rparr>)"
      using Cons.prems False by (intro Cons.IH) (auto simp: simple_chars_def)
    with step show ?thesis by simp
  qed
qed


definition strip_lf :: "string \<Rightarrow> string" where
  "strip_lf x = (if x \<noteq> [] \<and> last x = LF then butlast x else x)"

definition simple_line :: "string \<Rightarrow> bool" where
  "simple_line x \<longleftrightarrow> (\<exists>l e. x = l @ e \<and> (e = [] \<or> e = [LF]) \<and> l \<noteq> [] \<and> simple_chars l \<and> length l \<le> field_limit)"

lemma strip_lf_simple:
  assumes "x = l @ e" "e = [] \<or> e = [LF]" "l \<noteq> []" "simple_chars l"
  shows "strip_lf x = l"
proof -
  have "last l \<noteq> LF" using last_in_set [OF assms(3)] assms(4) by (auto simp: simple_chars_def)
  with assms(1-3) show ?thesis by (auto simp: strip_lf_def)
qed

lemma process_line_simple:
  assumes "d \<notin> {QUOTE, LF, CR}" "l \<noteq> []" "simple_chars l" "length l \<le> field_limit" "e = [] \<or> e = [LF]"
  shows "process_line d (l @ e) parser_init = Inr \<lparr>p_state = START_RECORD, p_fields = split_fields d l, p_field = []\<rparr>"
proof -
  obtain c cs where l: "l = c # cs" using assms(2) by (cases l) auto
  let ?p = "parser_init\<lparr>p_state := START_FIELD\<rparr>"
  have nl: "\<not> is_nl (Chr c)" using assms(3) l by (auto simp: simple_chars_def)
  have "process_line d (l @ e) parser_init = process_line d (l @ e) ?p"
    using process_char_start_record [of parser_init "Chr c" d] nl l by (simp add: parser_init_def)
  also have "\<dots> = Inr (?p\<lparr>p_state := START_RECORD, p_fields := p_fields ?p @ split_fields d (p_field ?p @ l), p_field := []\<rparr>)"
    using assms by (intro process_line_unquoted) (auto simp: parser_init_def)
  finally show ?thesis by (simp add: parser_init_def)
qed

lemma reader_rows_simple:
  assumes "d \<notin> {QUOTE, LF, CR}"
  shows "list_all simple_line xs \<Longrightarrow> reader_rows d xs = (map (\<lambda>x. split_fields d (strip_lf x)) xs, None)"
proof (induction xs)
  case Nil
  then show ?case by (simp add: reader_rows.simps parser_init_def)
next
  case (Cons x xs)
  then obtain l e where x: "x = l @ e" "e = [] \<or> e = [LF]" "l \<noteq> []" "simple_chars l" "length l \<le> field_limit"
    by (auto simp: simple_line_def)
  have "reader_next d (x # xs) parser_init = Inr (Some (split_fields d l), xs)"
    using process_line_simple [OF assms x(3-5) x(2)] x(1) by simp
  then have "reader_rows d (x # xs) = (case reader_rows d xs of (rs, e) \<Rightarrow> (split_fields d l # rs, e))"
    by (subst reader_rows.simps) (simp only: sum.case option.case prod.case)
  with Cons strip_lf_simple [OF x(1-4)] show ?case by simp
qed

lemma split_lines_acc_nolf:
  "LF \<notin> set l \<Longrightarrow> split_lines_acc cur (l @ rest) = split_lines_acc (cur @ l) rest"
  by (induction l arbitrary: cur) auto

lemma file_lines_joined:
  "ls \<noteq> [] \<Longrightarrow> \<forall>l\<in>set ls. l \<noteq> [] \<and> LF \<notin> set l \<Longrightarrow> e = [] \<or> e = [LF] \<Longrightarrow>
   file_lines (join_fields LF ls @ e) = map (\<lambda>l. l @ [LF]) (butlast ls) @ [last ls @ e]"
proof (induction ls rule: induct_list012)
  case (2 l)
  then show ?case using split_lines_acc_nolf [of l "[]" e] by (auto simp: file_lines_def)
next
  case (3 l m ls)
  have "file_lines (join_fields LF (l # m # ls) @ e) = (l @ [LF]) # file_lines (join_fields LF (m # ls) @ e)"
    using "3.prems"(2) split_lines_acc_nolf [of l "[]"] by (simp add: file_lines_def)
  with "3.IH"(2) "3.prems" show ?case by simp
qed simp


definition plain_row :: "char \<Rightarrow> string list \<Rightarrow> bool" where
  "plain_row d r \<longleftrightarrow> r \<noteq> [] \<and> join_fields d r \<noteq> [] \<and> list_all (\<lambda>f. d \<notin> set f \<and> simple_chars f) r
     \<and> length (join_fields d r) \<le> field_limit"

definition csv_text :: "char \<Rightarrow> string list list \<Rightarrow> string" where
  "csv_text d rows = join_fields LF (map (join_fields d) rows)"

lemma set_join_fields: "set (join_fields d r) \<subseteq> insert d (\<Union>f\<in>set r. set f)"
  by (induction d r rule: join_fields.induct) auto

lemma simple_chars_join:
  "d \<notin> {QUOTE, LF, CR} \<Longrightarrow> list_all simple_chars r \<Longrightarrow> simple_chars (join_fields d r)"
  using set_join_fields [of d r] by (auto simp: simple_chars_def list_all_iff)

text \<open>The lines of a file of plain rows, parsed with any delimiter \<open>d'\<close> the parser
  accepts: each line is split at \<open>d'\<close>. Parsing with the writer's delimiter gives the rows
  back (\<open>reader_rows_joined\<close>).\<close>

lemma reader_rows_joined_as:
  assumes "rows \<noteq> []" "list_all (plain_row d) rows" "d \<notin> {QUOTE, LF, CR}" "e = [] \<or> e = [LF]"
    "d' \<notin> {QUOTE, LF, CR}"
  shows "reader_rows d' (file_lines (csv_text d rows @ e)) = (map (\<lambda>r. split_fields d' (join_fields d r)) rows, None)"
proof -
  let ?ls = "map (join_fields d) rows"
  have ls: "\<forall>l\<in>set ?ls. l \<noteq> [] \<and> simple_chars l \<and> length l \<le> field_limit"
    using assms(2,3) simple_chars_join [OF assms(3)]
    by (auto simp: plain_row_def list_all_iff)
  then have "\<forall>l\<in>set ?ls. l \<noteq> [] \<and> LF \<notin> set l" by (auto simp: simple_chars_def)
  with assms(1,4) have fl: "file_lines (csv_text d rows @ e) = map (\<lambda>l. l @ [LF]) (butlast ?ls) @ [last ?ls @ e]"
    unfolding csv_text_def by (intro file_lines_joined) auto
  have last_in: "last ?ls \<in> set ?ls" using assms(1) by (intro last_in_set) simp
  have sl: "simple_line (l @ e')" if "l \<in> set ?ls" "e' = [] \<or> e' = [LF]" for l e'
    using ls that unfolding simple_line_def by auto
  have "\<forall>l\<in>set (butlast ?ls). simple_line (l @ [LF])"
  proof
    fix l assume "l \<in> set (butlast ?ls)"
    then have "l \<in> set ?ls" by (rule in_set_butlastD)
    then show "simple_line (l @ [LF])" by (rule sl) simp
  qed
  moreover have "simple_line (last ?ls @ e)" by (rule sl [OF last_in assms(4)])
  ultimately have "list_all simple_line (file_lines (csv_text d rows @ e))"
    unfolding fl by (simp add: list_all_iff)
  then have "reader_rows d' (file_lines (csv_text d rows @ e))
      = (map (\<lambda>x. split_fields d' (strip_lf x)) (file_lines (csv_text d rows @ e)), None)"
    by (rule reader_rows_simple [OF assms(5)])
  also have "map (\<lambda>x. split_fields d' (strip_lf x)) (file_lines (csv_text d rows @ e)) = map (split_fields d') ?ls"
  proof -
    have sb: "strip_lf (l @ e') = l" if "l \<in> set ?ls" "e' = [] \<or> e' = [LF]" for l e'
    proof -
      from ls that(1) have "l \<noteq> []" "simple_chars l" by auto
      with that(2) show ?thesis by (intro strip_lf_simple) auto
    qed
    have "map (\<lambda>l. strip_lf (l @ [LF])) (butlast ?ls) = butlast ?ls"
      by (rule map_idI) (auto intro: sb dest: in_set_butlastD)
    moreover have "strip_lf (last ?ls @ e) = last ?ls" by (rule sb [OF last_in assms(4)])
    ultimately have "map strip_lf (file_lines (csv_text d rows @ e)) = butlast ?ls @ [last ?ls]"
      unfolding fl by (simp add: comp_def)
    also have "\<dots> = ?ls" using assms(1) by (simp add: append_butlast_last_id)
    finally have "map strip_lf (file_lines (csv_text d rows @ e)) = ?ls" .
    moreover have "map (\<lambda>x. split_fields d' (strip_lf x)) (file_lines (csv_text d rows @ e))
        = map (split_fields d') (map strip_lf (file_lines (csv_text d rows @ e)))" by simp
    ultimately show ?thesis by simp
  qed
  finally show ?thesis by (simp add: comp_def)
qed

corollary reader_rows_joined:
  assumes "rows \<noteq> []" "list_all (plain_row d) rows" "d \<notin> {QUOTE, LF, CR}" "e = [] \<or> e = [LF]"
  shows "reader_rows d (file_lines (csv_text d rows @ e)) = (rows, None)"
proof -
  have "map (\<lambda>r. split_fields d (join_fields d r)) rows = rows"
    using assms(2) by (auto intro!: map_idI split_fields_join simp: plain_row_def list_all_iff)
  with reader_rows_joined_as [OF assms assms(3)] show ?thesis by simp
qed

lemma csv_text_no_CR:
  "CR \<noteq> d \<Longrightarrow> list_all (plain_row d) rows \<Longrightarrow> CR \<notin> set (csv_text d rows)"
proof
  assume d: "CR \<noteq> d" and rows: "list_all (plain_row d) rows" and cr: "CR \<in> set (csv_text d rows)"
  have "CR \<in> insert LF (\<Union>l\<in>set (map (join_fields d) rows). set l)"
    using set_join_fields [of LF "map (join_fields d) rows"] cr by (auto simp: csv_text_def)
  moreover have "CR \<noteq> LF" by simp
  ultimately obtain r where "r \<in> set rows" "CR \<in> set (join_fields d r)" by auto
  with d set_join_fields [of d r] obtain f where "f \<in> set r" "CR \<in> set f" by auto
  with rows \<open>r \<in> set rows\<close> show False by (auto simp: plain_row_def list_all_iff simple_chars_def)
qed

lemma dict_reader_plain:
  "list_all (plain_row d) rows \<Longrightarrow> dict_reader (hdr # rows, None) = (map (dict_row hdr) rows, None)"
  by (simp add: plain_row_def list_all_iff)

end
