(* ===== verification/Reader.thy ===== *)
theory Reader
  imports PyNum Delimiter Csv
begin

text \<open>
  \<^verbatim>\<open>read_csv_files\<close> (src/script/reader.py): for each path in order, detect the
  delimiter, open the file again, iterate a \<^verbatim>\<open>csv.DictReader\<close> over it and convert
  \<^verbatim>\<open>completed_tasks\<close> and \<^verbatim>\<open>experience_years\<close> with \<^verbatim>\<open>int()\<close> and
  \<^verbatim>\<open>performance\<close> with \<^verbatim>\<open>float()\<close>, appending each converted row to
  \<^verbatim>\<open>all_data\<close>. A \<^verbatim>\<open>ValueError\<close> or \<^verbatim>\<open>KeyError\<close> raised while a file's rows
  are read is re-raised as the \<^verbatim>\<open>ValueError\<close> naming the file
  (\<open>BadDataFormat\<close>); every other exception passes through unchanged.
\<close>

subsection \<open>The conversions\<close>

text \<open>\<^verbatim>\<open>int(v)\<close> for the values a row can hold.\<close>

definition py_int :: "pyval \<Rightarrow> int result" where
  "py_int v = (case v of
      VStr s \<Rightarrow> py_int_of_str s
    | VInt i \<Rightarrow> Inr i
    | VFloat (Fin r) \<Rightarrow> Inr (if 0 \<le> r then \<lfloor>r\<rfloor> else \<lceil>r\<rceil>)
    | VFloat NaN \<Rightarrow> Inl (ValueError NaNToInt)
    | VFloat _ \<Rightarrow> Inl OverflowError
    | VNone \<Rightarrow> Inl (TypeError IntArgType)
    | VList _ \<Rightarrow> Inl (TypeError IntArgType))"

text \<open>\<^verbatim>\<open>float(v)\<close>.\<close>

definition py_float :: "pyval \<Rightarrow> pyfloat result" where
  "py_float v = (case v of
      VStr s \<Rightarrow> py_float_of_str s
    | VInt i \<Rightarrow> Inr (Fin (of_int i))
    | VFloat f \<Rightarrow> Inr f
    | VNone \<Rightarrow> Inl (TypeError FloatArgType)
    | VList _ \<Rightarrow> Inl (TypeError FloatArgType))"

text \<open>The body of the row loop: three look-ups and conversions, in the source's order.\<close>

definition convert_row :: "pydict \<Rightarrow> pydict result" where
  "convert_row row_dict =
     ebind (py_getitem row_dict K_completed_tasks) (\<lambda>v. ebind (py_int v) (\<lambda>ct.
     (let d1 = AList.update K_completed_tasks (VInt ct) row_dict in
     ebind (py_getitem d1 K_performance) (\<lambda>v. ebind (py_float v) (\<lambda>pf.
     (let d2 = AList.update K_performance (VFloat pf) d1 in
     ebind (py_getitem d2 K_experience_years) (\<lambda>v. ebind (py_int v) (\<lambda>ey.
     Inr (AList.update K_experience_years (VInt ey) d2)))))))))"

text \<open>
  \<^verbatim>\<open>for row in reader: ... all_data.append(row_dict)\<close>: the rows the reader yields,
  then the reader's own exception, if it raised one.
\<close>

fun convert_loop :: "pydict list \<Rightarrow> pydict list \<Rightarrow> exc option \<Rightarrow> pydict list result" where
  "convert_loop all_data [] None = Inr all_data"
| "convert_loop all_data [] (Some e) = Inl e"
| "convert_loop all_data (row # rows) e =
     ebind (convert_row row) (\<lambda>row_dict. convert_loop (all_data @ [row_dict]) rows e)"

text \<open>\<^verbatim>\<open>except (ValueError, KeyError) as e: raise ValueError(f"... {file_path}: {e}")\<close>\<close>

definition data_format_exc :: "exc \<Rightarrow> bool" where
  "data_format_exc e = (case e of ValueError _ \<Rightarrow> True | KeyError _ \<Rightarrow> True | _ \<Rightarrow> False)"

definition reraise_data_format :: "string \<Rightarrow> 'a result \<Rightarrow> 'a result" where
  "reraise_data_format file_path r = (case r of
      Inl e \<Rightarrow> Inl (if data_format_exc e then ValueError (BadDataFormat file_path e) else e)
    | Inr x \<Rightarrow> Inr x)"

text \<open>One iteration of the file loop, with \<^verbatim>\<open>all_data\<close> threaded through.\<close>

definition read_file :: "fs \<Rightarrow> pydict list \<Rightarrow> string \<Rightarrow> pydict list result" where
  "read_file fs all_data file_path =
     ebind (detect_delimiter fs file_path) (\<lambda>delimiter.
     ebind (py_open fs file_path) (\<lambda>text.
       reraise_data_format file_path
         (case dict_reader (reader_rows delimiter (file_lines text)) of
            (rows, e) \<Rightarrow> convert_loop all_data rows e)))"

fun read_loop :: "fs \<Rightarrow> pydict list \<Rightarrow> string list \<Rightarrow> pydict list result" where
  "read_loop fs all_data [] = Inr all_data"
| "read_loop fs all_data (file_path # file_paths) =
     ebind (read_file fs all_data file_path) (\<lambda>all_data'. read_loop fs all_data' file_paths)"

definition read_csv_files :: "fs \<Rightarrow> string list \<Rightarrow> pydict list result" where
  "read_csv_files fs file_paths = read_loop fs [] file_paths"

subsection \<open>The accumulator \<^verbatim>\<open>all_data\<close>\<close>

lemma convert_loop_acc:
  "convert_loop acc rows e = map_sum id ((@) acc) (convert_loop [] rows e)"
proof (induction rows arbitrary: acc)
  case Nil
  then show ?case by (cases e) auto
next
  case (Cons row rows)
  show ?case
  proof (cases "convert_row row")
    case (Inl x)
    then show ?thesis by simp
  next
    case (Inr d)
    then show ?thesis using Cons.IH [of "acc @ [d]"] Cons.IH [of "[d]"]
      by (cases "convert_loop [] rows e") auto
  qed
qed

lemma reraise_map_sum:
  "reraise_data_format p (map_sum id f r) = map_sum id f (reraise_data_format p r)"
  by (auto simp: reraise_data_format_def split: sum.splits)

lemma read_file_acc:
  "read_file fs acc p = map_sum id ((@) acc) (read_file fs [] p)"
  unfolding read_file_def convert_loop_acc [of acc]
  by (simp only: case_prod_map_sum reraise_map_sum ebind_map_sum)

lemma read_loop_acc:
  "read_loop fs acc ps = map_sum id ((@) acc) (read_loop fs [] ps)"
proof (induction ps arbitrary: acc)
  case Nil
  then show ?case by simp
next
  case (Cons p ps)
  show ?case
  proof (cases "read_file fs [] p")
    case (Inl e)
    then show ?thesis using read_file_acc [of fs acc p] by simp
  next
    case (Inr xs)
    then have "read_file fs acc p = Inr (acc @ xs)" using read_file_acc [of fs acc p] by simp
    with Inr show ?thesis
      using Cons.IH [of "acc @ xs"] Cons.IH [of xs] by (cases "read_loop fs [] ps") auto
  qed
qed

lemma read_loop_append:
  "read_loop fs [] (ps @ qs) = ebind (read_loop fs [] ps) (\<lambda>xs. map_sum id ((@) xs) (read_loop fs [] qs))"
proof (induction ps)
  case Nil
  then show ?case by (cases "read_loop fs [] qs") auto
next
  case (Cons p ps)
  show ?case
  proof (cases "read_file fs [] p")
    case (Inl e)
    then show ?thesis by simp
  next
    case (Inr xs)
    have "read_loop fs [] ((p # ps) @ qs) = map_sum id ((@) xs) (read_loop fs [] (ps @ qs))"
      using Inr read_loop_acc [of fs xs "ps @ qs"] by simp
    also have "\<dots> = ebind (read_loop fs [] (p # ps)) (\<lambda>ys. map_sum id ((@) ys) (read_loop fs [] qs))"
      using Inr Cons.IH read_loop_acc [of fs xs ps]
      by (cases "read_loop fs [] ps"; cases "read_loop fs [] qs") auto
    finally show ?thesis .
  qed
qed

subsection \<open>Conversion of all rows\<close>

lemma convert_loop_Inr_iff:
  "convert_loop [] ds None = Inr ys \<longleftrightarrow> list_all2 (\<lambda>d y. convert_row d = Inr y) ds ys"
proof (induction ds arbitrary: ys)
  case Nil
  then show ?case by auto
next
  case (Cons d ds)
  show ?case
  proof (cases "convert_row d")
    case (Inl e)
    then show ?thesis by (auto simp: list_all2_Cons1)
  next
    case (Inr y)
    then have "convert_loop [] (d # ds) None = map_sum id ((@) [y]) (convert_loop [] ds None)"
      using convert_loop_acc [of "[y]" ds None] by simp
    with Inr Cons.IH show ?thesis
      by (cases "convert_loop [] ds None") (auto simp: list_all2_Cons1)
  qed
qed

lemma convert_loop_first_error:
  "list_all2 (\<lambda>d y. convert_row d = Inr y) ds1 ys \<Longrightarrow> convert_row d = Inl e \<Longrightarrow>
   convert_loop acc (ds1 @ d # ds2) eo = Inl e"
  by (induction ds1 ys arbitrary: acc rule: list_all2_induct) auto

lemma reraise_data_format_Inr [simp]: "reraise_data_format p (Inr x) = Inr x"
  by (simp add: reraise_data_format_def)

lemma reraise_data_format_Inl [simp]:
  "reraise_data_format p (Inl e) = Inl (if data_format_exc e then ValueError (BadDataFormat p e) else e)"
  by (simp add: reraise_data_format_def)

subsection \<open>Files of plain rows\<close>

lemma delimiter_plain: "d \<in> delimiters \<Longrightarrow> d \<notin> {QUOTE, LF, CR}"
  by (auto simp: delimiters_def)

lemma read_file_plain:
  assumes "fs p = Some (RegularFile (csv_text d (hdr # rows) @ eol))" "detect_delimiter fs p = Inr d"
    "list_all (plain_row d) (hdr # rows)" "eol = [] \<or> eol = [LF]"
  shows "read_csv_files fs [p] = reraise_data_format p (convert_loop [] (map (dict_row hdr) rows) None)"
proof -
  let ?t = "csv_text d (hdr # rows) @ eol"
  from assms(1,2) have "d = choose_delimiter (take sample_size (translate_newlines ?t))" by simp
  then have d: "d \<notin> {QUOTE, LF, CR}" using choose_delimiter_in delimiter_plain by metis
  have "CR \<notin> set ?t" using csv_text_no_CR [of d "hdr # rows"] d assms(3,4) by auto
  then have op: "py_open fs p = Inr ?t" using assms(1) by (simp add: translate_newlines_id)
  have rr: "reader_rows d (file_lines ?t) = (hdr # rows, None)"
    using reader_rows_joined [of "hdr # rows" d eol] assms(3,4) d by simp
  have "read_csv_files fs [p] = read_file fs [] p" by (cases "read_file fs [] p") (simp_all add: read_csv_files_def)
  also have "\<dots> = reraise_data_format p (convert_loop [] (map (dict_row hdr) rows) None)"
    unfolding read_file_def using assms(2) op rr dict_reader_plain [of d rows hdr] assms(3)
    by (simp del: detect_delimiter_Inr_iff py_open_Inr_iff)
  finally show ?thesis .
qed

lemma read_loop_regular:
  "read_loop fs acc ps = Inr ys \<Longrightarrow> p \<in> set ps \<Longrightarrow> \<exists>s. fs p = Some (RegularFile s)"
proof (induction ps arbitrary: acc)
  case Nil
  then show ?case by simp
next
  case (Cons q ps)
  then obtain acc' where "read_file fs acc q = Inr acc'" "read_loop fs acc' ps = Inr ys" by auto
  moreover from this(1) have "\<exists>s. fs q = Some (RegularFile s)" by (auto simp: read_file_def)
  ultimately show ?case using Cons by auto
qed

lemma read_file_directory:
  "fs p = Some Directory \<Longrightarrow> read_file fs acc p = Inl (IsADirectoryError p)"
  by (simp add: read_file_def detect_delimiter_def py_open_def)

lemmas reader_eval = read_csv_files_def read_file_def convert_row_def py_int_def py_float_def
  reraise_data_format_def data_format_exc_def detect_delimiter_def choose_delimiter_def sample_size_def py_open_def
  csv_eval pynum_eval py_getitem_def


subsection \<open>Properties of \<^verbatim>\<open>read_csv_files\<close>\<close>

text \<open>C10: Reading the files \<open>ps @ qs\<close> yields the records of \<open>ps\<close> followed by the
  records of \<open>qs\<close>, each part in its own file and row order; if reading either part
  raises, the whole call raises.\<close>

theorem read_csv_files_append:
  "read_csv_files fs (ps @ qs) =
     ebind (read_csv_files fs ps) (\<lambda>xs. map_sum id ((@) xs) (read_csv_files fs qs))"
  by (simp add: read_csv_files_def read_loop_append)

text \<open>C3: A file written as a header line and data lines, the fields of each joined by
  the delimiter \<open>detect_delimiter\<close> finds and free of that delimiter, quotes and line
  breaks, reads as the conversions of its data rows keyed by the header, one record per
  row in row order, when every row converts.\<close>

theorem read_csv_files_plain_records:
  assumes "fs p = Some (RegularFile (csv_text d (hdr # rows) @ eol))"
    and "detect_delimiter fs p = Inr d"
    and "list_all (plain_row d) (hdr # rows)" and "eol = [] \<or> eol = [LF]"
    and "list_all2 (\<lambda>r y. convert_row (dict_row hdr r) = Inr y) rows ys"
  shows "read_csv_files fs [p] = Inr ys"
proof -
  have "convert_loop [] (map (dict_row hdr) rows) None = Inr ys"
    using assms(5) by (simp add: convert_loop_Inr_iff list_all2_map1)
  with read_file_plain [OF assms(1-4)] show ?thesis by simp
qed

theorem read_csv_files_plain_records_witness:
  "[''t.csv'' \<mapsto> RegularFile (csv_text CHR '','' [[''name'', ''completed_tasks'', ''performance'', ''experience_years''],
      [''Alex'', ''45'', ''4.8'', ''5''], [''Maria'', ''-3'', '' 4.7 '', ''1_0'']] @ [LF])] ''t.csv''
     = Some (RegularFile (csv_text CHR '','' [[''name'', ''completed_tasks'', ''performance'', ''experience_years''],
      [''Alex'', ''45'', ''4.8'', ''5''], [''Maria'', ''-3'', '' 4.7 '', ''1_0'']] @ [LF]))
   \<and> read_csv_files [''t.csv'' \<mapsto> RegularFile (csv_text CHR '','' [[''name'', ''completed_tasks'', ''performance'', ''experience_years''],
      [''Alex'', ''45'', ''4.8'', ''5''], [''Maria'', ''-3'', '' 4.7 '', ''1_0'']] @ [LF])] [''t.csv'']
     = Inr [[(KStr ''name'', VStr ''Alex''), (K_completed_tasks, VInt 45), (K_performance, VFloat (Fin (48/10))), (K_experience_years, VInt 5)],
            [(KStr ''name'', VStr ''Maria''), (K_completed_tasks, VInt (-3)), (K_performance, VFloat (Fin (47/10))), (K_experience_years, VInt 10)]]"
proof -
  let ?hdr = "[''name'', ''completed_tasks'', ''performance'', ''experience_years'']"
  let ?rows = "[[''Alex'', ''45'', ''4.8'', ''5''], [''Maria'', ''-3'', '' 4.7 '', ''1_0'']]"
  let ?fs = "[''t.csv'' \<mapsto> RegularFile (csv_text CHR '','' (?hdr # ?rows) @ [LF])]"
  have d: "detect_delimiter ?fs ''t.csv'' = Inr CHR '',''"
    by (simp add: csv_text_def detect_delimiter_def choose_delimiter_def sample_size_def py_open_def)
  have pl: "list_all (plain_row CHR '','') (?hdr # ?rows)"
    by (simp add: plain_row_def simple_chars_def field_limit_def)
  have cv: "list_all2 (\<lambda>r y. convert_row (dict_row ?hdr r) = Inr y) ?rows
     [[(KStr ''name'', VStr ''Alex''), (K_completed_tasks, VInt 45), (K_performance, VFloat (Fin (48/10))), (K_experience_years, VInt 5)],
      [(KStr ''name'', VStr ''Maria''), (K_completed_tasks, VInt (-3)), (K_performance, VFloat (Fin (47/10))), (K_experience_years, VInt 10)]]"
    by (simp add: reader_eval)
  show ?thesis using read_csv_files_plain_records [OF _ d pl _ cv] by simp
qed

text \<open>C35: Delimiter detection counts characters anywhere in the sample, cells included.
  When it picks a delimiter other than the one a plain file was written with (comma, tab
  or semicolon), and the header's cells do not hold the picked one, the header is read as
  one column named by the whole header line, so \<^verbatim>\<open>read_csv_files\<close> rejects the file
  at its first data row with the data-format error for the missing
  \<^verbatim>\<open>completed_tasks\<close> column, whatever the rows hold.\<close>

theorem read_csv_files_misdetected:
  assumes "fs p = Some (RegularFile (csv_text d (hdr # r # rows) @ eol))"
    and "detect_delimiter fs p = Inr d'" and "d \<in> delimiters" and "d' \<noteq> d"
    and "list_all (plain_row d) (hdr # r # rows)" and "eol = [] \<or> eol = [LF]"
    and "2 \<le> length hdr" and "list_all (\<lambda>f. d' \<notin> set f) hdr"
  shows "read_csv_files fs [p] = Inl (ValueError (BadDataFormat p (KeyError K_completed_tasks)))"
proof -
  let ?t = "csv_text d (hdr # r # rows) @ eol"
  let ?H = "join_fields d hdr"
  from assms(1,2) have "d' = choose_delimiter (take sample_size (translate_newlines ?t))" by simp
  then have d': "d' \<notin> {QUOTE, LF, CR}" using choose_delimiter_in delimiter_plain by metis
  have d: "d \<notin> {QUOTE, LF, CR}" using assms(3) delimiter_plain by blast
  have "CR \<notin> set ?t" using csv_text_no_CR [of d "hdr # r # rows"] d assms(5,6) by auto
  then have op: "py_open fs p = Inr ?t" using assms(1) by (simp add: translate_newlines_id)
  have rr: "reader_rows d' (file_lines ?t) =
      (split_fields d' ?H # map (\<lambda>r. split_fields d' (join_fields d r)) (r # rows), None)"
    using reader_rows_joined_as [OF _ assms(5) d assms(6) d'] by simp
  have "d' \<notin> set ?H"
    using set_join_fields [of d hdr] assms(4,8) by (auto simp: list_all_iff)
  then have h: "split_fields d' ?H = [?H]" by (rule split_fields_single)
  have dr: "dict_reader (reader_rows d' (file_lines ?t)) =
      (map (dict_row [?H]) (map (\<lambda>r. split_fields d' (join_fields d r)) (r # rows)), None)"
    using rr h by simp
  obtain a b hs where hdr: "hdr = a # b # hs" using assms(7) by (cases hdr; cases "tl hdr") auto
  have "d \<in> set ?H" using hdr by simp
  moreover have "d \<notin> set ''completed_tasks''" using assms(3) by (auto simp: delimiters_def)
  ultimately have "''completed_tasks'' \<noteq> ?H" by metis
  then have "convert_row (dict_row [?H] (split_fields d' (join_fields d r))) = Inl (KeyError K_completed_tasks)"
    by (simp add: convert_row_def py_getitem_def map_of_dict_row_single)
  then have cl: "convert_loop [] (map (dict_row [?H]) (map (\<lambda>r. split_fields d' (join_fields d r)) (r # rows))) None
      = Inl (KeyError K_completed_tasks)" by simp
  have rf: "read_file fs [] p =
      reraise_data_format p (convert_loop [] (map (dict_row [?H]) (map (\<lambda>r. split_fields d' (join_fields d r)) (r # rows))) None)"
    unfolding read_file_def using assms(2) op dr
    by (simp del: detect_delimiter_Inr_iff py_open_Inr_iff dict_reader.simps convert_loop.simps)
  have "read_file fs [] p = reraise_data_format p (Inl (KeyError K_completed_tasks))"
    using rf cl by (simp only:)
  then have "read_file fs [] p = Inl (ValueError (BadDataFormat p (KeyError K_completed_tasks)))"
    by (simp add: reraise_data_format_def data_format_exc_def)
  then show ?thesis by (simp add: read_csv_files_def)
qed

theorem read_csv_files_misdetected_witness:
  "[''t.csv'' \<mapsto> RegularFile (csv_text CHR '','' [[''position'', ''completed_tasks'', ''performance'', ''experience_years''],
      [''QA;Ops;Dev;Sec;Web;App;API;UX'', ''3'', ''4.5'', ''2'']] @ [LF])] ''t.csv''
     = Some (RegularFile (csv_text CHR '','' [[''position'', ''completed_tasks'', ''performance'', ''experience_years''],
      [''QA;Ops;Dev;Sec;Web;App;API;UX'', ''3'', ''4.5'', ''2'']] @ [LF])) \<and>
   detect_delimiter [''t.csv'' \<mapsto> RegularFile (csv_text CHR '','' [[''position'', ''completed_tasks'', ''performance'', ''experience_years''],
      [''QA;Ops;Dev;Sec;Web;App;API;UX'', ''3'', ''4.5'', ''2'']] @ [LF])] ''t.csv'' = Inr CHR '';'' \<and>
   CHR '','' \<in> delimiters \<and> CHR '';'' \<noteq> CHR '','' \<and>
   list_all (plain_row CHR '','') [[''position'', ''completed_tasks'', ''performance'', ''experience_years''],
      [''QA;Ops;Dev;Sec;Web;App;API;UX'', ''3'', ''4.5'', ''2'']] \<and>
   2 \<le> length [''position'', ''completed_tasks'', ''performance'', ''experience_years''] \<and>
   list_all (\<lambda>f. CHR '';'' \<notin> set f) [''position'', ''completed_tasks'', ''performance'', ''experience_years''] \<and>
   read_csv_files [''t.csv'' \<mapsto> RegularFile (csv_text CHR '','' [[''position'', ''completed_tasks'', ''performance'', ''experience_years''],
      [''QA;Ops;Dev;Sec;Web;App;API;UX'', ''3'', ''4.5'', ''2'']] @ [LF])] [''t.csv'']
     = Inl (ValueError (BadDataFormat ''t.csv'' (KeyError K_completed_tasks)))"
proof -
  let ?hdr = "[''position'', ''completed_tasks'', ''performance'', ''experience_years'']"
  let ?r = "[''QA;Ops;Dev;Sec;Web;App;API;UX'', ''3'', ''4.5'', ''2'']"
  let ?fs = "[''t.csv'' \<mapsto> RegularFile (csv_text CHR '','' [?hdr, ?r] @ [LF])]"
  have f: "?fs ''t.csv'' = Some (RegularFile (csv_text CHR '','' (?hdr # ?r # []) @ [LF]))" by simp
  have d: "detect_delimiter ?fs ''t.csv'' = Inr CHR '';''"
    by (simp add: csv_text_def detect_delimiter_def choose_delimiter_def sample_size_def py_open_def)
  have c: "CHR '','' \<in> delimiters" "CHR '';'' \<noteq> CHR '',''" by (simp_all add: delimiters_def)
  have pl: "list_all (plain_row CHR '','') (?hdr # ?r # [])"
    by (simp add: plain_row_def simple_chars_def field_limit_def)
  have h: "2 \<le> length ?hdr" "list_all (\<lambda>f. CHR '';'' \<notin> set f) ?hdr" by simp_all
  show ?thesis
    using read_csv_files_misdetected [OF f d c pl _ h] f d c pl h by simp
qed

text \<open>C12: In a file of plain rows, the first row whose conversion raises a
  \<^verbatim>\<open>ValueError\<close> or a \<^verbatim>\<open>KeyError\<close> makes \<^verbatim>\<open>read_csv_files\<close> raise the
  \<^verbatim>\<open>ValueError\<close> that names the file and carries that exception.\<close>

theorem read_csv_files_bad_cell:
  assumes "fs p = Some (RegularFile (csv_text d (hdr # rows1 @ r # rows2) @ eol))"
    and "detect_delimiter fs p = Inr d"
    and "list_all (plain_row d) (hdr # rows1 @ r # rows2)" and "eol = [] \<or> eol = [LF]"
    and "list_all2 (\<lambda>r y. convert_row (dict_row hdr r) = Inr y) rows1 ys"
    and "convert_row (dict_row hdr r) = Inl e" and "data_format_exc e"
  shows "read_csv_files fs [p] = Inl (ValueError (BadDataFormat p e))"
proof -
  have "convert_loop [] (map (dict_row hdr) rows1 @ dict_row hdr r # map (dict_row hdr) rows2) None = Inl e"
    using assms(5,6) by (intro convert_loop_first_error) (simp_all add: list_all2_map1)
  with read_file_plain [OF assms(1-4)] assms(7) show ?thesis by simp
qed

theorem read_csv_files_bad_cell_witness:
  "read_csv_files [''b.csv'' \<mapsto> RegularFile ''name,completed_tasks,performance,experience_years\<newline>Alex,invalid,4.8,5'']
     [''b.csv''] = Inl (ValueError (BadDataFormat ''b.csv'' (ValueError (InvalidIntLiteral ''invalid''))))"
proof -
  let ?hdr = "[''name'', ''completed_tasks'', ''performance'', ''experience_years'']"
  let ?r = "[''Alex'', ''invalid'', ''4.8'', ''5'']"
  let ?fs = "[''b.csv'' \<mapsto> RegularFile (csv_text CHR '','' (?hdr # [] @ ?r # []) @ [])]"
  have f: "?fs ''b.csv'' = Some (RegularFile (csv_text CHR '','' (?hdr # [] @ ?r # []) @ []))" by simp
  have d: "detect_delimiter ?fs ''b.csv'' = Inr CHR '',''"
    by (simp add: csv_text_def detect_delimiter_def choose_delimiter_def sample_size_def py_open_def)
  have pl: "list_all (plain_row CHR '','') (?hdr # [] @ ?r # [])"
    by (simp add: plain_row_def simple_chars_def field_limit_def)
  have cv: "convert_row (dict_row ?hdr ?r) = Inl (ValueError (InvalidIntLiteral ''invalid''))"
    by (simp add: reader_eval)
  have de: "data_format_exc (ValueError (InvalidIntLiteral ''invalid''))" by (simp add: data_format_exc_def)
  have "read_csv_files ?fs [''b.csv''] = Inl (ValueError (BadDataFormat ''b.csv'' (ValueError (InvalidIntLiteral ''invalid''))))"
    using read_csv_files_bad_cell [OF f d pl _ _ cv de, of "[]"] by simp
  moreover have "csv_text CHR '','' (?hdr # [] @ ?r # []) @ []
      = ''name,completed_tasks,performance,experience_years\<newline>Alex,invalid,4.8,5''"
    by (simp add: csv_text_def)
  ultimately show ?thesis by simp
qed

text \<open>C13: Exceptions other than \<^verbatim>\<open>ValueError\<close> and \<^verbatim>\<open>KeyError\<close> are not converted:
  when a row's conversion raises such an exception (for instance the \<^verbatim>\<open>TypeError\<close>
  of \<^verbatim>\<open>int(None)\<close> for a row shorter than the header), \<^verbatim>\<open>read_csv_files\<close> raises
  it unchanged, not as a data-format error.\<close>

theorem read_csv_files_uncaught:
  assumes "fs p = Some (RegularFile (csv_text d (hdr # rows1 @ r # rows2) @ eol))"
    and "detect_delimiter fs p = Inr d"
    and "list_all (plain_row d) (hdr # rows1 @ r # rows2)" and "eol = [] \<or> eol = [LF]"
    and "list_all2 (\<lambda>r y. convert_row (dict_row hdr r) = Inr y) rows1 ys"
    and "convert_row (dict_row hdr r) = Inl e" and "\<not> data_format_exc e"
  shows "read_csv_files fs [p] = Inl e"
proof -
  have "convert_loop [] (map (dict_row hdr) rows1 @ dict_row hdr r # map (dict_row hdr) rows2) None = Inl e"
    using assms(5,6) by (intro convert_loop_first_error) (simp_all add: list_all2_map1)
  with read_file_plain [OF assms(1-4)] assms(7) show ?thesis by simp
qed

theorem read_csv_files_uncaught_witness:
  "read_csv_files [''s.csv'' \<mapsto> RegularFile ''name,completed_tasks,performance,experience_years\<newline>Alex,45,4.8'']
     [''s.csv''] = Inl (TypeError IntArgType)"
proof -
  let ?hdr = "[''name'', ''completed_tasks'', ''performance'', ''experience_years'']"
  let ?fs = "[''s.csv'' \<mapsto> RegularFile (csv_text CHR '','' (?hdr # [] @ [''Alex'', ''45'', ''4.8''] # []) @ [])]"
  have f: "?fs ''s.csv'' = Some (RegularFile (csv_text CHR '','' (?hdr # [] @ [''Alex'', ''45'', ''4.8''] # []) @ []))"
    by simp
  have d: "detect_delimiter ?fs ''s.csv'' = Inr CHR '',''"
    by (simp add: csv_text_def detect_delimiter_def choose_delimiter_def sample_size_def py_open_def)
  have pl: "list_all (plain_row CHR '','') (?hdr # [] @ [''Alex'', ''45'', ''4.8''] # [])"
    by (simp add: plain_row_def simple_chars_def field_limit_def)
  have cv: "convert_row (dict_row ?hdr [''Alex'', ''45'', ''4.8'']) = Inl (TypeError IntArgType)"
    by (simp add: reader_eval)
  have ne: "\<not> data_format_exc (TypeError IntArgType)" by (simp add: data_format_exc_def)
  have "read_csv_files ?fs [''s.csv''] = Inl (TypeError IntArgType)"
    using read_csv_files_uncaught [OF f d pl _ _ cv ne, of "[]"] by simp
  moreover have "csv_text CHR '','' (?hdr # [] @ [''Alex'', ''45'', ''4.8''] # []) @ []
      = ''name,completed_tasks,performance,experience_years\<newline>Alex,45,4.8''"
    by (simp add: csv_text_def)
  ultimately show ?thesis by simp
qed

text \<open>C22: A row whose \<^verbatim>\<open>completed_tasks\<close> and \<^verbatim>\<open>experience_years\<close> cells are
  \<^verbatim>\<open>str(a)\<close> and \<^verbatim>\<open>str(b)\<close> (within the 4300-digit limit) and whose
  \<^verbatim>\<open>performance\<close> cell \<^verbatim>\<open>float()\<close> accepts is converted to the integers \<open>a\<close>,
  \<open>b\<close> and that float, each stored in place under its key, the other cells unchanged.\<close>

theorem convert_row_int_str:
  assumes "map_of row K_completed_tasks = Some (VStr (int_str a))"
    and "map_of row K_performance = Some (VStr s)" and "py_float_of_str s = Inr f"
    and "map_of row K_experience_years = Some (VStr (int_str b))"
    and "length (nat_str (nat \<bar>a\<bar>)) \<le> int_max_str_digits" and "length (nat_str (nat \<bar>b\<bar>)) \<le> int_max_str_digits"
  shows "convert_row row =
           Inr (AList.update K_experience_years (VInt b)
                 (AList.update K_performance (VFloat f) (AList.update K_completed_tasks (VInt a) row)))"
  using assms by (simp add: convert_row_def py_simps py_int_def py_float_def py_int_of_str_int_str)

theorem convert_row_int_str_witness:
  "map_of [(KStr ''name'', VStr ''Alex''), (K_completed_tasks, VStr ''45''), (K_performance, VStr ''4.8''), (K_experience_years, VStr ''-3'')] K_completed_tasks = Some (VStr (int_str 45)) \<and>
   map_of [(KStr ''name'', VStr ''Alex''), (K_completed_tasks, VStr ''45''), (K_performance, VStr ''4.8''), (K_experience_years, VStr ''-3'')] K_performance = Some (VStr ''4.8'') \<and> py_float_of_str ''4.8'' = Inr (Fin (48 / 10)) \<and>
   map_of [(KStr ''name'', VStr ''Alex''), (K_completed_tasks, VStr ''45''), (K_performance, VStr ''4.8''), (K_experience_years, VStr ''-3'')] K_experience_years = Some (VStr (int_str (-3))) \<and>
   length (nat_str (nat \<bar>45 :: int\<bar>)) \<le> int_max_str_digits \<and> length (nat_str (nat \<bar>-3 :: int\<bar>)) \<le> int_max_str_digits \<and>
   convert_row [(KStr ''name'', VStr ''Alex''), (K_completed_tasks, VStr ''45''), (K_performance, VStr ''4.8''), (K_experience_years, VStr ''-3'')] = Inr [(KStr ''name'', VStr ''Alex''), (K_completed_tasks, VInt 45),
     (K_performance, VFloat (Fin (48 / 10))), (K_experience_years, VInt (-3))]"
proof -
  have h: "map_of [(KStr ''name'', VStr ''Alex''), (K_completed_tasks, VStr ''45''), (K_performance, VStr ''4.8''), (K_experience_years, VStr ''-3'')] K_completed_tasks = Some (VStr (int_str 45))" "map_of [(KStr ''name'', VStr ''Alex''), (K_completed_tasks, VStr ''45''), (K_performance, VStr ''4.8''), (K_experience_years, VStr ''-3'')] K_performance = Some (VStr ''4.8'')"
    "py_float_of_str ''4.8'' = Inr (Fin (48 / 10))" "map_of [(KStr ''name'', VStr ''Alex''), (K_completed_tasks, VStr ''45''), (K_performance, VStr ''4.8''), (K_experience_years, VStr ''-3'')] K_experience_years = Some (VStr (int_str (-3)))"
    "length (nat_str (nat \<bar>45 :: int\<bar>)) \<le> int_max_str_digits" "length (nat_str (nat \<bar>-3 :: int\<bar>)) \<le> int_max_str_digits"
    by (simp_all add: int_str_def nat_str.simps pynum_eval)
  show ?thesis using convert_row_int_str [OF h] h by simp
qed

subsection \<open>The CSV errors reading can raise\<close>

definition is_csv_error :: "exc \<Rightarrow> bool" where
  "is_csv_error e = (case e of CsvError _ \<Rightarrow> True | _ \<Rightarrow> False)"

lemma py_int_not_csv: "py_int v = Inl e \<Longrightarrow> \<not> is_csv_error e"
  by (auto simp: py_int_def py_int_of_str_def Let_def is_csv_error_def
      split: pyval.splits pyfloat.splits prod.splits if_splits)

lemma py_float_not_csv: "py_float v = Inl e \<Longrightarrow> \<not> is_csv_error e"
  by (auto simp: py_float_def py_float_of_str_def is_csv_error_def split: pyval.splits option.splits if_splits)

lemma convert_row_not_csv: "convert_row r = Inl e \<Longrightarrow> \<not> is_csv_error e"
  by (auto simp: convert_row_def Let_def is_csv_error_def dest: py_int_not_csv py_float_not_csv)

lemma convert_loop_Inl_src:
  "convert_loop acc rows eo = Inl e \<Longrightarrow> eo = Some e \<or> (\<exists>r\<in>set rows. convert_row r = Inl e)"
  by (induction acc rows eo rule: convert_loop.induct) auto

lemma dict_reader_snd: "snd (dict_reader x) = snd x"
  by (cases x rule: dict_reader.cases) auto

lemma read_file_csv_error:
  assumes "read_file fs acc p = Inl (CsvError m)"
  shows "m = FieldLimit field_limit"
proof (cases "py_open fs p")
  case (Inl e)
  then show ?thesis using assms
    by (auto simp: read_file_def detect_delimiter_def py_open_def split: option.splits fs_entry.splits)
next
  case (Inr t)
  then obtain s where s: "fs p = Some (RegularFile s)" "t = translate_newlines s" by auto
  let ?d = "choose_delimiter (take sample_size t)"
  obtain rows eo where rr: "dict_reader (reader_rows ?d (file_lines t)) = (rows, eo)" by (cases "dict_reader (reader_rows ?d (file_lines t))")
  have "detect_delimiter fs p = Inr ?d" using s by simp
  with assms Inr rr have cl: "convert_loop acc rows eo = Inl (CsvError m)"
    by (auto simp: read_file_def reraise_data_format_def data_format_exc_def split: sum.splits if_splits exc.splits
        simp del: detect_delimiter_Inr_iff py_open_Inr_iff)
  have "eo = snd (reader_rows ?d (file_lines t))" using dict_reader_snd [of "reader_rows ?d (file_lines t)"] rr by simp
  moreover have "list_all line_shaped (file_lines t)" using s CR_not_in_translate_newlines by (simp add: file_lines_shaped)
  ultimately have "eo = Some (CsvError m) \<Longrightarrow> CsvError m = field_limit_error" using reader_rows_safe by metis
  with convert_loop_Inl_src [OF cl] convert_row_not_csv show ?thesis
    by (fastforce simp: field_limit_error_def is_csv_error_def)
qed

lemma read_loop_csv_error: "read_loop fs acc ps = Inl (CsvError m) \<Longrightarrow> m = FieldLimit field_limit"
  by (induction ps arbitrary: acc) (auto dest: read_file_csv_error)

text \<open>C14: Reading never raises the CSV error \<^verbatim>\<open>new-line character seen in unquoted
  field\<close>: text mode translates every carriage return, so the only \<^verbatim>\<open>_csv.Error\<close>
  \<^verbatim>\<open>read_csv_files\<close> can raise is the field-size limit.\<close>

theorem read_csv_files_csv_error:
  "case read_csv_files fs ps of Inl (CsvError m) \<Rightarrow> m = FieldLimit field_limit | _ \<Rightarrow> True"
  by (auto simp: read_csv_files_def split: sum.splits exc.splits dest: read_loop_csv_error)

subsection \<open>Types and sizes of the records\<close>

definition record_typed :: "pydict \<Rightarrow> bool" where
  "record_typed d \<longleftrightarrow>
     (case (map_of d K_completed_tasks, map_of d K_performance, map_of d K_experience_years) of
        (Some (VInt _), Some (VFloat _), Some (VInt _)) \<Rightarrow> True
      | _ \<Rightarrow> False)"

lemma convert_row_typed: "convert_row r = Inr d \<Longrightarrow> record_typed d"
  by (auto simp: convert_row_def Let_def record_typed_def update_conv')

lemma convert_loop_typed:
  "convert_loop acc rows eo = Inr res \<Longrightarrow> list_all record_typed acc \<Longrightarrow> list_all record_typed res"
  by (induction acc rows eo rule: convert_loop.induct) (auto dest: convert_row_typed)

lemma reraise_data_format_Inr_iff: "reraise_data_format p r = Inr x \<longleftrightarrow> r = Inr x"
  by (auto simp: reraise_data_format_def split: sum.splits)

lemma read_file_Inr_cases:
  assumes "read_file fs acc p = Inr res"
  obtains d t where "detect_delimiter fs p = Inr d" "py_open fs p = Inr t"
    "(case dict_reader (reader_rows d (file_lines t)) of (rows, e) \<Rightarrow> convert_loop acc rows e) = Inr res"
  using assms by (auto simp: read_file_def reraise_data_format_Inr_iff simp del: detect_delimiter_Inr_iff py_open_Inr_iff)

lemma read_file_typed:
  "read_file fs acc p = Inr res \<Longrightarrow> list_all record_typed acc \<Longrightarrow> list_all record_typed res"
  by (erule read_file_Inr_cases) (auto split: prod.splits dest: convert_loop_typed)

lemma read_loop_typed:
  "read_loop fs acc ps = Inr res \<Longrightarrow> list_all record_typed acc \<Longrightarrow> list_all record_typed res"
  by (induction ps arbitrary: acc) (auto dest: read_file_typed)

text \<open>C11: Every record \<^verbatim>\<open>read_csv_files\<close> returns holds an \<^verbatim>\<open>int\<close> under
  \<^verbatim>\<open>completed_tasks\<close> and \<^verbatim>\<open>experience_years\<close> and a \<^verbatim>\<open>float\<close> under
  \<^verbatim>\<open>performance\<close>, the types the rest of the program relies on.\<close>

theorem read_csv_files_typed:
  assumes "read_csv_files fs ps = Inr data"
  shows "list_all record_typed data"
  using read_loop_typed [of fs "[]" ps data] assms by (simp add: read_csv_files_def)

theorem read_csv_files_typed_witness:
  "read_csv_files [''w.csv'' \<mapsto> RegularFile (''completed_tasks,performance,experience_years'' @ LF # ''1,2.5,3'')] [''w.csv''] = Inr [[(K_completed_tasks, VInt 1), (K_performance, VFloat (Fin (5 / 2))), (K_experience_years, VInt 3)]] \<and> list_all record_typed [[(K_completed_tasks, VInt 1), (K_performance, VFloat (Fin (5 / 2))), (K_experience_years, VInt 3)]]"
proof -
  have r: "read_csv_files [''w.csv'' \<mapsto> RegularFile (''completed_tasks,performance,experience_years'' @ LF # ''1,2.5,3'')] [''w.csv''] = Inr [[(K_completed_tasks, VInt 1), (K_performance, VFloat (Fin (5 / 2))), (K_experience_years, VInt 3)]]" by (simp add: reader_eval csv_eval)
  show ?thesis using read_csv_files_typed [OF r] r by simp
qed

lemma convert_loop_length:
  "convert_loop acc rows eo = Inr res \<Longrightarrow> length res = length acc + length rows"
  by (induction acc rows eo rule: convert_loop.induct) auto

lemma dict_reader_length: "length (fst (dict_reader x)) \<le> length (fst x) - 1"
  by (cases x rule: dict_reader.cases) (auto intro: length_filter_le)

lemma read_file_length:
  assumes "read_file fs [] p = Inr data" and "fs p = Some (RegularFile s)"
  shows "length data \<le> length (file_lines (translate_newlines s)) - 1"
proof -
  let ?ls = "file_lines (translate_newlines s)"
  from assms(1) obtain d t where t: "py_open fs p = Inr t"
    and cl: "(case dict_reader (reader_rows d (file_lines t)) of (rows, e) \<Rightarrow> convert_loop [] rows e) = Inr data"
    by (rule read_file_Inr_cases)
  from t assms(2) have "t = translate_newlines s" by simp
  obtain rows e where de: "dict_reader (reader_rows d ?ls) = (rows, e)" by (cases "dict_reader (reader_rows d ?ls)")
  with cl \<open>t = _\<close> have "length data = length rows" by (simp add: convert_loop_length)
  also have "\<dots> \<le> length (fst (reader_rows d ?ls)) - 1" using dict_reader_length [of "reader_rows d ?ls"] de by simp
  also have "\<dots> \<le> length ?ls - 1" using reader_rows_length [of d ?ls] by simp
  finally show ?thesis .
qed

text \<open>C15: The reader loop ends because each record it yields consumes at least one line
  of the file: a file of \<open>n\<close> lines (after newline translation) yields at most
  \<open>n - 1\<close> records, one line being the header.\<close>

theorem read_csv_files_records_per_line:
  assumes "read_csv_files fs [p] = Inr data" and "fs p = Some (RegularFile s)"
  shows "length data \<le> length (file_lines (translate_newlines s)) - 1"
proof -
  from assms(1) have "read_file fs [] p = Inr data"
    by (cases "read_file fs [] p") (simp_all add: read_csv_files_def)
  then show ?thesis using assms(2) by (rule read_file_length)
qed

theorem read_csv_files_records_per_line_witness:
  "read_csv_files [''w.csv'' \<mapsto> RegularFile (''completed_tasks,performance,experience_years'' @ LF # ''1,2.5,3'')] [''w.csv''] = Inr [[(K_completed_tasks, VInt 1), (K_performance, VFloat (Fin (5 / 2))), (K_experience_years, VInt 3)]] \<and>
   [''w.csv'' \<mapsto> RegularFile (''completed_tasks,performance,experience_years'' @ LF # ''1,2.5,3'')] ''w.csv'' = Some (RegularFile (''completed_tasks,performance,experience_years'' @ LF # ''1,2.5,3'')) \<and>
   length [[(K_completed_tasks, VInt 1), (K_performance, VFloat (Fin (5 / 2))), (K_experience_years, VInt 3)]] \<le> length (file_lines (translate_newlines (''completed_tasks,performance,experience_years'' @ LF # ''1,2.5,3''))) - 1"
proof -
  have r: "read_csv_files [''w.csv'' \<mapsto> RegularFile (''completed_tasks,performance,experience_years'' @ LF # ''1,2.5,3'')] [''w.csv''] = Inr [[(K_completed_tasks, VInt 1), (K_performance, VFloat (Fin (5 / 2))), (K_experience_years, VInt 3)]]" by (simp add: reader_eval csv_eval)
  have f: "[''w.csv'' \<mapsto> RegularFile (''completed_tasks,performance,experience_years'' @ LF # ''1,2.5,3'')] ''w.csv'' = Some (RegularFile (''completed_tasks,performance,experience_years'' @ LF # ''1,2.5,3''))" by simp
  show ?thesis using read_csv_files_records_per_line [OF r f] r f by simp
qed

end
