(* ===== verification/Processors.thy ===== *)
theory Processors
  imports PyNum "HOL-Library.Multiset"
begin

text \<open>
  src/script/processors.py: \<^verbatim>\<open>group_by_position\<close> collects the records into a
  \<^verbatim>\<open>defaultdict(list)\<close> keyed by their \<^verbatim>\<open>position\<close> value, in the order keys are
  first seen (a Python dictionary keeps insertion order); \<^verbatim>\<open>calculate_average_performance\<close>
  returns \<^verbatim>\<open>0.0\<close> for no records and otherwise \<^verbatim>\<open>sum(...) / len(...)\<close> of their
  \<^verbatim>\<open>performance\<close> values. Keys compare by structural equality; CPython's merging of
  equal numbers of different types (\<^verbatim>\<open>1 == 1.0\<close>) and NaN identity are not modelled,
  since a position read from a CSV file is always a string or \<^verbatim>\<open>None\<close>.
\<close>

type_synonym groups = "(pyval \<times> pydict list) list"

subsection \<open>\<^verbatim>\<open>group_by_position\<close>\<close>

definition py_hashable :: "pyval \<Rightarrow> bool" where
  "py_hashable v = (case v of VList _ \<Rightarrow> False | _ \<Rightarrow> True)"

text \<open>\<^verbatim>\<open>grouped[k].append(developer)\<close> on a \<^verbatim>\<open>defaultdict(list)\<close>.\<close>

definition group_append :: "groups \<Rightarrow> pyval \<Rightarrow> pydict \<Rightarrow> groups" where
  "group_append grouped k developer =
     AList.update k (case map_of grouped k of None \<Rightarrow> [developer] | Some ds \<Rightarrow> ds @ [developer]) grouped"

fun group_loop :: "groups \<Rightarrow> pydict list \<Rightarrow> groups result" where
  "group_loop grouped [] = Inr grouped"
| "group_loop grouped (developer # data) =
     ebind (py_getitem developer K_position) (\<lambda>k.
       if py_hashable k then group_loop (group_append grouped k developer) data
       else Inl (TypeError UnhashableType))"

definition group_by_position :: "pydict list \<Rightarrow> groups result" where
  "group_by_position data = group_loop [] data"

subsection \<open>\<^verbatim>\<open>calculate_average_performance\<close>\<close>

text \<open>The addition \<^verbatim>\<open>sum\<close> performs, starting from the integer \<^verbatim>\<open>0\<close>.\<close>

fun sum_add :: "pyval \<Rightarrow> pyval \<Rightarrow> pyval result" where
  "sum_add (VInt a) (VInt b) = Inr (VInt (a + b))"
| "sum_add (VInt a) (VFloat f) = Inr (VFloat (fadd (Fin (of_int a)) f))"
| "sum_add (VFloat f) (VInt b) = Inr (VFloat (fadd f (Fin (of_int b))))"
| "sum_add (VFloat f) (VFloat g) = Inr (VFloat (fadd f g))"
| "sum_add x y = Inl (TypeError UnsupportedOperand)"

text \<open>\<^verbatim>\<open>sum(dev['performance'] for dev in developers)\<close>: look-ups and additions
  interleaved, as the generator runs.\<close>

fun sum_perf :: "pyval \<Rightarrow> pydict list \<Rightarrow> pyval result" where
  "sum_perf acc [] = Inr acc"
| "sum_perf acc (dev # devs) =
     ebind (py_getitem dev K_performance) (\<lambda>v. ebind (sum_add acc v) (\<lambda>acc'. sum_perf acc' devs))"

text \<open>True division of the sum by the positive count.\<close>

definition py_truediv_len :: "pyval \<Rightarrow> nat \<Rightarrow> pyfloat result" where
  "py_truediv_len s n = (case s of
      VInt a \<Rightarrow> Inr (Fin (of_int a / of_nat n))
    | VFloat f \<Rightarrow> Inr (fdiv_nat f n)
    | _ \<Rightarrow> Inl (TypeError UnsupportedOperand))"

definition calculate_average_performance :: "pydict list \<Rightarrow> pyfloat result" where
  "calculate_average_performance developers =
     (if developers = [] then Inr (Fin 0)
      else ebind (sum_perf (VInt 0) developers) (\<lambda>s. py_truediv_len s (length developers)))"

subsection \<open>The grouping the code computes\<close>

text \<open>A record that has a hashable \<^verbatim>\<open>position\<close>, the value it has there, and the
  dictionary \<^verbatim>\<open>group_by_position\<close> should return: for each position in order of
  first occurrence, the records that have it, in input order.\<close>

definition has_position :: "pydict \<Rightarrow> bool" where
  "has_position d \<longleftrightarrow> (case map_of d K_position of Some v \<Rightarrow> py_hashable v | None \<Rightarrow> False)"

definition position_of :: "pydict \<Rightarrow> pyval" where
  "position_of d = the (map_of d K_position)"

definition groups_spec :: "pydict list \<Rightarrow> groups" where
  "groups_spec data =
     map (\<lambda>k. (k, filter (\<lambda>d. position_of d = k) data)) (first_seen (map position_of data))"

lemma group_append_spec:
  "group_append (groups_spec xs) (position_of y) y = groups_spec (xs @ [y])"
proof (cases "position_of y \<in> position_of ` set xs")
  case True
  then show ?thesis
    by (auto simp: group_append_def groups_spec_def map_of_map_pairs update_map_pairs first_seen_snoc
             intro!: map_cong)
next
  case False
  then have nx: "x \<in> set xs \<Longrightarrow> position_of x \<noteq> position_of y" for x
    by (auto intro: rev_image_eqI)
  then have "filter (\<lambda>d. position_of d = position_of y) xs = []"
    by (auto simp: filter_empty_conv)
  with False nx show ?thesis
    by (auto simp: group_append_def groups_spec_def map_of_map_pairs update_map_pairs first_seen_snoc
             intro!: map_cong)
qed

lemma getitem_position: "has_position d \<Longrightarrow> py_getitem d K_position = Inr (position_of d)"
  by (auto simp: has_position_def position_of_def split: option.splits)

lemma hashable_position: "has_position d \<Longrightarrow> py_hashable (position_of d)"
  by (auto simp: has_position_def position_of_def split: option.splits)

lemma group_loop_spec:
  "list_all has_position ys \<Longrightarrow> group_loop (groups_spec xs) ys = Inr (groups_spec (xs @ ys))"
proof (induction ys arbitrary: xs)
  case Nil
  then show ?case by simp
next
  case (Cons y ys)
  then have "group_loop (groups_spec xs) (y # ys) = group_loop (groups_spec (xs @ [y])) ys"
    by (simp add: getitem_position hashable_position group_append_spec)
  with Cons show ?case by simp
qed

lemma group_loop_append:
  "group_loop g (xs @ ys) = ebind (group_loop g xs) (\<lambda>g'. group_loop g' ys)"
  by (induction xs arbitrary: g) (auto simp: ebind_eq_case split: sum.splits)

lemma groups_spec_Nil [simp]: "groups_spec [] = []"
  by (simp add: groups_spec_def)

text \<open>\<^verbatim>\<open>grouped[k].append(developer)\<close> on the pairs of the dictionary: it adds the
  record to the bucket of its key, or opens a new bucket at the end.\<close>

lemma group_append_Nil: "group_append [] k d = [(k, [d])]"
  by (simp add: group_append_def)

lemma group_append_Cons:
  "group_append ((a, b) # g) k d = (if a = k then (k, b @ [d]) # g else (a, b) # group_append g k d)"
  by (simp add: group_append_def)

lemma group_append_keys: "set (map fst (group_append g k d)) = insert k (set (map fst g))"
proof (induction g)
  case (Cons p g)
  then show ?case by (cases p) (auto simp: group_append_Cons)
qed (simp add: group_append_Nil)

lemma group_append_memD: "(a, b) \<in> set (group_append g k d) \<Longrightarrow> a = k \<or> a \<in> fst ` set g"
  using group_append_keys [of g k d] by force

lemma group_append_mset:
  "mset (concat (map snd (group_append g k d))) = mset (concat (map snd g)) + {#d#}"
proof (induction g)
  case (Cons p g)
  then show ?case by (cases p) (simp add: group_append_Cons)
qed (simp add: group_append_Nil)

lemma group_append_buckets:
  assumes "distinct (map fst g)"
    and "list_all (\<lambda>(k, ds). ds \<noteq> [] \<and> list_all (\<lambda>d. map_of d K_position = Some k) ds) g"
    and "map_of d K_position = Some k"
  shows "distinct (map fst (group_append g k d)) \<and>
    list_all (\<lambda>(k, ds). ds \<noteq> [] \<and> list_all (\<lambda>d. map_of d K_position = Some k) ds) (group_append g k d)"
  using assms
proof (induction g)
  case (Cons p g)
  then show ?case
    by (cases p) (auto simp: group_append_Cons dest: group_append_memD)
qed (simp add: group_append_Nil)

lemma group_loop_partition:
  "group_loop g ds = Inr g' \<Longrightarrow> distinct (map fst g) \<Longrightarrow>
   list_all (\<lambda>(k, ds). ds \<noteq> [] \<and> list_all (\<lambda>d. map_of d K_position = Some k) ds) g \<Longrightarrow>
   distinct (map fst g') \<and>
   list_all (\<lambda>(k, ds). ds \<noteq> [] \<and> list_all (\<lambda>d. map_of d K_position = Some k) ds) g' \<and>
   mset (concat (map snd g')) = mset (concat (map snd g)) + mset ds"
proof (induction ds arbitrary: g)
  case (Cons d ds)
  then obtain k where k: "map_of d K_position = Some k" and h: "py_hashable k"
      and r: "group_loop (group_append g k d) ds = Inr g'"
    by (auto simp: ebind_eq_case split: sum.splits if_splits)
  from group_append_buckets [OF Cons.prems(2,3) k] have
    "distinct (map fst (group_append g k d))"
    "list_all (\<lambda>(k, ds). ds \<noteq> [] \<and> list_all (\<lambda>d. map_of d K_position = Some k) ds) (group_append g k d)"
    by auto
  from Cons.IH [OF r this] show ?case
    by (simp add: group_append_mset)
qed simp

subsection \<open>The sum of the performance values\<close>

text \<open>A record whose \<^verbatim>\<open>performance\<close> is a finite float, its value, and the mean of
  the values of a list of such records.\<close>

definition perf_finite :: "pydict \<Rightarrow> bool" where
  "perf_finite d \<longleftrightarrow> (case map_of d K_performance of Some (VFloat (Fin r)) \<Rightarrow> True | _ \<Rightarrow> False)"

definition perf_val :: "pydict \<Rightarrow> rat" where
  "perf_val d = (case map_of d K_performance of Some (VFloat (Fin r)) \<Rightarrow> r | _ \<Rightarrow> 0)"

definition mean_perf :: "pydict list \<Rightarrow> rat" where
  "mean_perf ds = (if ds = [] then 0 else sum_list (map perf_val ds) / of_nat (length ds))"

lemma perf_map_iff:
  "map (\<lambda>d. map_of d K_performance) ds = map (\<lambda>r. Some (VFloat (Fin r))) rs \<longleftrightarrow>
   list_all perf_finite ds \<and> map perf_val ds = rs"
proof (induction ds arbitrary: rs)
  case Nil
  then show ?case by auto
next
  case (Cons d ds)
  then show ?case
    by (cases rs) (auto simp: perf_finite_def perf_val_def split: option.splits pyval.splits pyfloat.splits)
qed

lemma sum_perf_fin:
  "map (\<lambda>d. map_of d K_performance) devs = map (\<lambda>r. Some (VFloat (Fin r))) rs \<Longrightarrow>
   sum_perf (VFloat (Fin a)) devs = Inr (VFloat (Fin (a + sum_list rs)))"
proof (induction devs arbitrary: rs a)
  case Nil
  then show ?case by simp
next
  case (Cons d devs)
  then obtain r rs' where "rs = r # rs'" "map_of d K_performance = Some (VFloat (Fin r))"
    "map (\<lambda>d. map_of d K_performance) devs = map (\<lambda>r. Some (VFloat (Fin r))) rs'"
    by (cases rs) auto
  with Cons.IH [of rs' "a + r"] show ?case by (simp add: add.assoc)
qed

lemma average_fin:
  assumes "list_all perf_finite developers"
  shows "calculate_average_performance developers = Inr (Fin (mean_perf developers))"
proof (cases developers)
  case Nil
  then show ?thesis by (simp add: calculate_average_performance_def mean_perf_def)
next
  case (Cons d devs)
  with assms have "perf_finite d" "list_all perf_finite devs" by simp_all
  have "map_of d K_performance = Some (VFloat (Fin (perf_val d)))"
    using \<open>perf_finite d\<close>
    by (auto simp: perf_finite_def perf_val_def split: option.splits pyval.splits pyfloat.splits)
  have "map (\<lambda>d. map_of d K_performance) devs = map (\<lambda>r. Some (VFloat (Fin r))) (map perf_val devs)"
    using \<open>list_all perf_finite devs\<close> by (intro perf_map_iff [THEN iffD2]) simp
  with Cons \<open>map_of d K_performance = _\<close> sum_perf_fin [OF this, of "perf_val d"] show ?thesis
    by (simp add: calculate_average_performance_def py_truediv_len_def mean_perf_def)
qed

lemma sum_perf_nan:
  "map (\<lambda>d. map_of d K_performance) devs = map (\<lambda>f. Some (VFloat f)) fs \<Longrightarrow>
   sum_perf (VFloat NaN) devs = Inr (VFloat NaN)"
proof (induction devs arbitrary: fs)
  case Nil
  then show ?case by simp
next
  case (Cons d devs)
  then show ?case by (cases fs) auto
qed

lemma sum_perf_floats_nan:
  "map (\<lambda>d. map_of d K_performance) devs = map (\<lambda>f. Some (VFloat f)) fs \<Longrightarrow> NaN \<in> set fs \<Longrightarrow>
   (\<exists>a. acc = VInt a) \<or> (\<exists>f. acc = VFloat f) \<Longrightarrow> sum_perf acc devs = Inr (VFloat NaN)"
proof (induction devs arbitrary: fs acc)
  case Nil
  then show ?case by simp
next
  case (Cons d devs)
  then obtain f fs' where fs: "fs = f # fs'" "map_of d K_performance = Some (VFloat f)"
    "map (\<lambda>d. map_of d K_performance) devs = map (\<lambda>f. Some (VFloat f)) fs'"
    by (cases fs) auto
  show ?case
  proof (cases "f = NaN")
    case True
    with fs Cons.prems(3) show ?thesis by (auto simp: sum_perf_nan)
  next
    case False
    with fs Cons.prems(2) have "NaN \<in> set fs'" by simp
    with fs Cons.prems(3) Cons.IH [OF fs(3)] show ?thesis by auto
  qed
qed

subsection \<open>Properties of \<^verbatim>\<open>group_by_position\<close>\<close>

text \<open>C4: When every record has a hashable \<^verbatim>\<open>position\<close> value, \<^verbatim>\<open>group_by_position\<close>
  returns one group per distinct position, in the order positions first occur in the input,
  and each group holds exactly the records with that position, in input order.\<close>

theorem group_by_position_spec:
  assumes "list_all has_position data"
  shows "group_by_position data = Inr (groups_spec data)"
  using group_loop_spec [OF assms, of "[]"] by (simp add: group_by_position_def)

theorem group_by_position_spec_witness:
  "list_all has_position [[(K_position, VStr ''Backend''), (K_performance, VFloat (Fin 4))],
      [(K_position, VStr ''Frontend''), (K_performance, VFloat (Fin 5))],
      [(K_position, VStr ''Backend''), (K_performance, VFloat (Fin 3))]] \<and>
   group_by_position [[(K_position, VStr ''Backend''), (K_performance, VFloat (Fin 4))],
      [(K_position, VStr ''Frontend''), (K_performance, VFloat (Fin 5))],
      [(K_position, VStr ''Backend''), (K_performance, VFloat (Fin 3))]] =
     Inr [(VStr ''Backend'', [[(K_position, VStr ''Backend''), (K_performance, VFloat (Fin 4))],
                             [(K_position, VStr ''Backend''), (K_performance, VFloat (Fin 3))]]),
          (VStr ''Frontend'', [[(K_position, VStr ''Frontend''), (K_performance, VFloat (Fin 5))]])]"
  using group_by_position_spec [of "[[(K_position, VStr ''Backend''), (K_performance, VFloat (Fin 4))],
      [(K_position, VStr ''Frontend''), (K_performance, VFloat (Fin 5))],
      [(K_position, VStr ''Backend''), (K_performance, VFloat (Fin 3))]]"]
  by (simp add: has_position_def py_hashable_def groups_spec_def position_of_def first_seen_def)

text \<open>C26: A record without a \<^verbatim>\<open>position\<close> key makes \<^verbatim>\<open>group_by_position\<close> raise
  \<^verbatim>\<open>KeyError('position')\<close>, whatever follows it, when the records before it are well
  formed.\<close>

theorem group_by_position_missing:
  assumes "list_all has_position ds1" and "map_of d K_position = None"
  shows "group_by_position (ds1 @ d # ds2) = Inl (KeyError K_position)"
  using group_loop_spec [OF assms(1), of "[]"] assms(2)
  by (simp add: group_by_position_def group_loop_append)

theorem group_by_position_missing_witness:
  "list_all has_position [[(K_position, VStr ''QA'')]] \<and>
   map_of [(K_performance, VFloat (Fin 4))] K_position = None \<and>
   group_by_position ([[(K_position, VStr ''QA'')]] @ [(K_performance, VFloat (Fin 4))] # [[(K_position, VList [])]])
     = Inl (KeyError K_position)"
  using group_by_position_missing [of "[[(K_position, VStr ''QA'')]]" "[(K_performance, VFloat (Fin 4))]"
      "[[(K_position, VList [])]]"]
  by (simp add: has_position_def py_hashable_def)

subsection \<open>Properties of \<^verbatim>\<open>calculate_average_performance\<close>\<close>

text \<open>C5: When every record's \<^verbatim>\<open>performance\<close> is a finite float, the average is the
  arithmetic mean of the values, and 0 for no records.\<close>

theorem calculate_average_performance_mean:
  assumes "map (\<lambda>d. map_of d K_performance) developers = map (\<lambda>r. Some (VFloat (Fin r))) rs"
  shows "calculate_average_performance developers =
           Inr (Fin (if rs = [] then 0 else sum_list rs / of_nat (length rs)))"
proof -
  from assms have "list_all perf_finite developers" "rs = map perf_val developers"
    by (simp_all add: perf_map_iff)
  then show ?thesis by (simp add: average_fin mean_perf_def)
qed

theorem calculate_average_performance_mean_witness:
  "map (\<lambda>d. map_of d K_performance) [[(K_position, VStr ''Backend''), (K_performance, VFloat (Fin 4))],
      [(K_position, VStr ''Frontend''), (K_performance, VFloat (Fin 5))],
      [(K_position, VStr ''Backend''), (K_performance, VFloat (Fin 3))]] = map (\<lambda>r. Some (VFloat (Fin r))) [4, 5, 3] \<and>
   calculate_average_performance [[(K_position, VStr ''Backend''), (K_performance, VFloat (Fin 4))],
      [(K_position, VStr ''Frontend''), (K_performance, VFloat (Fin 5))],
      [(K_position, VStr ''Backend''), (K_performance, VFloat (Fin 3))]] = Inr (Fin 4)"
  using calculate_average_performance_mean [of "[[(K_position, VStr ''Backend''), (K_performance, VFloat (Fin 4))],
      [(K_position, VStr ''Frontend''), (K_performance, VFloat (Fin 5))],
      [(K_position, VStr ''Backend''), (K_performance, VFloat (Fin 3))]]" "[4, 5, 3]"] by simp

text \<open>C27: When every record's \<^verbatim>\<open>performance\<close> is a float and one of them is
  \<^verbatim>\<open>nan\<close> (which \<^verbatim>\<open>float()\<close> accepts from a CSV cell), the average is \<^verbatim>\<open>nan\<close>.\<close>

theorem calculate_average_performance_nan:
  assumes "map (\<lambda>d. map_of d K_performance) developers = map (\<lambda>f. Some (VFloat f)) fs"
    and "NaN \<in> set fs"
  shows "calculate_average_performance developers = Inr NaN"
proof -
  from assms have "developers \<noteq> []" by auto
  with sum_perf_floats_nan [OF assms, of "VInt 0"] show ?thesis
    by (simp add: calculate_average_performance_def py_truediv_len_def)
qed

theorem calculate_average_performance_nan_witness:
  "map (\<lambda>d. map_of d K_performance) [[(K_performance, VFloat (Fin 4))], [(K_performance, VFloat NaN)]]
     = map (\<lambda>f. Some (VFloat f)) [Fin 4, NaN] \<and> NaN \<in> set [Fin 4, NaN] \<and>
   calculate_average_performance [[(K_performance, VFloat (Fin 4))], [(K_performance, VFloat NaN)]] = Inr NaN"
  using calculate_average_performance_nan [of "[[(K_performance, VFloat (Fin 4))], [(K_performance, VFloat NaN)]]"
      "[Fin 4, NaN]"] by simp

text \<open>C30: Every dictionary \<^verbatim>\<open>group_by_position\<close> returns partitions its input:
  the keys are distinct, every bucket is non-empty and holds only records whose
  \<^verbatim>\<open>position\<close> is its key, and the buckets together hold exactly the input records,
  each as often as it occurs.\<close>

theorem group_by_position_partition:
  assumes "group_by_position data = Inr grouped"
  shows "distinct (map fst grouped) \<and>
    list_all (\<lambda>(k, ds). ds \<noteq> [] \<and> list_all (\<lambda>d. map_of d K_position = Some k) ds) grouped \<and>
    mset (concat (map snd grouped)) = mset data"
  using group_loop_partition [of "[]" data grouped] assms by (simp add: group_by_position_def)

theorem group_by_position_partition_witness:
  "group_by_position [[(K_position, VStr ''B'')], [(K_position, VStr ''F'')], [(K_position, VStr ''B'')]] =
     Inr [(VStr ''B'', [[(K_position, VStr ''B'')], [(K_position, VStr ''B'')]]), (VStr ''F'', [[(K_position, VStr ''F'')]])] \<and>
   distinct (map fst [(VStr ''B'', [[(K_position, VStr ''B'')], [(K_position, VStr ''B'')]]), (VStr ''F'', [[(K_position, VStr ''F'')]])])"
proof -
  have g: "group_by_position [[(K_position, VStr ''B'')], [(K_position, VStr ''F'')], [(K_position, VStr ''B'')]] =
     Inr [(VStr ''B'', [[(K_position, VStr ''B'')], [(K_position, VStr ''B'')]]), (VStr ''F'', [[(K_position, VStr ''F'')]])]"
    by (simp add: group_by_position_def group_append_def py_hashable_def)
  show ?thesis using group_by_position_partition [OF g] g by simp
qed

end
