(* ===== verification/PySort.thy ===== *)
theory PySort
  imports Prelude "HOL-Library.Multiset"
begin

text \<open>
  CPython's \<^verbatim>\<open>list.sort(key=key, reverse=True)\<close>: reverse the list, sort it stably in
  ascending order comparing keys with the type's \<open><\<close> only, reverse it again
  (\<^verbatim>\<open>list_sort_impl\<close> in Objects/listobject.c). The stable ascending sort is an
  insertion sort: \<open>ins_by lt key x ys\<close> puts \<open>x\<close> before the first element of
  \<open>ys\<close> whose key it is less than. Where \<open><\<close> is a strict total order on the keys
  present, every stable sort returns this list; it is then the library's \<open>sort_key\<close>
  for a rank that orders the keys from the largest.
\<close>

fun ins_by :: "('k \<Rightarrow> 'k \<Rightarrow> bool) \<Rightarrow> ('a \<Rightarrow> 'k) \<Rightarrow> 'a \<Rightarrow> 'a list \<Rightarrow> 'a list" where
  "ins_by lt key x [] = [x]"
| "ins_by lt key x (y # ys) = (if lt (key x) (key y) then x # y # ys else y # ins_by lt key x ys)"

definition sort_by :: "('k \<Rightarrow> 'k \<Rightarrow> bool) \<Rightarrow> ('a \<Rightarrow> 'k) \<Rightarrow> 'a list \<Rightarrow> 'a list" where
  "sort_by lt key xs = fold (ins_by lt key) xs []"

definition py_sort_reverse :: "('k \<Rightarrow> 'k \<Rightarrow> bool) \<Rightarrow> ('a \<Rightarrow> 'k) \<Rightarrow> 'a list \<Rightarrow> 'a list" where
  "py_sort_reverse lt key xs = rev (sort_by lt key (rev xs))"

text \<open>\<open>rk\<close> ranks the keys of \<open>S\<close> from the largest: \<open>lt a b\<close> exactly when \<open>b\<close>
  ranks before \<open>a\<close>.\<close>

definition ranks :: "('k \<Rightarrow> 'k \<Rightarrow> bool) \<Rightarrow> ('k \<Rightarrow> 'r::linorder) \<Rightarrow> 'k set \<Rightarrow> bool" where
  "ranks lt rk S \<longleftrightarrow> (\<forall>a\<in>S. \<forall>b\<in>S. lt a b \<longleftrightarrow> rk b < rk a)"

abbreviation rank_sorted :: "('k \<Rightarrow> 'r::linorder) \<Rightarrow> ('a \<Rightarrow> 'k) \<Rightarrow> 'a list \<Rightarrow> bool" where
  "rank_sorted rk key ys \<equiv> sorted_wrt (\<lambda>a b. rk (key b) \<le> rk (key a)) ys"

lemma mset_ins_by [simp]: "mset (ins_by lt key x ys) = add_mset x (mset ys)"
  by (induction ys) auto

lemma set_ins_by [simp]: "set (ins_by lt key x ys) = insert x (set ys)"
  by (induction ys) auto

lemma sort_by_snoc: "sort_by lt key (xs @ [x]) = ins_by lt key x (sort_by lt key xs)"
  by (simp add: sort_by_def)

lemma mset_sort_by [simp]: "mset (sort_by lt key xs) = mset xs"
  by (induction xs rule: rev_induct) (simp_all add: sort_by_snoc sort_by_def)

lemma set_sort_by [simp]: "set (sort_by lt key xs) = set xs"
  by (metis mset_sort_by set_mset_mset)

lemma ranks_mono: "ranks lt rk S \<Longrightarrow> T \<subseteq> S \<Longrightarrow> ranks lt rk T"
  by (auto simp: ranks_def)

lemma ins_by_sorted:
  "ranks lt rk (key ` set (x # ys)) \<Longrightarrow> rank_sorted rk key ys \<Longrightarrow> rank_sorted rk key (ins_by lt key x ys)"
proof (induction ys)
  case Nil
  then show ?case by simp
next
  case (Cons y ys)
  have r: "lt (key x) (key y) \<longleftrightarrow> rk (key y) < rk (key x)" using Cons.prems(1) by (simp add: ranks_def)
  have "ranks lt rk (key ` set (x # ys))" using Cons.prems(1) by (rule ranks_mono) auto
  with Cons show ?case using r by (auto intro: order.trans)
qed

lemma filter_ins_by:
  assumes "ranks lt rk (key ` set (x # ys))" and "rank_sorted rk key ys"
  shows "filter (\<lambda>y. rk (key y) = k) (ins_by lt key x ys) =
           filter (\<lambda>y. rk (key y) = k) ys @ (if rk (key x) = k then [x] else [])"
  using assms
proof (induction ys)
  case Nil
  then show ?case by simp
next
  case (Cons y ys)
  show ?case
  proof (cases "lt (key x) (key y)")
    case True
    with Cons.prems(1) have lt: "rk (key y) < rk (key x)" by (simp add: ranks_def)
    with Cons.prems(2) have lt': "rk (key z) < rk (key x)" if "z \<in> set (y # ys)" for z
      using that by (auto intro: order.strict_trans1)
    have "filter (\<lambda>y. rk (key y) = k) (y # ys) = []" if "rk (key x) = k"
      using lt' that by (intro filter_False ballI) (metis less_irrefl)
    with True show ?thesis by auto
  next
    case False
    have "ranks lt rk (key ` set (x # ys))" using Cons.prems(1) by (rule ranks_mono) auto
    with False Cons show ?thesis by simp
  qed
qed

lemma sort_by_sorted: "ranks lt rk (key ` set xs) \<Longrightarrow> rank_sorted rk key (sort_by lt key xs)"
proof (induction xs rule: rev_induct)
  case Nil
  then show ?case by (simp add: sort_by_def)
next
  case (snoc x xs)
  have "ranks lt rk (key ` set xs)" using snoc.prems by (rule ranks_mono) auto
  moreover have "ranks lt rk (key ` set (x # sort_by lt key xs))" using snoc.prems by (rule ranks_mono) auto
  ultimately show ?case using snoc by (simp add: sort_by_snoc ins_by_sorted)
qed

lemma filter_sort_by:
  "ranks lt rk (key ` set xs) \<Longrightarrow>
   filter (\<lambda>y. rk (key y) = k) (sort_by lt key xs) = filter (\<lambda>y. rk (key y) = k) xs"
proof (induction xs rule: rev_induct)
  case Nil
  then show ?case by (simp add: sort_by_def)
next
  case (snoc x xs)
  have r: "ranks lt rk (key ` set xs)" using snoc.prems by (rule ranks_mono) auto
  have "ranks lt rk (key ` set (x # sort_by lt key xs))" using snoc.prems by (rule ranks_mono) auto
  with snoc r show ?case by (simp add: sort_by_snoc filter_ins_by sort_by_sorted)
qed

theorem py_sort_reverse_sort_key:
  assumes "ranks lt rk (key ` set xs)"
  shows "py_sort_reverse lt key xs = sort_key (\<lambda>x. rk (key x)) xs"
proof (rule properties_for_sort_key [symmetric])
  have r: "ranks lt rk (key ` set (rev xs))" using assms by simp
  show "mset (py_sort_reverse lt key xs) = mset xs" by (simp add: py_sort_reverse_def)
  show "filter (\<lambda>y. rk (key k) = rk (key y)) (py_sort_reverse lt key xs) =
        filter (\<lambda>y. rk (key k) = rk (key y)) xs" for k
    using filter_sort_by [OF r, of "rk (key k)"]
    by (simp add: py_sort_reverse_def rev_filter [symmetric] eq_commute [of "rk (key k)"])
  show "sorted (map (\<lambda>x. rk (key x)) (py_sort_reverse lt key xs))"
    using sort_by_sorted [OF r] by (simp add: py_sort_reverse_def sorted_wrt_rev sorted_wrt_map)
qed

end
