(* ===== verification/Reports.thy ===== *)
theory Reports
  imports Processors PySort "HOL-Library.Product_Lexorder"
begin

text \<open>
  \<^verbatim>\<open>PerformanceReport\<close> (src/script/reports.py): \<^verbatim>\<open>generate\<close> groups the records
  by position, averages each group's performance in the groups' order, and sorts the
  rows by average with \<^verbatim>\<open>list.sort(key=lambda x: x[1], reverse=True)\<close>;
  \<^verbatim>\<open>display\<close> prints the rows through \<^verbatim>\<open>tabulate\<close> when it can be imported, and
  otherwise as fixed-width lines.
\<close>

type_synonym report_row = "pyval \<times> pyfloat"

subsection \<open>\<^verbatim>\<open>PerformanceReport.generate\<close>\<close>

text \<open>The loop over \<^verbatim>\<open>grouped_data.items()\<close> appending \<^verbatim>\<open>(position, avg_performance)\<close>.\<close>

fun report_loop :: "report_row list \<Rightarrow> groups \<Rightarrow> report_row list result" where
  "report_loop report [] = Inr report"
| "report_loop report ((position, developers) # grouped) =
     ebind (calculate_average_performance developers) (\<lambda>avg_performance.
       report_loop (report @ [(position, avg_performance)]) grouped)"

text \<open>\<^verbatim>\<open>report.sort(key=lambda x: x[1], reverse=True)\<close>, with Python's \<open><\<close> on
  floats.\<close>

definition sort_metric_desc :: "report_row list \<Rightarrow> report_row list" where
  "sort_metric_desc report = py_sort_reverse py_flt snd report"

definition generate :: "pydict list \<Rightarrow> report_row list result" where
  "generate data =
     ebind (group_by_position data) (\<lambda>grouped_data.
       ebind (report_loop [] grouped_data) (\<lambda>report. Inr (sort_metric_desc report)))"

subsection \<open>\<^verbatim>\<open>PerformanceReport.display\<close>\<close>

text \<open>
  The lines \<^verbatim>\<open>display\<close> prints. \<open>PerfGrid rows\<close> is the one
  \<^verbatim>\<open>print(tabulate(table_data, headers=[...], tablefmt="grid"))\<close>, with the
  \<^verbatim>\<open>table_data\<close> handed to \<^verbatim>\<open>tabulate\<close> (whose rendering is not modelled);
  \<open>PerfHeading\<close> the fixed (Cyrillic) heading line of the fallback branch.
\<close>

datatype out_line = PerfGrid "(pyval \<times> string) list" | PerfHeading | Line string

text \<open>\<^verbatim>\<open>format(s, 'w')\<close> pads a string on the right, a number on the left,
  to at least \<open>w\<close> characters.\<close>

definition pad_right :: "nat \<Rightarrow> string \<Rightarrow> string" where
  "pad_right w s = s @ replicate (w - length s) CHR '' ''"

definition pad_left :: "nat \<Rightarrow> string \<Rightarrow> string" where
  "pad_left w s = replicate (w - length s) CHR '' '' @ s"

text \<open>
  \<^verbatim>\<open>f"{position:30}"\<close>. \<^verbatim>\<open>None\<close> and lists refuse a non-empty format spec
  (\<^verbatim>\<open>object.__format__\<close>). A float label is shown by its \<^verbatim>\<open>repr\<close>, which
  depends on the binary64 value and is a parameter \<open>float_repr\<close> of the model;
  \<^verbatim>\<open>read_csv_files\<close> never yields a float position.
\<close>

definition format_label :: "(pyfloat \<Rightarrow> string) \<Rightarrow> pyval \<Rightarrow> string result" where
  "format_label float_repr v = (case v of
      VStr s \<Rightarrow> Inr (pad_right 30 s)
    | VInt i \<Rightarrow> Inr (pad_left 30 (int_str i))
    | VFloat f \<Rightarrow> Inr (pad_left 30 (float_repr f))
    | VNone \<Rightarrow> Inl (TypeError (UnsupportedFormat ''NoneType''))
    | VList _ \<Rightarrow> Inl (TypeError (UnsupportedFormat ''list'')))"

text \<open>The loop of the fallback branch: the lines printed, and the exception that stops
  it, if any (lines printed before it stay printed).\<close>

fun display_lines :: "(pyfloat \<Rightarrow> string) \<Rightarrow> report_row list \<Rightarrow> string list \<times> exc option" where
  "display_lines float_repr [] = ([], None)"
| "display_lines float_repr ((position, performance) # rows) =
     (case format_label float_repr position of
        Inl e \<Rightarrow> ([], Some e)
      | Inr l \<Rightarrow> (case display_lines float_repr rows of
                  (ls, e) \<Rightarrow> ((l @ CHR '' '' # pad_left 10 (fmt_fixed2 performance)) # ls, e)))"

text \<open>\<open>has_tabulate\<close>: whether \<^verbatim>\<open>from tabulate import tabulate\<close> succeeds.\<close>

definition display :: "bool \<Rightarrow> (pyfloat \<Rightarrow> string) \<Rightarrow> report_row list \<Rightarrow> out_line list \<times> exc option" where
  "display has_tabulate float_repr report_data =
     (if has_tabulate
      then ([PerfGrid (map (\<lambda>(position, performance). (position, fmt_fixed2 performance)) report_data)], None)
      else (case display_lines float_repr report_data of
              (ls, e) \<Rightarrow> (PerfHeading # Line (replicate 50 CHR ''-'') # map Line ls, e)))"

subsection \<open>The specification of \<^verbatim>\<open>generate\<close>\<close>

text \<open>What \<^verbatim>\<open>generate\<close> promises (spec section 5): one row per group of
  \<^verbatim>\<open>group_by_position\<close>, its position and mean performance, sorted by descending mean
  with a stable sort, so that ties keep the groups' first-seen order.\<close>

definition desc_key :: "pyfloat \<Rightarrow> int \<times> rat" where
  "desc_key f = (case f of PInf \<Rightarrow> (0, 0) | Fin r \<Rightarrow> (1, - r) | NInf \<Rightarrow> (2, 0) | NaN \<Rightarrow> (3, 0))"

definition perf_rows_spec :: "pydict list \<Rightarrow> report_row list" where
  "perf_rows_spec data =
     sort_key (\<lambda>x. desc_key (snd x)) (map (\<lambda>(k, ds). (k, Fin (mean_perf ds))) (groups_spec data))"

subsection \<open>The order the sort establishes\<close>

text \<open>\<open>desc_key\<close> sorts floats in descending order: \<open>inf\<close> first, then the finite
  values from the largest, then \<open>-inf\<close>.\<close>

lemma py_flt_desc_key:
  "a \<noteq> NaN \<Longrightarrow> b \<noteq> NaN \<Longrightarrow> py_flt a b \<longleftrightarrow> desc_key b < desc_key a"
  by (cases a; cases b) (auto simp: desc_key_def)

lemma desc_key_eq_iff: "desc_key a = desc_key b \<longleftrightarrow> a = b"
  by (cases a; cases b) (auto simp: desc_key_def)

abbreviation nan_free :: "report_row list \<Rightarrow> bool" where
  "nan_free ys \<equiv> NaN \<notin> snd ` set ys"

lemma nan_free_snd: "nan_free xs \<Longrightarrow> x \<in> set xs \<Longrightarrow> snd x \<noteq> NaN"
  by (metis image_eqI)

lemma ranks_py_flt: "NaN \<notin> S \<Longrightarrow> ranks py_flt desc_key S"
  unfolding ranks_def by (metis py_flt_desc_key)

lemma sort_metric_desc_sort_key:
  "nan_free xs \<Longrightarrow> sort_metric_desc xs = sort_key (\<lambda>x. desc_key (snd x)) xs"
  unfolding sort_metric_desc_def by (rule py_sort_reverse_sort_key, rule ranks_py_flt) simp

subsection \<open>\<^verbatim>\<open>generate\<close> on well-formed records\<close>

lemma report_loop_fin:
  "list_all (\<lambda>(k, ds). list_all perf_finite ds) g \<Longrightarrow>
   report_loop acc g = Inr (acc @ map (\<lambda>(k, ds). (k, Fin (mean_perf ds))) g)"
  by (induction acc g rule: report_loop.induct) (simp_all add: average_fin)

lemma groups_spec_perf:
  "list_all perf_finite data \<Longrightarrow> list_all (\<lambda>(k, ds). list_all perf_finite ds) (groups_spec data)"
  by (auto simp: groups_spec_def list_all_iff)

lemma nan_free_mean_rows: "nan_free (map (\<lambda>(k, ds). (k, Fin (mean_perf ds))) g)"
  by auto

lemma generate_fin:
  assumes "list_all has_position data" and "list_all perf_finite data"
  shows "generate data = Inr (perf_rows_spec data)"
  using group_loop_spec [OF assms(1), of "[]"] report_loop_fin [OF groups_spec_perf [OF assms(2)], of "[]"]
  by (simp add: generate_def group_by_position_def perf_rows_spec_def sort_metric_desc_sort_key [OF nan_free_mean_rows])

text \<open>C2: On records that all have a hashable position and a finite float performance,
  \<^verbatim>\<open>PerformanceReport.generate\<close> returns the rows of the specification: one
  \<open>(position, mean)\<close> row per group in the grouping of \<^verbatim>\<open>group_by_position\<close>,
  sorted by descending mean with a stable sort (ties keep first-seen order).\<close>

theorem generate_spec:
  assumes "list_all has_position data" and "list_all perf_finite data"
  shows "generate data = Inr (perf_rows_spec data)"
  using assms by (rule generate_fin)

theorem generate_spec_witness:
  "list_all has_position [[(K_position, VStr ''Backend Developer''), (K_performance, VFloat (Fin 3))],
      [(K_position, VStr ''Frontend Developer''), (K_performance, VFloat (Fin 4))],
      [(K_position, VStr ''Backend Developer''), (K_performance, VFloat (Fin 4))],
      [(K_position, VStr ''Frontend Developer''), (K_performance, VFloat (Fin 5))]] \<and> list_all perf_finite [[(K_position, VStr ''Backend Developer''), (K_performance, VFloat (Fin 3))],
      [(K_position, VStr ''Frontend Developer''), (K_performance, VFloat (Fin 4))],
      [(K_position, VStr ''Backend Developer''), (K_performance, VFloat (Fin 4))],
      [(K_position, VStr ''Frontend Developer''), (K_performance, VFloat (Fin 5))]] \<and>
   generate [[(K_position, VStr ''Backend Developer''), (K_performance, VFloat (Fin 3))],
      [(K_position, VStr ''Frontend Developer''), (K_performance, VFloat (Fin 4))],
      [(K_position, VStr ''Backend Developer''), (K_performance, VFloat (Fin 4))],
      [(K_position, VStr ''Frontend Developer''), (K_performance, VFloat (Fin 5))]] = Inr [(VStr ''Frontend Developer'', Fin (9 / 2)), (VStr ''Backend Developer'', Fin (7 / 2))]"
  using generate_spec [of "[[(K_position, VStr ''Backend Developer''), (K_performance, VFloat (Fin 3))],
      [(K_position, VStr ''Frontend Developer''), (K_performance, VFloat (Fin 4))],
      [(K_position, VStr ''Backend Developer''), (K_performance, VFloat (Fin 4))],
      [(K_position, VStr ''Frontend Developer''), (K_performance, VFloat (Fin 5))]]"]
  by (simp add: has_position_def py_hashable_def perf_finite_def perf_rows_spec_def groups_spec_def
      position_of_def first_seen_def mean_perf_def perf_val_def desc_key_def)

text \<open>C6: On rows whose averages are not \<^verbatim>\<open>nan\<close>, the sort of \<^verbatim>\<open>generate\<close>
  (\<^verbatim>\<open>report.sort(key=lambda x: x[1], reverse=True)\<close>) is the stable sort of the rows by
  descending average: it returns the rows \<^verbatim>\<open>sort_key\<close> returns for the key
  \<open>desc_key\<close>, so the result is a permutation of the rows, in descending order, and
  rows with equal averages stay in their order.\<close>

theorem sort_metric_desc_stable:
  assumes "NaN \<notin> snd ` set report"
  shows "mset (sort_metric_desc report) = mset report \<and>
         sorted_wrt (\<lambda>a b. \<not> py_flt (snd a) (snd b)) (sort_metric_desc report) \<and>
         (\<forall>v. filter (\<lambda>x. snd x = v) (sort_metric_desc report) = filter (\<lambda>x. snd x = v) report)"
proof (intro conjI allI)
  note eq = sort_metric_desc_sort_key [OF assms]
  show "mset (sort_metric_desc report) = mset report" by (simp add: eq)
  have "sorted_wrt (\<lambda>a b. desc_key (snd a) \<le> desc_key (snd b)) (sort_metric_desc report)"
    using sorted_sort_key [of "\<lambda>x. desc_key (snd x)" report] by (simp add: eq sorted_wrt_map)
  moreover have "\<not> py_flt (snd a) (snd b)"
    if "a \<in> set (sort_metric_desc report)" "b \<in> set (sort_metric_desc report)"
       "desc_key (snd a) \<le> desc_key (snd b)" for a b
  proof -
    from that(1,2) assms have "snd a \<noteq> NaN" "snd b \<noteq> NaN" by (simp_all add: eq nan_free_snd)
    with that(3) show ?thesis by (simp add: py_flt_desc_key not_less)
  qed
  ultimately show "sorted_wrt (\<lambda>a b. \<not> py_flt (snd a) (snd b)) (sort_metric_desc report)"
    by (rule sorted_wrt_mono_rel [rotated])
  show "filter (\<lambda>x. snd x = v) (sort_metric_desc report) = filter (\<lambda>x. snd x = v) report" for v
    using sort_key_stable [of "\<lambda>x. desc_key (snd x)" "desc_key v" report]
    by (simp add: eq desc_key_eq_iff)
qed

theorem sort_metric_desc_stable_witness:
  "NaN \<notin> snd ` set [(VStr ''A'', Fin 4), (VStr ''B'', Fin 5), (VStr ''C'', Fin 4), (VStr ''D'', PInf)] \<and>
   sort_metric_desc [(VStr ''A'', Fin 4), (VStr ''B'', Fin 5), (VStr ''C'', Fin 4), (VStr ''D'', PInf)] =
     [(VStr ''D'', PInf), (VStr ''B'', Fin 5), (VStr ''A'', Fin 4), (VStr ''C'', Fin 4)]"
  using sort_metric_desc_stable [of "[(VStr ''A'', Fin 4), (VStr ''B'', Fin 5), (VStr ''C'', Fin 4), (VStr ''D'', PInf)]"]
  by (simp add: sort_metric_desc_def py_sort_reverse_def sort_by_def)

subsection \<open>Properties of \<^verbatim>\<open>display\<close>\<close>

lemma display_lines_str:
  assumes "list_all (\<lambda>(p, f). \<exists>s. p = VStr s) rows"
  shows "display_lines fr rows =
           (map (\<lambda>(p, f). pad_right 30 (case p of VStr s \<Rightarrow> s | _ \<Rightarrow> []) @ CHR '' '' # pad_left 10 (fmt_fixed2 f)) rows,
            None)"
  using assms by (induction fr rows rule: display_lines.induct) (auto simp: format_label_def)

lemma display_lines_append:
  "display_lines fr (xs @ ys) =
     (case display_lines fr xs of
        (ls, None) \<Rightarrow> (case display_lines fr ys of (ls', e) \<Rightarrow> (ls @ ls', e))
      | (ls, Some e) \<Rightarrow> (ls, Some e))"
  by (induction fr xs rule: display_lines.induct) (auto split: sum.splits prod.splits option.splits)

lemma length_pad [simp]:
  "length (pad_right w s) = max w (length s)" "length (pad_left w s) = max w (length s)"
  by (simp_all add: pad_right_def pad_left_def)

lemma drop_pad_right: "length s \<le> w \<Longrightarrow> drop w (pad_right w s @ t) = t"
  by (simp add: pad_right_def)

text \<open>C24: Without \<^verbatim>\<open>tabulate\<close>, rows whose positions are strings of at most 30
  characters and whose averages format to at most 10 characters are printed after the
  heading and a rule of 50 dashes as lines of exactly 41 characters, one per row in
  order, each ending with the average to two decimals right-aligned in the last 10
  columns.\<close>

theorem display_fallback_aligned:
  assumes "list_all (\<lambda>(p, f). \<exists>s. p = VStr s \<and> length s \<le> 30 \<and> length (fmt_fixed2 f) \<le> 10) rows"
  shows "\<exists>ls. display False fr rows = (PerfHeading # Line (replicate 50 CHR ''-'') # map Line ls, None) \<and>
              map length ls = replicate (length rows) 41 \<and>
              map (drop 31) ls = map (\<lambda>(p, f). pad_left 10 (fmt_fixed2 f)) rows"
proof -
  have len: "length (pad_right 30 (case p of VStr s \<Rightarrow> s | _ \<Rightarrow> []) @ CHR '' '' # pad_left 10 (fmt_fixed2 f)) = 41"
    "drop 31 (pad_right 30 (case p of VStr s \<Rightarrow> s | _ \<Rightarrow> []) @ CHR '' '' # pad_left 10 (fmt_fixed2 f)) =
       pad_left 10 (fmt_fixed2 f)"
    if "(p, f) \<in> set rows" for p f
    using that assms by (auto simp: list_all_iff pad_right_def)
  let ?L = "map (\<lambda>(p, f). pad_right 30 (case p of VStr s \<Rightarrow> s | _ \<Rightarrow> []) @ CHR '' '' # pad_left 10 (fmt_fixed2 f)) rows"
  have "map length ?L = map (\<lambda>_. 41) rows"
    unfolding map_map by (rule map_cong [OF refl]) (use len(1) in \<open>auto split: prod.splits\<close>)
  moreover have "map (drop 31) ?L = map (\<lambda>(p, f). pad_left 10 (fmt_fixed2 f)) rows"
    unfolding map_map by (rule map_cong [OF refl]) (use len(2) in \<open>auto split: prod.splits\<close>)
  moreover have "list_all (\<lambda>(p, f). \<exists>s. p = VStr s) rows"
    using assms by (auto simp: list_all_iff)
  ultimately show ?thesis
    by (intro exI [of _ ?L]) (simp add: display_def display_lines_str map_replicate_const)
qed

theorem display_fallback_aligned_witness:
  "list_all (\<lambda>(p, f). \<exists>s. p = VStr s \<and> length s \<le> 30 \<and> length (fmt_fixed2 f) \<le> 10) [(VStr ''Frontend Developer'', Fin (9 / 2)), (VStr ''Backend Developer'', Fin (7 / 2))] \<and>
   display False (\<lambda>_. []) [(VStr ''Frontend Developer'', Fin (9 / 2)), (VStr ''Backend Developer'', Fin (7 / 2))] =
     ([PerfHeading, Line (replicate 50 CHR ''-''),
       Line (''Frontend Developer'' @ replicate 12 CHR '' '' @ '' '' @ replicate 6 CHR '' '' @ ''4.50''),
       Line (''Backend Developer'' @ replicate 13 CHR '' '' @ '' '' @ replicate 6 CHR '' '' @ ''3.50'')], None)"
  using display_fallback_aligned [of "[(VStr ''Frontend Developer'', Fin (9 / 2)), (VStr ''Backend Developer'', Fin (7 / 2))]" "\<lambda>_. []"]
  by (simp add: fmt_eval display_def format_label_def pad_right_def pad_left_def)

text \<open>C28: Without \<^verbatim>\<open>tabulate\<close>, a row whose position is \<^verbatim>\<open>None\<close> (which
  \<^verbatim>\<open>csv.DictReader\<close> yields for a short row) stops the fallback loop with
  \<^verbatim>\<open>TypeError\<close> after the lines of the rows before it have been printed.\<close>

theorem display_fallback_none_label:
  assumes "list_all (\<lambda>(p, f). \<exists>s. p = VStr s) rows1"
  shows "display False fr (rows1 @ (VNone, f) # rows2) =
           (PerfHeading # Line (replicate 50 CHR ''-'') #
              map Line (map (\<lambda>(p, f). pad_right 30 (case p of VStr s \<Rightarrow> s | _ \<Rightarrow> []) @ CHR '' '' # pad_left 10 (fmt_fixed2 f)) rows1),
            Some (TypeError (UnsupportedFormat ''NoneType'')))"
  by (simp add: display_def display_lines_append display_lines_str [OF assms] format_label_def)

theorem display_fallback_none_label_witness:
  "list_all (\<lambda>(p, f). \<exists>s. p = VStr s) [(VStr ''QA'', Fin 5)] \<and>
   display False (\<lambda>_. []) ([(VStr ''QA'', Fin 5)] @ (VNone, Fin 4) # []) =
     ([PerfHeading, Line (replicate 50 CHR ''-''), Line (''QA'' @ replicate 28 CHR '' '' @ '' '' @ replicate 6 CHR '' '' @ ''5.00'')],
      Some (TypeError (UnsupportedFormat ''NoneType'')))"
  using display_fallback_none_label [of "[(VStr ''QA'', Fin 5)]" "\<lambda>_. []" "Fin 4" "[]"]
  by (simp add: fmt_eval pad_right_def pad_left_def)

end
