(* ===== verification/Factory.thy ===== *)
theory Factory
  imports Prelude
begin

text \<open>
  \<^verbatim>\<open>ReportFactory\<close> (src/script/reports.py): a process-wide registry, the class
  variable \<^verbatim>\<open>_reports\<close>, mapping report names to report classes in insertion order.
  \<^verbatim>\<open>register_report\<close> admits a class only when \<^verbatim>\<open>issubclass(report_class, Report)\<close>
  holds, \<^verbatim>\<open>create_report\<close> instantiates the class registered under a name, and
  \<^verbatim>\<open>get_report_generator\<close> delegates to it. A class is described by what these
  operations observe of it: its name, whether it is a subclass of \<^verbatim>\<open>Report\<close> (by
  inheritance or \<^verbatim>\<open>Report.register\<close>), the abstract methods it leaves unimplemented
  (which make instantiation raise \<^verbatim>\<open>TypeError\<close>), and the methods it defines.
\<close>

record pyclass =
  cls_name :: string
  cls_report :: bool
  cls_abstract :: "string list"
  cls_methods :: "string list"

text \<open>The argument of \<^verbatim>\<open>register_report\<close>: a class, or any other object.\<close>

datatype pyobj = Class pyclass | NotAClass

datatype report_obj = Instance pyclass

record factory_state =
  f_reports :: "(string \<times> pyclass) list"

definition Report_cls :: pyclass where
  "Report_cls = \<lparr>cls_name = ''Report'', cls_report = True, cls_abstract = [''generate'', ''display''],
                 cls_methods = [''generate'', ''display'']\<rparr>"

definition PerformanceReport_cls :: pyclass where
  "PerformanceReport_cls = \<lparr>cls_name = ''PerformanceReport'', cls_report = True, cls_abstract = [],
                            cls_methods = [''generate'', ''display'']\<rparr>"

definition factory_init :: factory_state where
  "factory_init = \<lparr>f_reports = [(''performance'', PerformanceReport_cls)]\<rparr>"

definition register_report :: "factory_state \<Rightarrow> string \<Rightarrow> pyobj \<Rightarrow> factory_state result" where
  "register_report st name report_class = (case report_class of
      NotAClass \<Rightarrow> Inl (TypeError IssubclassArg)
    | Class c \<Rightarrow>
        if \<not> cls_report c then Inl (TypeError NotReportSubclass)
        else Inr (st\<lparr>f_reports := AList.update name c (f_reports st)\<rparr>))"

definition create_report :: "factory_state \<Rightarrow> string \<Rightarrow> report_obj result" where
  "create_report st name = (case map_of (f_reports st) name of
      None \<Rightarrow> Inl (ValueError (UnknownReportName name (map fst (f_reports st))))
    | Some c \<Rightarrow> if cls_abstract c \<noteq> [] then Inl (TypeError (AbstractClass (cls_name c))) else Inr (Instance c))"

definition get_report_generator :: "factory_state \<Rightarrow> string \<Rightarrow> report_obj result" where
  "get_report_generator st report_name = create_report st report_name"

text \<open>The registry states the program can reach: the initial one, and every state a
  successful \<^verbatim>\<open>register_report\<close> makes (a failed one leaves the state unchanged;
  \<^verbatim>\<open>create_report\<close> only reads it).\<close>

inductive factory_reach :: "factory_state \<Rightarrow> bool" where
  init: "factory_reach factory_init"
| register: "factory_reach st \<Longrightarrow> register_report st name obj = Inr st' \<Longrightarrow> factory_reach st'"

text \<open>The registry invariant: names are distinct, \<^verbatim>\<open>performance\<close> is registered,
  and every registered class is a \<^verbatim>\<open>Report\<close> subclass.\<close>

definition factory_inv :: "factory_state \<Rightarrow> bool" where
  "factory_inv st \<longleftrightarrow> distinct (map fst (f_reports st)) \<and> map_of (f_reports st) ''performance'' \<noteq> None \<and>
     list_all (\<lambda>(n, c). cls_report c) (f_reports st)"

text \<open>The capability the spec (4.4) asks of a registered report: both operations, implemented.\<close>

definition implements_report :: "pyclass \<Rightarrow> bool" where
  "implements_report c \<longleftrightarrow>
     ''generate'' \<in> set (cls_methods c) \<and> ''display'' \<in> set (cls_methods c) \<and>
     ''generate'' \<notin> set (cls_abstract c) \<and> ''display'' \<notin> set (cls_abstract c)"

lemma register_report_Inr_iff:
  "register_report st name obj = Inr st' \<longleftrightarrow>
     (\<exists>c. obj = Class c \<and> cls_report c \<and> st' = st\<lparr>f_reports := AList.update name c (f_reports st)\<rparr>)"
  by (auto simp: register_report_def split: pyobj.splits)

lemma fst_set_update: "fst ` set (AList.update k v al) = insert k (fst ` set al)"
  by (induction al) auto

lemma list_all_update:
  "P (k, v) \<Longrightarrow> list_all P al \<Longrightarrow> list_all P (AList.update k v al)"
  by (induction al) auto

lemma factory_inv_register:
  "factory_inv st \<Longrightarrow> register_report st name obj = Inr st' \<Longrightarrow> factory_inv st'"
  by (auto simp: factory_inv_def register_report_Inr_iff distinct_update update_conv' list_all_update)

lemma factory_inv_init: "factory_inv factory_init"
  by (simp add: factory_init_def factory_inv_def PerformanceReport_cls_def)

lemma factory_reach_inv: "factory_reach st \<Longrightarrow> factory_inv st"
  by (induction rule: factory_reach.induct) (auto intro: factory_inv_init factory_inv_register)

lemma map_fst_update_new:
  "k \<notin> fst ` set al \<Longrightarrow> map fst (AList.update k v al) = map fst al @ [k]"
  by (induction al) auto

lemma create_report_update:
  "create_report (st\<lparr>f_reports := AList.update n c (f_reports st)\<rparr>) m =
     (if m = n then (if cls_abstract c \<noteq> [] then Inl (TypeError (AbstractClass (cls_name c))) else Inr (Instance c))
      else case map_of (f_reports st) m of
             None \<Rightarrow> Inl (ValueError (UnknownReportName m (map fst (AList.update n c (f_reports st)))))
           | Some c' \<Rightarrow> create_report st m)"
  by (simp add: create_report_def update_conv' split: option.splits)

subsection \<open>Properties of the registry\<close>

text \<open>C8: In every state the registry can reach, the names are distinct, every registered
  class is a \<^verbatim>\<open>Report\<close> subclass, and \<^verbatim>\<open>create_report('performance')\<close> never
  fails as an unknown report.\<close>

theorem factory_reach_safe:
  assumes "factory_reach st"
  shows "distinct (map fst (f_reports st)) \<and> list_all (\<lambda>(n, c). cls_report c) (f_reports st) \<and>
         (\<forall>m. create_report st ''performance'' \<noteq> Inl (ValueError m))"
  using factory_reach_inv [OF assms]
  by (auto simp: factory_inv_def create_report_def split: option.splits)

theorem factory_reach_safe_witness:
  "factory_reach \<lparr>f_reports = [(''performance'', Report_cls)]\<rparr> \<and>
   distinct (map fst [(''performance'', Report_cls)]) \<and>
   create_report \<lparr>f_reports = [(''performance'', Report_cls)]\<rparr> ''performance'' = Inl (TypeError (AbstractClass ''Report''))"
proof -
  have "register_report factory_init ''performance'' (Class Report_cls) = Inr \<lparr>f_reports = [(''performance'', Report_cls)]\<rparr>"
    by (simp add: register_report_def factory_init_def Report_cls_def)
  then have r: "factory_reach \<lparr>f_reports = [(''performance'', Report_cls)]\<rparr>"
    by (rule factory_reach.register [OF factory_reach.init])
  then show ?thesis
    using factory_reach_safe [OF r] by (simp add: create_report_def Report_cls_def)
qed

text \<open>C9: After a successful \<^verbatim>\<open>register_report(name, c)\<close> of a class without abstract
  methods, \<^verbatim>\<open>create_report(name)\<close> returns an instance of \<open>c\<close>, whatever was
  registered under \<open>name\<close> before.\<close>

theorem register_create:
  assumes "register_report st name (Class c) = Inr st'" and "cls_abstract c = []"
  shows "create_report st' name = Inr (Instance c)"
  using assms by (auto simp: register_report_Inr_iff create_report_update)

theorem register_create_witness:
  "register_report factory_init ''performance'' (Class PerformanceReport_cls) = Inr factory_init \<and>
   cls_abstract PerformanceReport_cls = [] \<and>
   create_report factory_init ''performance'' = Inr (Instance PerformanceReport_cls)"
proof -
  have r: "register_report factory_init ''performance'' (Class PerformanceReport_cls) = Inr factory_init"
    by (simp add: register_report_def factory_init_def PerformanceReport_cls_def)
  have a: "cls_abstract PerformanceReport_cls = []" by (simp add: PerformanceReport_cls_def)
  show ?thesis using register_create [OF r a] r a by simp
qed

text \<open>C20: Registering a new name leaves the other registered names resolving as before,
  and the error of an unknown name then lists the registered names in registration order,
  the new one last.\<close>

theorem register_other_names:
  assumes "register_report st name obj = Inr st'" and "name \<notin> fst ` set (f_reports st)" and "m \<noteq> name"
  shows "create_report st' m =
           (case map_of (f_reports st) m of
              None \<Rightarrow> Inl (ValueError (UnknownReportName m (map fst (f_reports st) @ [name])))
            | Some _ \<Rightarrow> create_report st m)"
  using assms by (auto simp: register_report_Inr_iff create_report_update map_fst_update_new split: option.splits)

theorem register_other_names_witness:
  "register_report factory_init ''skills'' (Class PerformanceReport_cls) =
     Inr \<lparr>f_reports = [(''performance'', PerformanceReport_cls), (''skills'', PerformanceReport_cls)]\<rparr> \<and>
   ''skills'' \<notin> fst ` set (f_reports factory_init) \<and> ''tasks'' \<noteq> ''skills'' \<and>
   create_report \<lparr>f_reports = [(''performance'', PerformanceReport_cls), (''skills'', PerformanceReport_cls)]\<rparr> ''tasks'' =
     Inl (ValueError (UnknownReportName ''tasks'' [''performance'', ''skills'']))"
proof -
  have r: "register_report factory_init ''skills'' (Class PerformanceReport_cls) =
     Inr \<lparr>f_reports = [(''performance'', PerformanceReport_cls), (''skills'', PerformanceReport_cls)]\<rparr>"
    by (simp add: register_report_def factory_init_def PerformanceReport_cls_def)
  have n: "''skills'' \<notin> fst ` set (f_reports factory_init)" by (simp add: factory_init_def)
  show ?thesis using register_other_names [OF r n, of "''tasks''"] r n by (simp add: factory_init_def)
qed

text \<open>C21: The check of \<^verbatim>\<open>register_report\<close> is \<^verbatim>\<open>issubclass\<close>, not the capability
  the spec asks for: a \<^verbatim>\<open>Report\<close> subclass with abstract methods left (such as
  \<^verbatim>\<open>Report\<close> itself) is registered, and \<^verbatim>\<open>create_report\<close> then raises
  \<^verbatim>\<open>TypeError\<close>; a class that defines both operations without subclassing
  \<^verbatim>\<open>Report\<close> is refused.\<close>

theorem register_report_nominal:
  assumes "cls_report c" and "cls_abstract c \<noteq> []" and "\<not> cls_report d"
  shows "(\<exists>st'. register_report st name (Class c) = Inr st' \<and>
                create_report st' name = Inl (TypeError (AbstractClass (cls_name c)))) \<and>
         register_report st name (Class d) = Inl (TypeError NotReportSubclass)"
  using assms by (simp add: register_report_def create_report_update)

theorem register_report_nominal_witness:
  "\<not> implements_report Report_cls \<and>
   implements_report \<lparr>cls_name = ''DuckReport'', cls_report = False, cls_abstract = [], cls_methods = [''generate'', ''display'']\<rparr> \<and>
   register_report factory_init ''base'' (Class Report_cls) =
     Inr \<lparr>f_reports = [(''performance'', PerformanceReport_cls), (''base'', Report_cls)]\<rparr> \<and>
   create_report \<lparr>f_reports = [(''performance'', PerformanceReport_cls), (''base'', Report_cls)]\<rparr> ''base'' =
     Inl (TypeError (AbstractClass ''Report'')) \<and>
   register_report factory_init ''duck''
     (Class \<lparr>cls_name = ''DuckReport'', cls_report = False, cls_abstract = [], cls_methods = [''generate'', ''display'']\<rparr>) =
     Inl (TypeError NotReportSubclass)"
  using register_report_nominal [of Report_cls
      "\<lparr>cls_name = ''DuckReport'', cls_report = False, cls_abstract = [], cls_methods = [''generate'', ''display'']\<rparr>"
      factory_init "''base''"]
    register_report_nominal [of Report_cls
      "\<lparr>cls_name = ''DuckReport'', cls_report = False, cls_abstract = [], cls_methods = [''generate'', ''display'']\<rparr>"
      factory_init "''duck''"]
  by (auto simp: Report_cls_def implements_report_def register_report_def factory_init_def create_report_def
      PerformanceReport_cls_def)

text \<open>C23: In the initial registry, \<^verbatim>\<open>get_report_generator\<close> returns a
  \<^verbatim>\<open>PerformanceReport\<close> for \<^verbatim>\<open>performance\<close> and raises the unknown-report
  \<^verbatim>\<open>ValueError\<close> listing \<^verbatim>\<open>performance\<close> for every other name.\<close>

theorem get_report_generator_init:
  "get_report_generator factory_init n =
     (if n = ''performance'' then Inr (Instance PerformanceReport_cls)
      else Inl (ValueError (UnknownReportName n [''performance''])))"
  by (simp add: get_report_generator_def create_report_def factory_init_def PerformanceReport_cls_def)

end
