(* ===== verification/Cli.thy ===== *)
theory Cli
  imports Reader Reports Factory
begin

text \<open>
  \<^verbatim>\<open>main\<close> (src/script/cli.py) after \<^verbatim>\<open>argparse\<close> has produced the list of
  files (\<^verbatim>\<open>--files\<close>, one or more) and the report name (\<^verbatim>\<open>--report\<close>): the
  existence check of every file, the reading of the records, the creation of the report
  from the registry, and its \<^verbatim>\<open>generate\<close> and \<^verbatim>\<open>display\<close>, each failure reported on
  standard error under the category of its \<^verbatim>\<open>except\<close> clause with exit status 1.
  The registry of a run is \<open>factory_init\<close>: no module of the program registers a
  report, so the report created is a \<^verbatim>\<open>PerformanceReport\<close>.
\<close>

text \<open>The messages \<^verbatim>\<open>main\<close> writes to standard error, by the \<^verbatim>\<open>print\<close> that
  writes them (their fixed Cyrillic texts are not modelled).\<close>

datatype err_line =
    MissingFilesHeader          \<comment> \<open>"Error: the following files were not found:"\<close>
  | MissingFile string          \<comment> \<open>\<^verbatim>\<open>f"  - {f}"\<close>, one per missing file\<close>
  | ReadNotFound exc            \<comment> \<open>\<^verbatim>\<open>except FileNotFoundError\<close> of the reading\<close>
  | ReadDataError exc           \<comment> \<open>\<^verbatim>\<open>except ValueError\<close> of the reading\<close>
  | ReadUnknownError exc        \<comment> \<open>\<^verbatim>\<open>except Exception\<close> of the reading\<close>
  | ReportError exc             \<comment> \<open>\<^verbatim>\<open>except ValueError\<close> of the report\<close>
  | ReportGenerationError exc   \<comment> \<open>\<^verbatim>\<open>except Exception\<close> of the report\<close>

record outcome =
  out_stdout :: "out_line list"
  out_stderr :: "err_line list"
  out_exit :: nat

text \<open>\<^verbatim>\<open>Path(p).exists()\<close>: true for a file and for a directory.\<close>

definition path_exists :: "fs \<Rightarrow> string \<Rightarrow> bool" where
  "path_exists fs p \<longleftrightarrow> fs p \<noteq> None"

definition read_error_line :: "exc \<Rightarrow> err_line" where
  "read_error_line e = (case e of
      FileNotFoundError _ \<Rightarrow> ReadNotFound e
    | ValueError _ \<Rightarrow> ReadDataError e
    | _ \<Rightarrow> ReadUnknownError e)"

definition report_error_line :: "exc \<Rightarrow> err_line" where
  "report_error_line e = (case e of ValueError _ \<Rightarrow> ReportError e | _ \<Rightarrow> ReportGenerationError e)"

definition fail :: "out_line list \<Rightarrow> err_line list \<Rightarrow> outcome" where
  "fail out errs = \<lparr>out_stdout = out, out_stderr = errs, out_exit = 1\<rparr>"

text \<open>The report block: \<^verbatim>\<open>get_report_generator\<close>, \<^verbatim>\<open>generate\<close>, \<^verbatim>\<open>display\<close>
  in one \<^verbatim>\<open>try\<close>; what \<^verbatim>\<open>display\<close> printed before raising stays printed.
  \<^verbatim>\<open>get_report_generator\<close> is a global of the module \<^verbatim>\<open>cli\<close>, looked up when
  \<^verbatim>\<open>main\<close> runs, and is the parameter \<open>grg\<close> (a test replaces it).\<close>

definition run_report :: "(string \<Rightarrow> report_obj result) \<Rightarrow> bool \<Rightarrow> (pyfloat \<Rightarrow> string) \<Rightarrow> string \<Rightarrow>
    pydict list \<Rightarrow> outcome" where
  "run_report grg has_tabulate float_repr report data =
     (case ebind (grg report) (\<lambda>report_generator. generate data) of
        Inl e \<Rightarrow> fail [] [report_error_line e]
      | Inr report_data \<Rightarrow>
          (case display has_tabulate float_repr report_data of
             (out, None) \<Rightarrow> \<lparr>out_stdout = out, out_stderr = [], out_exit = 0\<rparr>
           | (out, Some e) \<Rightarrow> fail out [report_error_line e]))"

definition main_with :: "(string \<Rightarrow> report_obj result) \<Rightarrow> fs \<Rightarrow> bool \<Rightarrow> (pyfloat \<Rightarrow> string) \<Rightarrow>
    string list \<Rightarrow> string \<Rightarrow> outcome" where
  "main_with grg fs has_tabulate float_repr files report =
     (let missing_files = filter (\<lambda>file_path. \<not> path_exists fs file_path) files
      in if missing_files \<noteq> [] then fail [] (MissingFilesHeader # map MissingFile missing_files)
         else (case read_csv_files fs files of
                 Inl e \<Rightarrow> fail [] [read_error_line e]
               | Inr data \<Rightarrow> run_report grg has_tabulate float_repr report data))"

text \<open>\<^verbatim>\<open>main\<close> as the program runs it, with the registry's \<^verbatim>\<open>get_report_generator\<close>.\<close>

definition main :: "fs \<Rightarrow> bool \<Rightarrow> (pyfloat \<Rightarrow> string) \<Rightarrow> string list \<Rightarrow> string \<Rightarrow> outcome" where
  "main fs has_tabulate float_repr files report =
     main_with (get_report_generator factory_init) fs has_tabulate float_repr files report"

lemma main_all_exist:
  "list_all (path_exists fs) files \<Longrightarrow>
   main_with grg fs has_tabulate fr files report =
     (case read_csv_files fs files of Inl e \<Rightarrow> fail [] [read_error_line e] | Inr data \<Rightarrow> run_report grg has_tabulate fr report data)"
  by (simp add: main_with_def list_all_iff filter_empty_conv)


lemma read_ok_exist: "read_csv_files fs files = Inr data \<Longrightarrow> list_all (path_exists fs) files"
  by (auto simp: list_all_iff path_exists_def read_csv_files_def dest: read_loop_regular)

lemma run_report_exit: "out_exit (run_report grg t fr r data) = 0 \<longleftrightarrow> out_stderr (run_report grg t fr r data) = []"
  by (simp add: run_report_def fail_def split: sum.splits prod.splits option.splits)

subsection \<open>Properties of \<^verbatim>\<open>main\<close>\<close>

text \<open>C17: When some of the given files do not exist, \<^verbatim>\<open>main\<close> reads nothing, writes
  the heading and one line for each missing file, in the order given, to standard error,
  and exits with status 1.\<close>

theorem main_missing_files:
  assumes "filter (\<lambda>p. \<not> path_exists fs p) files \<noteq> []"
  shows "main fs has_tabulate fr files report =
           \<lparr>out_stdout = [], out_stderr = MissingFilesHeader # map MissingFile (filter (\<lambda>p. fs p = None) files),
            out_exit = 1\<rparr>"
  using assms by (simp add: main_def main_with_def fail_def path_exists_def)

theorem main_missing_files_witness:
  "filter (\<lambda>p. \<not> path_exists [''b.csv'' \<mapsto> RegularFile ''x''] p) [''a.csv'', ''b.csv'', ''c.csv''] \<noteq> [] \<and>
   main [''b.csv'' \<mapsto> RegularFile ''x''] True (\<lambda>_. []) [''a.csv'', ''b.csv'', ''c.csv''] ''performance'' =
     \<lparr>out_stdout = [], out_stderr = [MissingFilesHeader, MissingFile ''a.csv'', MissingFile ''c.csv''], out_exit = 1\<rparr>"
  using main_missing_files [of "[''b.csv'' \<mapsto> RegularFile ''x'']" "[''a.csv'', ''b.csv'', ''c.csv'']" True "\<lambda>_. []" "''performance''"]
  by (simp add: path_exists_def)

text \<open>C25: A directory passes the existence check of \<^verbatim>\<open>main\<close>; opening it raises
  \<^verbatim>\<open>IsADirectoryError\<close>, which is neither \<^verbatim>\<open>FileNotFoundError\<close> nor
  \<^verbatim>\<open>ValueError\<close>, so it is reported as an unknown reading error, with exit status 1.\<close>

theorem main_directory:
  assumes "fs p = Some Directory" and "list_all (path_exists fs) ps"
  shows "main fs has_tabulate fr (p # ps) report = fail [] [ReadUnknownError (IsADirectoryError p)]"
  using assms by (simp add: main_def main_all_exist path_exists_def read_csv_files_def read_file_directory read_error_line_def)

theorem main_directory_witness:
  "[''data'' \<mapsto> Directory] ''data'' = Some Directory \<and> list_all (path_exists [''data'' \<mapsto> Directory]) [] \<and>
   main [''data'' \<mapsto> Directory] True (\<lambda>_. []) [''data''] ''performance'' =
     \<lparr>out_stdout = [], out_stderr = [ReadUnknownError (IsADirectoryError ''data'')], out_exit = 1\<rparr>"
  using main_directory [of "[''data'' \<mapsto> Directory]" "''data''" "[]" True "\<lambda>_. []" "''performance''"]
  by (simp add: fail_def)

text \<open>C19: When the files read successfully and the report name is not
  \<^verbatim>\<open>performance\<close>, \<^verbatim>\<open>main\<close> prints nothing to standard output, reports the
  unknown-report \<^verbatim>\<open>ValueError\<close> listing the available report, and exits with status 1.\<close>

theorem main_unknown_report:
  assumes "read_csv_files fs files = Inr data" and "report \<noteq> ''performance''"
  shows "main fs has_tabulate fr files report =
           fail [] [ReportError (ValueError (UnknownReportName report [''performance'']))]"
  using assms read_ok_exist [OF assms(1)]
  by (simp add: main_def main_all_exist run_report_def get_report_generator_def create_report_def factory_init_def
      report_error_line_def)

theorem main_unknown_report_witness:
  "read_csv_files [''h.csv'' \<mapsto> RegularFile ''name''] [''h.csv''] = Inr [] \<and> ''skills'' \<noteq> ''performance'' \<and>
   main [''h.csv'' \<mapsto> RegularFile ''name''] True (\<lambda>_. []) [''h.csv''] ''skills'' =
     \<lparr>out_stdout = [], out_stderr = [ReportError (ValueError (UnknownReportName ''skills'' [''performance'']))], out_exit = 1\<rparr>"
proof -
  have r: "read_csv_files [''h.csv'' \<mapsto> RegularFile ''name''] [''h.csv''] = Inr []"
    by (simp add: reader_eval csv_eval)
  show ?thesis using main_unknown_report [OF r, of "''skills''" True "\<lambda>_. []"] r by (simp add: fail_def)
qed

text \<open>C18: Every run of \<^verbatim>\<open>main\<close>, whatever \<^verbatim>\<open>get_report_generator\<close> does,
  exits with status 0 or 1, and with status 0
  exactly when it writes nothing to standard error.\<close>

theorem main_exit_status:
  "out_exit (main_with grg fs has_tabulate fr files report) \<in> {0, 1} \<and>
   (out_exit (main_with grg fs has_tabulate fr files report) = 0 \<longleftrightarrow>
    out_stderr (main_with grg fs has_tabulate fr files report) = [])"
  by (simp add: main_with_def fail_def run_report_def Let_def split: sum.splits prod.splits option.splits)

end
