(* ===== verification/Skills.thy ===== *)
theory Skills
  imports Reports Factory Csv
begin

text \<open>
  \<^verbatim>\<open>SkillsReport\<close> (src/script/reports.py, lines 74 to 108). The class and its
  registration \<^verbatim>\<open>ReportFactory.register_report('skills', SkillsReport)\<close> sit in a
  string literal, marked to be uncommented to activate the report; the model is the code
  as it runs once activated. \<^verbatim>\<open>generate\<close> counts, over all records, the
  comma-separated technologies of the \<^verbatim>\<open>skills\<close> cell (stripped, empty ones dropped)
  in a dictionary, and sorts the \<open>(technology, count)\<close> pairs by descending count;
  \<^verbatim>\<open>display\<close> prints them through \<^verbatim>\<open>tabulate\<close> or as fixed-width lines.
\<close>

type_synonym skill_row = "string \<times> int"

subsection \<open>\<^verbatim>\<open>SkillsReport.generate\<close>\<close>

text \<open>\<^verbatim>\<open>developer.get('skills', '')\<close> followed by \<^verbatim>\<open>.split(',')\<close>: a value that
  is not a string has no \<^verbatim>\<open>split\<close>.\<close>

definition get_skills :: "pydict \<Rightarrow> string result" where
  "get_skills developer = (case map_of developer (KStr ''skills'') of
      None \<Rightarrow> Inr []
    | Some (VStr s) \<Rightarrow> Inr s
    | Some v \<Rightarrow> Inl (AttributeError (py_type_name v) ''split''))"

text \<open>\<^verbatim>\<open>[tech.strip() for tech in skills_str.split(',') if tech.strip()]\<close>.\<close>

definition tech_list :: "string \<Rightarrow> string list" where
  "tech_list skills_str = filter (\<lambda>tech. tech \<noteq> []) (map py_strip (split_fields CHR '','' skills_str))"

text \<open>\<^verbatim>\<open>tech_counter[technology] = tech_counter.get(technology, 0) + 1\<close>.\<close>

definition count_tech :: "string \<Rightarrow> skill_row list \<Rightarrow> skill_row list" where
  "count_tech technology tech_counter =
     AList.update technology ((case map_of tech_counter technology of None \<Rightarrow> 0 | Some n \<Rightarrow> n) + 1) tech_counter"

fun skills_loop :: "skill_row list \<Rightarrow> pydict list \<Rightarrow> skill_row list result" where
  "skills_loop tech_counter [] = Inr tech_counter"
| "skills_loop tech_counter (developer # data) =
     ebind (get_skills developer) (\<lambda>skills_str.
       skills_loop (fold count_tech (tech_list skills_str) tech_counter) data)"

text \<open>\<^verbatim>\<open>report = list(tech_counter.items()); report.sort(key=lambda x: x[1], reverse=True)\<close>.\<close>

definition skills_generate :: "pydict list \<Rightarrow> skill_row list result" where
  "skills_generate data =
     ebind (skills_loop [] data) (\<lambda>tech_counter. Inr (py_sort_reverse (<) snd tech_counter))"

subsection \<open>\<^verbatim>\<open>SkillsReport.display\<close>\<close>

datatype skills_line = SkillsGrid "(string \<times> string) list" | SkillsHeading | SLine string

definition skills_display :: "bool \<Rightarrow> skill_row list \<Rightarrow> skills_line list" where
  "skills_display has_tabulate report_data =
     (if has_tabulate then [SkillsGrid (map (\<lambda>(technology, count). (technology, int_str count)) report_data)]
      else SkillsHeading # SLine (replicate 60 CHR ''-'') #
             map (\<lambda>(technology, count). SLine (pad_right 35 technology @ CHR '' '' # pad_left 10 (int_str count)))
               report_data)"

subsection \<open>Registration\<close>

definition SkillsReport_cls :: pyclass where
  "SkillsReport_cls = \<lparr>cls_name = ''SkillsReport'', cls_report = True, cls_abstract = [],
                       cls_methods = [''generate'', ''display'']\<rparr>"

text \<open>The module-level call that activates the report.\<close>

definition activate_skills :: "factory_state \<Rightarrow> factory_state result" where
  "activate_skills st = register_report st ''skills'' (Class SkillsReport_cls)"

subsection \<open>The counts the code computes\<close>

text \<open>The technologies of all records in order, and the counter \<^verbatim>\<open>generate\<close> should
  build: each technology, in order of first occurrence, with its number of occurrences.\<close>

definition skills_str_of :: "pydict \<Rightarrow> string" where
  "skills_str_of d = (case map_of d (KStr ''skills'') of Some (VStr s) \<Rightarrow> s | _ \<Rightarrow> [])"

definition skills_ok :: "pydict \<Rightarrow> bool" where
  "skills_ok d \<longleftrightarrow> (case map_of d (KStr ''skills'') of None \<Rightarrow> True | Some (VStr _) \<Rightarrow> True | _ \<Rightarrow> False)"

definition counter_spec :: "string list \<Rightarrow> skill_row list" where
  "counter_spec ts = map (\<lambda>t. (t, int (count_list ts t))) (first_seen ts)"

definition all_techs :: "pydict list \<Rightarrow> string list" where
  "all_techs data = concat (map (\<lambda>d. tech_list (skills_str_of d)) data)"

text \<open>Python's \<^verbatim>\<open>sep.join(xs)\<close>, for the cells a writer of the file produces.\<close>

fun py_join :: "string \<Rightarrow> string list \<Rightarrow> string" where
  "py_join sep [] = []"
| "py_join sep [x] = x"
| "py_join sep (x # y # xs) = x @ sep @ py_join sep (y # xs)"

lemma count_tech_spec: "count_tech t (counter_spec ts) = counter_spec (ts @ [t])"
proof (cases "t \<in> set ts")
  case True
  then show ?thesis
    by (auto simp: count_tech_def counter_spec_def map_of_map_pairs update_map_pairs first_seen_snoc
        intro!: map_cong)
next
  case False
  then show ?thesis
    by (auto simp: count_tech_def counter_spec_def map_of_map_pairs update_map_pairs first_seen_snoc
        count_list_0_iff intro!: map_cong)
qed

lemma fold_count_tech: "fold count_tech xs (counter_spec ts) = counter_spec (ts @ xs)"
  by (induction xs arbitrary: ts) (simp_all add: count_tech_spec)

lemma get_skills_ok: "skills_ok d \<Longrightarrow> get_skills d = Inr (skills_str_of d)"
  by (auto simp: skills_ok_def get_skills_def skills_str_of_def split: option.splits pyval.splits)

lemma skills_loop_spec:
  "list_all skills_ok ds \<Longrightarrow> skills_loop (counter_spec ts) ds = Inr (counter_spec (ts @ all_techs ds))"
  by (induction ds arbitrary: ts) (simp_all add: get_skills_ok fold_count_tech all_techs_def)

lemma ranks_int_desc: "ranks (<) (\<lambda>n::int. - n) S"
  by (simp add: ranks_def)

lemmas skills_eval = skills_generate_def get_skills_def tech_list_def count_tech_def py_sort_reverse_def
  sort_by_def py_strip_def py_isspace_def

lemma skills_generate_eq:
  "list_all skills_ok data \<Longrightarrow>
   skills_generate data = Inr (sort_key (\<lambda>x. - snd x) (counter_spec (all_techs data)))"
proof -
  assume ok: "list_all skills_ok data"
  have "skills_loop [] data = Inr (counter_spec (all_techs data))"
    using skills_loop_spec [OF ok, of "[]"] by (simp add: counter_spec_def first_seen_def)
  then show ?thesis
    by (simp add: skills_generate_def py_sort_reverse_sort_key [OF ranks_int_desc])
qed

lemma get_skills_Inr_ok: "get_skills d = Inr s \<Longrightarrow> skills_ok d"
  by (auto simp: get_skills_def skills_ok_def split: option.splits pyval.splits)

lemma skills_loop_Inr_ok: "skills_loop c ds = Inr r \<Longrightarrow> list_all skills_ok ds"
  by (induction ds arbitrary: c) (auto simp: ebind_eq_case get_skills_Inr_ok split: sum.splits)

lemma skills_generate_Inr_ok: "skills_generate data = Inr r \<Longrightarrow> list_all skills_ok data"
  by (auto simp: skills_generate_def ebind_eq_case dest: skills_loop_Inr_ok split: sum.splits)

lemma sum_list_int: "(\<Sum>x\<leftarrow>xs. int (f x)) = int (\<Sum>x\<leftarrow>xs. f x)"
  by (induction xs) simp_all

lemma counter_spec_total: "sum_list (map snd (counter_spec ts)) = int (length ts)"
proof -
  have "sum_list (map (count_list ts) (first_seen ts)) = sum (count (mset ts)) (set_mset (mset ts))"
    by (simp add: sum_list_distinct_conv_sum_set count_mset)
  also have "\<dots> = length ts"
    by (metis size_multiset_overloaded_eq size_mset)
  finally show ?thesis
    by (simp add: counter_spec_def comp_def sum_list_int)
qed

lemma counter_spec_positive: "list_all (\<lambda>(t, n). t \<in> set ts \<and> 0 < n) (counter_spec ts)"
  using count_list_0_iff by (fastforce simp: counter_spec_def list_all_iff)

lemma all_techs_ne: "t \<in> set (all_techs data) \<Longrightarrow> t \<noteq> []"
  by (auto simp: all_techs_def tech_list_def)

lemma sort_key_snd_total: "sum_list (map snd (sort_key f xs)) = sum_list (map snd (xs :: ('a \<times> int) list))"
proof -
  have "mset (map snd (sort_key f xs)) = mset (map snd xs)"
    by simp
  then have "sum_mset (mset (map snd (sort_key f xs))) = sum_mset (mset (map snd xs))"
    by (rule arg_cong)
  then show ?thesis
    by (simp only: sum_mset_sum_list)
qed

lemma py_strip_space_Cons: "py_isspace c \<Longrightarrow> py_strip (c # w) = py_strip w"
  by (simp add: py_strip_def)

lemma tech_list_space_Cons: "py_isspace c \<Longrightarrow> tech_list (c # s) = tech_list s"
proof -
  assume c: "py_isspace c"
  have "\<not> py_isspace CHR '',''" by (simp add: py_isspace_def)
  with c have "c \<noteq> CHR '',''" by auto
  then obtain w ws where "split_fields CHR '','' s = w # ws" "split_fields CHR '','' (c # s) = (c # w) # ws"
    by (cases "split_fields CHR '','' s") auto
  then show ?thesis by (simp add: tech_list_def py_strip_space_Cons [OF c])
qed

lemma tech_list_field_Cons:
  "CHR '','' \<notin> set x \<Longrightarrow> tech_list (x @ CHR '','' # s) = filter (\<lambda>t. t \<noteq> []) [py_strip x] @ tech_list s"
  by (simp add: tech_list_def split_fields_append)

lemma tech_list_single: "CHR '','' \<notin> set x \<Longrightarrow> tech_list x = filter (\<lambda>t. t \<noteq> []) [py_strip x]"
  using split_fields_append [of "CHR '',''" x "[]"] by (simp add: tech_list_def)

text \<open>Without tabulate the output always has the heading line, and one padded row per
  entry of the report.\<close>

lemma skills_display_heading: "SkillsHeading \<in> set (skills_display False rd)"
  by (simp add: skills_display_def)

lemma skills_display_row:
  "(t, n) \<in> set rd \<Longrightarrow>
   SLine (pad_right 35 t @ CHR '' '' # pad_left 10 (int_str n)) \<in> set (skills_display False rd)"
  unfolding skills_display_def by force

subsection \<open>Properties of \<^verbatim>\<open>SkillsReport\<close>\<close>

text \<open>C7: When every record's \<^verbatim>\<open>skills\<close> cell is a string or absent,
  \<^verbatim>\<open>SkillsReport.generate\<close> returns each technology named in the cells once, with the
  number of times it is named, sorted by descending count with ties in order of first
  occurrence.\<close>

theorem skills_generate_spec:
  assumes "list_all skills_ok data"
  shows "skills_generate data = Inr (sort_key (\<lambda>x. - snd x) (counter_spec (all_techs data)))"
  using assms by (rule skills_generate_eq)

theorem skills_generate_spec_witness:
  "list_all skills_ok [[(KStr ''name'', VStr ''Alex''), (KStr ''skills'', VStr ''Python, Django'')],
       [(KStr ''name'', VStr ''Maria''), (KStr ''skills'', VStr ''JavaScript, React'')],
       [(KStr ''name'', VStr ''John''), (KStr ''skills'', VStr ''Python, PostgreSQL'')],
       [(KStr ''name'', VStr ''Anna''), (KStr ''skills'', VStr ''JavaScript, Vue.js'')],
       [(KStr ''name'', VStr ''Mike''), (KStr ''skills'', VStr ''Docker, Python'')]] \<and>
   skills_generate [[(KStr ''name'', VStr ''Alex''), (KStr ''skills'', VStr ''Python, Django'')],
       [(KStr ''name'', VStr ''Maria''), (KStr ''skills'', VStr ''JavaScript, React'')],
       [(KStr ''name'', VStr ''John''), (KStr ''skills'', VStr ''Python, PostgreSQL'')],
       [(KStr ''name'', VStr ''Anna''), (KStr ''skills'', VStr ''JavaScript, Vue.js'')],
       [(KStr ''name'', VStr ''Mike''), (KStr ''skills'', VStr ''Docker, Python'')]] = Inr [(''Python'', 3), (''JavaScript'', 2), (''Django'', 1), (''React'', 1),
     (''PostgreSQL'', 1), (''Vue.js'', 1), (''Docker'', 1)]"
proof -
  have ok: "list_all skills_ok [[(KStr ''name'', VStr ''Alex''), (KStr ''skills'', VStr ''Python, Django'')],
       [(KStr ''name'', VStr ''Maria''), (KStr ''skills'', VStr ''JavaScript, React'')],
       [(KStr ''name'', VStr ''John''), (KStr ''skills'', VStr ''Python, PostgreSQL'')],
       [(KStr ''name'', VStr ''Anna''), (KStr ''skills'', VStr ''JavaScript, Vue.js'')],
       [(KStr ''name'', VStr ''Mike''), (KStr ''skills'', VStr ''Docker, Python'')]]" by (simp add: skills_ok_def)
  have "sort_key (\<lambda>x. - snd x) (counter_spec (all_techs [[(KStr ''name'', VStr ''Alex''), (KStr ''skills'', VStr ''Python, Django'')],
       [(KStr ''name'', VStr ''Maria''), (KStr ''skills'', VStr ''JavaScript, React'')],
       [(KStr ''name'', VStr ''John''), (KStr ''skills'', VStr ''Python, PostgreSQL'')],
       [(KStr ''name'', VStr ''Anna''), (KStr ''skills'', VStr ''JavaScript, Vue.js'')],
       [(KStr ''name'', VStr ''Mike''), (KStr ''skills'', VStr ''Docker, Python'')]])) = [(''Python'', 3), (''JavaScript'', 2),
     (''Django'', 1), (''React'', 1), (''PostgreSQL'', 1), (''Vue.js'', 1), (''Docker'', 1)]"
    by (simp add: counter_spec_def all_techs_def skills_str_of_def tech_list_def first_seen_def py_strip_def
        py_isspace_def)
  then show ?thesis using skills_generate_spec [OF ok] ok by simp
qed

text \<open>C29: A record whose \<^verbatim>\<open>skills\<close> cell is \<^verbatim>\<open>None\<close> (a short CSV row) makes
  \<^verbatim>\<open>SkillsReport.generate\<close> raise \<^verbatim>\<open>AttributeError\<close>, whatever follows, when the
  records before it are well formed.\<close>

theorem skills_generate_none:
  assumes "list_all skills_ok ds1" and "map_of d (KStr ''skills'') = Some VNone"
  shows "skills_generate (ds1 @ d # ds2) = Inl (AttributeError ''NoneType'' ''split'')"
proof -
  have "skills_loop c (ds1 @ d # ds2) = Inl (AttributeError ''NoneType'' ''split'')" if "list_all skills_ok ds1" for c
    using that
  proof (induction ds1 arbitrary: c)
    case Nil
    then show ?case by (simp add: get_skills_def assms(2) py_type_name_def)
  next
    case (Cons a ds1)
    then show ?case by (simp add: get_skills_ok)
  qed
  with assms(1) show ?thesis by (simp add: skills_generate_def)
qed

theorem skills_generate_none_witness:
  "list_all skills_ok [[(KStr ''skills'', VStr ''Go'')]] \<and> map_of [(KStr ''skills'', VNone)] (KStr ''skills'') = Some VNone \<and>
   skills_generate ([[(KStr ''skills'', VStr ''Go'')]] @ [(KStr ''skills'', VNone)] # [])
     = Inl (AttributeError ''NoneType'' ''split'')"
  using skills_generate_none [of "[[(KStr ''skills'', VStr ''Go'')]]" "[(KStr ''skills'', VNone)]" "[]"]
  by (simp add: skills_ok_def)

text \<open>C31: Whenever \<^verbatim>\<open>SkillsReport.generate\<close> returns, it names each technology
  of the cells exactly once, each with a positive count and a non-empty name, and the
  counts add up to the number of technologies named over all records.\<close>

theorem skills_generate_counts:
  assumes "skills_generate data = Inr report"
  shows "distinct (map fst report) \<and> set (map fst report) = set (all_techs data) \<and>
    list_all (\<lambda>(t, n). t \<noteq> [] \<and> 0 < n) report \<and>
    sum_list (map snd report) = int (length (all_techs data))"
proof -
  have r: "report = sort_key (\<lambda>x. - snd x) (counter_spec (all_techs data))"
    using skills_generate_eq [OF skills_generate_Inr_ok [OF assms]] assms by simp
  have m: "mset (map fst report) = mset (map fst (counter_spec (all_techs data)))"
    by (simp add: r)
  have "distinct (map fst (counter_spec (all_techs data)))"
    by (simp add: counter_spec_def comp_def)
  then have "distinct (map fst report)"
    using mset_eq_imp_distinct_iff [OF m] by simp
  moreover have "set (map fst report) = set (all_techs data)"
    using mset_eq_setD [OF m] by (simp add: counter_spec_def image_image)
  moreover have "list_all (\<lambda>(t, n). t \<noteq> [] \<and> 0 < n) report"
    using counter_spec_positive [of "all_techs data"] all_techs_ne
    by (fastforce simp: r list_all_iff)
  moreover have "sum_list (map snd report) = int (length (all_techs data))"
    by (simp add: r sort_key_snd_total counter_spec_total)
  ultimately show ?thesis by blast
qed

theorem skills_generate_counts_witness:
  "skills_generate [[(KStr ''skills'', VStr ''Go, Rust'')], [(KStr ''skills'', VStr ''Go'')]] = Inr [(''Go'', 2), (''Rust'', 1)] \<and>
   sum_list (map snd [(''Go'', 2), (''Rust'', 1::int)]) = int (length (all_techs [[(KStr ''skills'', VStr ''Go, Rust'')], [(KStr ''skills'', VStr ''Go'')]]))"
proof -
  have g: "skills_generate [[(KStr ''skills'', VStr ''Go, Rust'')], [(KStr ''skills'', VStr ''Go'')]] = Inr [(''Go'', 2), (''Rust'', 1)]"
    by (simp add: skills_generate_eq skills_ok_def counter_spec_def all_techs_def skills_str_of_def
        tech_list_def first_seen_def py_strip_def py_isspace_def)
  show ?thesis using skills_generate_counts [OF g] g by simp
qed

text \<open>C32: A \<^verbatim>\<open>skills\<close> cell written as \<^verbatim>\<open>', '.join(ts)\<close> of non-empty,
  stripped names without commas is split back by \<^verbatim>\<open>generate\<close> into exactly \<open>ts\<close>.\<close>

theorem tech_list_join:
  "list_all (\<lambda>t. t \<noteq> [] \<and> CHR '','' \<notin> set t \<and> py_strip t = t) ts \<Longrightarrow> tech_list (py_join '', '' ts) = ts"
proof (induction ts rule: induct_list012)
  case 1
  then show ?case by (simp add: tech_list_def py_strip_def)
next
  case (2 x)
  then show ?case by (simp add: tech_list_single)
next
  case (3 x y xs)
  have sp: "py_isspace CHR '' ''" by (simp add: py_isspace_def)
  from 3 show ?case
    by (simp add: tech_list_field_Cons tech_list_space_Cons [OF sp])
qed

theorem tech_list_join_witness:
  "list_all (\<lambda>t. t \<noteq> [] \<and> CHR '','' \<notin> set t \<and> py_strip t = t) [''Python'', ''Vue.js''] \<and>
   tech_list ''Python, Vue.js'' = [''Python'', ''Vue.js'']"
proof -
  have ok: "list_all (\<lambda>t. t \<noteq> [] \<and> CHR '','' \<notin> set t \<and> py_strip t = t) [''Python'', ''Vue.js'']"
    by (simp add: py_strip_def py_isspace_def)
  have "py_join '', '' [''Python'', ''Vue.js''] = ''Python, Vue.js''" by simp
  then show ?thesis using tech_list_join [OF ok] ok by simp
qed

text \<open>C33: Without tabulate, \<^verbatim>\<open>SkillsReport.display\<close> prints the heading, a 60-dash
  rule and one 46-character line per row, the technology left-aligned in 35 columns and
  the count right-aligned in the last 10, when names have at most 35 characters and
  counts fewer than 10 digits.\<close>

theorem skills_display_aligned:
  assumes "list_all (\<lambda>(t, n). length t \<le> 35 \<and> \<bar>n\<bar> < 10 ^ 9) rd"
  shows "\<exists>ls. skills_display False rd = SkillsHeading # SLine (replicate 60 CHR ''-'') # map SLine ls \<and>
              map length ls = replicate (length rd) 46 \<and>
              map (take 35) ls = map (\<lambda>(t, n). pad_right 35 t) rd \<and>
              map (drop 36) ls = map (\<lambda>(t, n). pad_left 10 (int_str n)) rd"
proof -
  let ?l = "\<lambda>(t, n). pad_right 35 t @ CHR '' '' # pad_left 10 (int_str n)"
  have row: "length (?l (t, n)) = 46" "take 35 (?l (t, n)) = pad_right 35 t"
      "drop 36 (?l (t, n)) = pad_left 10 (int_str n)" if "(t, n) \<in> set rd" for t n
  proof -
    from that assms have "length t \<le> 35" and b: "\<bar>n\<bar> < 10 ^ 9"
      by (auto simp: list_all_iff)
    note this(1) int_str_length [OF b]
    then show "length (?l (t, n)) = 46" "take 35 (?l (t, n)) = pad_right 35 t"
      "drop 36 (?l (t, n)) = pad_left 10 (int_str n)"
      by (simp_all add: pad_right_def pad_left_def)
  qed
  have "map length (map ?l rd) = map (\<lambda>_. 46) rd"
    unfolding map_map by (rule map_cong [OF refl]) (use row(1) in \<open>auto\<close>)
  moreover have "map (take 35) (map ?l rd) = map (\<lambda>(t, n). pad_right 35 t) rd"
    unfolding map_map by (rule map_cong [OF refl]) (use row(2) in \<open>auto\<close>)
  moreover have "map (drop 36) (map ?l rd) = map (\<lambda>(t, n). pad_left 10 (int_str n)) rd"
    unfolding map_map by (rule map_cong [OF refl]) (use row(3) in \<open>auto\<close>)
  ultimately show ?thesis
    by (intro exI [of _ "map ?l rd"]) (simp add: skills_display_def map_replicate_const comp_def case_prod_unfold)
qed

theorem skills_display_aligned_witness:
  "list_all (\<lambda>(t, n). length t \<le> 35 \<and> \<bar>n\<bar> < 10 ^ 9) [(''Python'', 3::int)] \<and>
   (\<exists>ls. skills_display False [(''Python'', 3)] = SkillsHeading # SLine (replicate 60 CHR ''-'') # map SLine ls \<and>
         map length ls = [46])"
proof -
  have ok: "list_all (\<lambda>(t, n). length t \<le> 35 \<and> \<bar>n\<bar> < 10 ^ 9) [(''Python'', 3::int)]"
    by simp
  show ?thesis
    using skills_display_aligned [OF ok] ok by auto
qed

end
