(* ===== verification/Tests.thy ===== *)
theory Tests
  imports Cli Skills
begin

text \<open>
  The active tests of src/tests on the model. Each pytest test is a boolean definition
  \<open>test_...\<close> that holds exactly when the test passes: an exception the test does not
  expect makes it false, \<^verbatim>\<open>pytest.raises(E, match=m)\<close> is a match on the error value,
  \<^verbatim>\<open>pytest.approx\<close> is equality (finite floats are exact). Temporary files are entries of
  the file system. \<^verbatim>\<open>s in captured.out\<close> is \<open>in_stdout\<close>: the text \<open>s\<close> occurs in a
  printed line, where a \<^verbatim>\<open>tabulate\<close> grid shows each cell's text and its heading; the
  Cyrillic texts of headings and messages are matched by the constructor that prints them.
  The tests of src/tests/test_reports.py share the class-level registry, so they are run
  in file order with the state threaded through (\<open>test_reports_run\<close>); the CLI tests, in
  the module pytest runs first, see the initial registry. The tests of the inactive
  \<^verbatim>\<open>SkillsReport\<close> sit in a string literal and are not modelled.
\<close>

subsection \<open>Observing the output\<close>

text \<open>Python's \<^verbatim>\<open>s in t\<close> on strings.\<close>

fun contains :: "string \<Rightarrow> string \<Rightarrow> bool" where
  "contains s [] = (s = [])"
| "contains s (c # cs) = (take (length s) (c # cs) = s \<or> contains s cs)"

definition out_texts :: "out_line \<Rightarrow> string list" where
  "out_texts l = (case l of
      PerfGrid rows \<Rightarrow> concat (map (\<lambda>(p, v). [case p of VStr s \<Rightarrow> s | _ \<Rightarrow> [], v]) rows)
    | PerfHeading \<Rightarrow> []
    | Line s \<Rightarrow> [s])"

definition in_stdout :: "string \<Rightarrow> outcome \<Rightarrow> bool" where
  "in_stdout s r \<longleftrightarrow> list_ex (\<lambda>l. list_ex (contains s) (out_texts l)) (out_stdout r)"

text \<open>The heading of the performance table (the word for "position") is printed.\<close>

definition shows_heading :: "out_line list \<Rightarrow> bool" where
  "shows_heading out \<longleftrightarrow> list_ex (\<lambda>l. case l of PerfGrid _ \<Rightarrow> True | PerfHeading \<Rightarrow> True | _ \<Rightarrow> False) out"

definition is_bad_data_format :: "'a result \<Rightarrow> bool" where
  "is_bad_data_format r = (case r of Inl (ValueError (BadDataFormat _ _)) \<Rightarrow> True | _ \<Rightarrow> False)"

subsection \<open>Fixtures\<close>

definition hdr_full :: string where
  "hdr_full = ''name,position,completed_tasks,performance,skills,team,experience_years''"

definition row_alex :: string where
  "row_alex = ''Alex Ivanov,Backend Developer,45,4.8,'' @ QUOTE # ''Python, Django'' @ QUOTE # '',API Team,5''"

definition row_maria :: string where
  "row_maria = ''Maria Petrova,Frontend Developer,38,4.7,'' @ QUOTE # ''React, TypeScript'' @ QUOTE # '',Web Team,4''"

text \<open>The records \<^verbatim>\<open>read_csv_files\<close> makes of the two data rows.\<close>

definition rec_alex :: pydict where
  "rec_alex = [(KStr ''name'', VStr ''Alex Ivanov''), (K_position, VStr ''Backend Developer''), (K_completed_tasks, VInt 45),
     (K_performance, VFloat (Fin (24 / 5))), (KStr ''skills'', VStr ''Python, Django''), (KStr ''team'', VStr ''API Team''),
     (K_experience_years, VInt 5)]"

definition rec_maria :: pydict where
  "rec_maria = [(KStr ''name'', VStr ''Maria Petrova''), (K_position, VStr ''Frontend Developer''), (K_completed_tasks, VInt 38),
     (K_performance, VFloat (Fin (47 / 10))), (KStr ''skills'', VStr ''React, TypeScript''), (KStr ''team'', VStr ''Web Team''),
     (K_experience_years, VInt 4)]"

text \<open>\<^verbatim>\<open>create_test_csv(content)\<close>: a file system holding the content at a fresh path.\<close>

definition temp_fs :: "(string \<times> string) list \<Rightarrow> fs" where
  "temp_fs files = map_of (map (\<lambda>(p, c). (p, RegularFile c)) files)"

subsection \<open>src/tests/test_reader.py\<close>

definition test_read_csv_files_single :: bool where
  "test_read_csv_files_single =
     (case read_csv_files (temp_fs [(''t.csv'', hdr_full @ LF # row_alex @ LF # row_maria)]) [''t.csv''] of
        Inl _ \<Rightarrow> False
      | Inr data \<Rightarrow> length data = 2 \<and>
          map_of (data ! 0) (KStr ''name'') = Some (VStr ''Alex Ivanov'') \<and>
          map_of (data ! 0) K_position = Some (VStr ''Backend Developer'') \<and>
          map_of (data ! 0) K_completed_tasks = Some (VInt 45) \<and>
          map_of (data ! 0) K_performance = Some (VFloat (Fin (48 / 10))) \<and>
          map_of (data ! 0) K_experience_years = Some (VInt 5) \<and>
          map_of (data ! 1) (KStr ''name'') = Some (VStr ''Maria Petrova'') \<and>
          map_of (data ! 1) K_performance = Some (VFloat (Fin (47 / 10))))"

definition test_read_csv_files_multiple :: bool where
  "test_read_csv_files_multiple =
     (case read_csv_files (temp_fs [(''t1.csv'', hdr_full @ LF # row_alex), (''t2.csv'', hdr_full @ LF # row_maria)])
             [''t1.csv'', ''t2.csv''] of
        Inl _ \<Rightarrow> False
      | Inr data \<Rightarrow> length data = 2 \<and>
          set (map (\<lambda>d. map_of d K_position) data) = {Some (VStr ''Backend Developer''), Some (VStr ''Frontend Developer'')})"

definition test_read_csv_files_invalid_format :: bool where
  "test_read_csv_files_invalid_format =
     is_bad_data_format (read_csv_files (temp_fs [(''t.csv'', ''name,position,completed_tasks'' @ LF #
        ''Alex Ivanov,Backend Developer,invalid'')]) [''t.csv''])"

definition test_read_csv_files_file_not_found :: bool where
  "test_read_csv_files_file_not_found =
     (case read_csv_files (temp_fs []) [''nonexistent.csv''] of Inl (FileNotFoundError _) \<Rightarrow> True | _ \<Rightarrow> False)"

definition test_detect_delimiter_comma :: bool where
  "test_detect_delimiter_comma =
     (detect_delimiter (temp_fs [(''t.csv'', ''name,position,value'' @ LF # ''John,Developer,100'')]) ''t.csv'' = Inr CHR '','')"

definition test_detect_delimiter_tab :: bool where
  "test_detect_delimiter_tab =
     (detect_delimiter (temp_fs [(''t.csv'', ''name'' @ TAB # ''position'' @ TAB # ''value'' @ LF #
        ''John'' @ TAB # ''Developer'' @ TAB # ''100'')]) ''t.csv'' = Inr TAB)"

definition test_detect_delimiter_semicolon :: bool where
  "test_detect_delimiter_semicolon =
     (detect_delimiter (temp_fs [(''t.csv'', ''name;position;value'' @ LF # ''John;Developer;100'')]) ''t.csv'' = Inr CHR '';'')"

definition test_read_csv_files_empty :: bool where
  "test_read_csv_files_empty = (read_csv_files (temp_fs [(''t.csv'', hdr_full)]) [''t.csv''] = Inr [])"

definition test_read_csv_files_invalid_numeric :: bool where
  "test_read_csv_files_invalid_numeric =
     is_bad_data_format (read_csv_files (temp_fs [(''t.csv'', hdr_full @ LF #
        ''Alex Ivanov,Backend Developer,invalid,4.8,Python,API Team,5'')]) [''t.csv''])"

definition test_read_csv_files_missing_column :: bool where
  "test_read_csv_files_missing_column =
     is_bad_data_format (read_csv_files (temp_fs [(''t.csv'', ''name,position,completed_tasks,skills,team,experience_years'' @ LF #
        ''Alex Ivanov,Backend Developer,45,Python,API Team,5'')]) [''t.csv''])"

subsection \<open>src/tests/test_processors.py\<close>

definition test_group_by_position :: bool where
  "test_group_by_position =
     (case group_by_position
             [[(KStr ''name'', VStr ''Alex''), (K_position, VStr ''Backend Developer''), (K_performance, VFloat (Fin (48 / 10)))],
              [(KStr ''name'', VStr ''Maria''), (K_position, VStr ''Frontend Developer''), (K_performance, VFloat (Fin (47 / 10)))],
              [(KStr ''name'', VStr ''John''), (K_position, VStr ''Backend Developer''), (K_performance, VFloat (Fin (49 / 10)))]] of
        Inl _ \<Rightarrow> False
      | Inr grouped \<Rightarrow>
          map_of grouped (VStr ''Backend Developer'') \<noteq> None \<and> map_of grouped (VStr ''Frontend Developer'') \<noteq> None \<and>
          map_option length (map_of grouped (VStr ''Backend Developer'')) = Some 2 \<and>
          map_option length (map_of grouped (VStr ''Frontend Developer'')) = Some 1)"

definition test_calculate_average_performance :: bool where
  "test_calculate_average_performance =
     (calculate_average_performance
        [[(KStr ''name'', VStr ''Alex''), (K_performance, VFloat (Fin 4))],
         [(KStr ''name'', VStr ''Maria''), (K_performance, VFloat (Fin 5))],
         [(KStr ''name'', VStr ''John''), (K_performance, VFloat (Fin 3))]] = Inr (Fin 4))"

definition test_calculate_average_performance_empty :: bool where
  "test_calculate_average_performance_empty = (calculate_average_performance [] = Inr (Fin 0))"

definition test_calculate_average_performance_single :: bool where
  "test_calculate_average_performance_single =
     (calculate_average_performance [[(KStr ''name'', VStr ''Alex''), (K_performance, VFloat (Fin (45 / 10)))]] =
        Inr (Fin (45 / 10)))"

subsection \<open>src/tests/test_reports.py\<close>

definition perf_test_data :: "pydict list" where
  "perf_test_data =
     [[(KStr ''name'', VStr ''Alex''), (K_position, VStr ''Backend Developer''), (K_performance, VFloat (Fin 4))],
      [(KStr ''name'', VStr ''Maria''), (K_position, VStr ''Frontend Developer''), (K_performance, VFloat (Fin 5))],
      [(KStr ''name'', VStr ''John''), (K_position, VStr ''Backend Developer''), (K_performance, VFloat (Fin 3))],
      [(KStr ''name'', VStr ''Anna''), (K_position, VStr ''Frontend Developer''), (K_performance, VFloat (Fin 4))]]"

definition test_performance_report_generate :: bool where
  "test_performance_report_generate =
     (case generate perf_test_data of
        Inl _ \<Rightarrow> False
      | Inr result \<Rightarrow> length result = 2 \<and>
          map fst result = [VStr ''Frontend Developer'', VStr ''Backend Developer''] \<and>
          list_all (\<lambda>(position, avg).
              (position = VStr ''Frontend Developer'' \<longrightarrow> avg = Fin (45 / 10)) \<and>
              (position = VStr ''Backend Developer'' \<longrightarrow> avg = Fin (35 / 10))) result)"

definition test_performance_report_generate_empty :: bool where
  "test_performance_report_generate_empty = (generate [] = Inr [])"

text \<open>\<^verbatim>\<open>patch.dict('sys.modules', {'tabulate': None})\<close> makes the import fail: the
  fallback branch. The report's \<^verbatim>\<open>repr\<close> of float labels is not used (the labels are
  strings).\<close>

definition test_performance_report_display :: bool where
  "test_performance_report_display =
     (case display False (\<lambda>_. []) [(VStr ''Frontend Developer'', Fin (45 / 10)), (VStr ''Backend Developer'', Fin (35 / 10))] of
        (out, e) \<Rightarrow> e = None \<and> shows_heading out \<and>
          in_stdout ''Frontend Developer'' \<lparr>out_stdout = out, out_stderr = [], out_exit = 0\<rparr> \<and>
          in_stdout ''4.5'' \<lparr>out_stdout = out, out_stderr = [], out_exit = 0\<rparr>)"

text \<open>The classes the tests define: \<^verbatim>\<open>NewReport(Report)\<close> implementing both methods,
  and \<^verbatim>\<open>NotAReport\<close>, a plain class.\<close>

definition NewReport_cls :: pyclass where
  "NewReport_cls = \<lparr>cls_name = ''NewReport'', cls_report = True, cls_abstract = [], cls_methods = [''generate'', ''display'']\<rparr>"

definition NotAReport_cls :: pyclass where
  "NotAReport_cls = \<lparr>cls_name = ''NotAReport'', cls_report = False, cls_abstract = [], cls_methods = []\<rparr>"

text \<open>The tests of the module that use the registry, each from the registry state it finds
  to its verdict and the state it leaves.\<close>

definition test_report_factory :: "factory_state \<Rightarrow> bool \<times> factory_state" where
  "test_report_factory st = (create_report st ''performance'' = Inr (Instance PerformanceReport_cls), st)"

definition test_report_factory_invalid_report :: "factory_state \<Rightarrow> bool \<times> factory_state" where
  "test_report_factory_invalid_report st =
     ((case create_report st ''invalid_report'' of Inl (ValueError (UnknownReportName _ _)) \<Rightarrow> True | _ \<Rightarrow> False), st)"

definition test_get_report_generator :: "factory_state \<Rightarrow> bool \<times> factory_state" where
  "test_get_report_generator st = (get_report_generator st ''performance'' = Inr (Instance PerformanceReport_cls), st)"

definition test_register_new_report :: "factory_state \<Rightarrow> bool \<times> factory_state" where
  "test_register_new_report st =
     (case register_report st ''new'' (Class NewReport_cls) of
        Inl _ \<Rightarrow> (False, st)
      | Inr st' \<Rightarrow>
          (create_report st' ''new'' = Inr (Instance NewReport_cls) \<and>
           create_report st' ''performance'' = Inr (Instance PerformanceReport_cls) \<and>
           (case register_report st' ''invalid'' (Class NotAReport_cls) of Inl (TypeError _) \<Rightarrow> True | _ \<Rightarrow> False),
           st'))"

text \<open>pytest runs the module's tests in file order; the verdicts and the final registry.\<close>

definition test_reports_run :: "factory_state \<Rightarrow> bool list \<times> factory_state" where
  "test_reports_run st0 =
     (let (r1, st1) = test_report_factory st0;
          (r2, st2) = test_report_factory_invalid_report st1;
          (r3, st3) = test_get_report_generator st2;
          (r4, st4) = test_register_new_report st3
      in ([test_performance_report_generate, test_performance_report_generate_empty,
           test_performance_report_display, r1, r2, r3, r4], st4))"

subsection \<open>src/tests/test_cli.py\<close>

text \<open>Each CLI test, for either availability of \<^verbatim>\<open>tabulate\<close>. A test that expects
  \<^verbatim>\<open>SystemExit\<close> checks the exit status 1; one that calls \<^verbatim>\<open>main()\<close> plainly needs
  it to return, status 0.\<close>

definition test_cli_with_valid_args :: "bool \<Rightarrow> bool" where
  "test_cli_with_valid_args t =
     (let r = main (temp_fs [(''t.csv'', hdr_full @ LF # row_alex @ LF # row_maria)]) t (\<lambda>_. []) [''t.csv''] ''performance''
      in out_exit r = 0 \<and> (shows_heading (out_stdout r) \<or> in_stdout ''Backend Developer'' r) \<and>
         in_stdout ''Frontend Developer'' r)"

definition test_cli_with_nonexistent_file :: "bool \<Rightarrow> bool" where
  "test_cli_with_nonexistent_file t =
     (let r = main (temp_fs []) t (\<lambda>_. []) [''nonexistent.csv''] ''performance''
      in out_exit r = 1 \<and> MissingFilesHeader \<in> set (out_stderr r))"

definition test_cli_with_invalid_report :: "bool \<Rightarrow> bool" where
  "test_cli_with_invalid_report t =
     (let r = main (temp_fs [(''t.csv'', hdr_full @ [LF])]) t (\<lambda>_. []) [''t.csv''] ''invalid_report''
      in out_exit r = 1 \<and>
         list_ex (\<lambda>l. case l of ReportError (ValueError (UnknownReportName _ _)) \<Rightarrow> True | _ \<Rightarrow> False) (out_stderr r))"

definition test_cli_with_multiple_files :: "bool \<Rightarrow> bool" where
  "test_cli_with_multiple_files t =
     (let r = main (temp_fs [(''t1.csv'', hdr_full @ LF # row_alex), (''t2.csv'', hdr_full @ LF # row_maria)]) t (\<lambda>_. [])
                [''t1.csv'', ''t2.csv''] ''performance''
      in out_exit r = 0 \<and> in_stdout ''Backend Developer'' r \<and> in_stdout ''Frontend Developer'' r)"

definition test_cli_with_invalid_csv_data :: "bool \<Rightarrow> bool" where
  "test_cli_with_invalid_csv_data t =
     (let r = main (temp_fs [(''t.csv'', hdr_full @ LF # ''Alex Ivanov,Backend Developer,not_a_number,4.8,Python,API Team,5'')])
                t (\<lambda>_. []) [''t.csv''] ''performance''
      in out_exit r = 1 \<and> list_ex (\<lambda>l. case l of ReadDataError _ \<Rightarrow> True | _ \<Rightarrow> False) (out_stderr r))"

text \<open>\<^verbatim>\<open>monkeypatch.setattr(cli, 'get_report_generator', mock)\<close>: the mock raises
  \<^verbatim>\<open>Exception\<close> (its Cyrillic message is transliterated).\<close>

definition test_cli_with_report_generation_error :: "bool \<Rightarrow> bool" where
  "test_cli_with_report_generation_error t =
     (let r = main_with (\<lambda>report_name. Inl (PlainException ''Iskusstvennaya oshibka generatsii''))
                (temp_fs [(''t.csv'', hdr_full @ LF # ''Alex Ivanov,Backend Developer,45,4.8,Python,API Team,5'')])
                t (\<lambda>_. []) [''t.csv''] ''performance''
      in out_exit r = 1 \<and> list_ex (\<lambda>l. case l of ReportGenerationError _ \<Rightarrow> True | _ \<Rightarrow> False) (out_stderr r))"

subsection \<open>The SkillsReport tests of src/tests/test_reports.py\<close>

text \<open>These sit in a string literal beside the inactive class; they run once both are
  uncommented, after the active tests of the module.\<close>

definition skills_test_data :: "pydict list" where
  "skills_test_data = [[(KStr ''name'', VStr ''Alex''), (K_position, VStr ''Backend Developer''), (KStr ''skills'', VStr ''Python, Django'')],
      [(KStr ''name'', VStr ''Maria''), (K_position, VStr ''Frontend Developer''), (KStr ''skills'', VStr ''JavaScript, React'')],
      [(KStr ''name'', VStr ''John''), (K_position, VStr ''Backend Developer''), (KStr ''skills'', VStr ''Python, PostgreSQL'')],
      [(KStr ''name'', VStr ''Anna''), (K_position, VStr ''Frontend Developer''), (KStr ''skills'', VStr ''JavaScript, Vue.js'')],
      [(KStr ''name'', VStr ''Mike''), (K_position, VStr ''DevOps Engineer''), (KStr ''skills'', VStr ''Docker, Python'')]]"

definition test_skills_report :: bool where
  "test_skills_report =
     (case skills_generate skills_test_data of
        Inl _ \<Rightarrow> False
      | Inr result \<Rightarrow> length result = 7 \<and>
          map_of result ''Python'' = Some 3 \<and> map_of result ''JavaScript'' = Some 2 \<and>
          map_of result ''Django'' = Some 1 \<and> map_of result ''React'' = Some 1 \<and>
          map_of result ''PostgreSQL'' = Some 1 \<and> map_of result ''Vue.js'' = Some 1 \<and>
          map_of result ''Docker'' = Some 1 \<and>
          result ! 0 = (''Python'', 3) \<and> result ! 1 = (''JavaScript'', 2))"

definition skills_texts :: "skills_line \<Rightarrow> string list" where
  "skills_texts l = (case l of SkillsGrid rows \<Rightarrow> concat (map (\<lambda>(t, n). [t, n]) rows) | SkillsHeading \<Rightarrow> [] | SLine s \<Rightarrow> [s])"

text \<open>Both Cyrillic words the test looks for are in the heading line.\<close>

definition test_skills_report_display :: bool where
  "test_skills_report_display =
     (let out = skills_display False [(''Python'', 5), (''JavaScript'', 3), (''Docker'', 2)]
      in SkillsHeading \<in> set out \<and>
         list_ex (\<lambda>l. list_ex (contains ''Python'') (skills_texts l)) out \<and>
         list_ex (\<lambda>l. list_ex (contains ''5'') (skills_texts l)) out)"

definition test_skills_report_registration :: "factory_state \<Rightarrow> bool \<times> factory_state" where
  "test_skills_report_registration st =
     (case register_report st ''skills'' (Class SkillsReport_cls) of
        Inl _ \<Rightarrow> (False, st)
      | Inr st' \<Rightarrow>
          (create_report st' ''skills'' = Inr (Instance SkillsReport_cls) \<and>
           create_report st' ''performance'' = Inr (Instance PerformanceReport_cls), st'))"

text \<open>The activated module: the import registers \<^verbatim>\<open>skills\<close>, then the tests run in
  file order.\<close>

definition test_reports_run_activated :: "factory_state \<Rightarrow> bool list \<times> factory_state" where
  "test_reports_run_activated st0 =
     (case activate_skills st0 of
        Inl _ \<Rightarrow> ([False], st0)
      | Inr st1 \<Rightarrow>
          (let (rs, st2) = test_reports_run st1;
               (r, st3) = test_skills_report_registration st2
           in (rs @ [test_skills_report, test_skills_report_display, r], st3)))"

lemmas tests_eval = temp_fs_def hdr_full_def row_alex_def row_maria_def reader_eval csv_eval is_bad_data_format_def

lemma read_single:
  "read_csv_files (temp_fs [(''t.csv'', hdr_full @ LF # row_alex @ LF # row_maria)]) [''t.csv''] = Inr [rec_alex, rec_maria]"
  by (simp add: tests_eval rec_alex_def rec_maria_def)

lemma read_two:
  "read_csv_files (temp_fs [(''t1.csv'', hdr_full @ LF # row_alex), (''t2.csv'', hdr_full @ LF # row_maria)])
     [''t1.csv'', ''t2.csv''] = Inr [rec_alex, rec_maria]"
  by (simp add: tests_eval rec_alex_def rec_maria_def)

lemma exist_single: "list_all (path_exists (temp_fs [(''t.csv'', c)])) [''t.csv'']"
  by (simp add: path_exists_def temp_fs_def)

lemma exist_two: "list_all (path_exists (temp_fs [(''t1.csv'', c1), (''t2.csv'', c2)])) [''t1.csv'', ''t2.csv'']"
  by (simp add: path_exists_def temp_fs_def)

lemma test_read_csv_files_single_passes: test_read_csv_files_single
  by (simp add: test_read_csv_files_single_def read_single rec_alex_def rec_maria_def)

lemma test_read_csv_files_multiple_passes: test_read_csv_files_multiple
  by (simp add: test_read_csv_files_multiple_def read_two rec_alex_def rec_maria_def)

lemma test_read_csv_files_invalid_format_passes: test_read_csv_files_invalid_format
  by (simp add: test_read_csv_files_invalid_format_def tests_eval)

lemma test_read_csv_files_file_not_found_passes: test_read_csv_files_file_not_found
  by (simp add: test_read_csv_files_file_not_found_def tests_eval)

lemma test_read_csv_files_empty_passes: test_read_csv_files_empty
  by (simp add: test_read_csv_files_empty_def tests_eval)

lemma test_read_csv_files_invalid_numeric_passes: test_read_csv_files_invalid_numeric
  by (simp add: test_read_csv_files_invalid_numeric_def tests_eval)

lemma test_read_csv_files_missing_column_passes: test_read_csv_files_missing_column
  by (simp add: test_read_csv_files_missing_column_def tests_eval)

lemma test_detect_delimiter_comma_passes: test_detect_delimiter_comma
  by (simp add: test_detect_delimiter_comma_def temp_fs_def detect_delimiter_def choose_delimiter_def sample_size_def py_open_def)

lemma test_detect_delimiter_tab_passes: test_detect_delimiter_tab
  by (simp add: test_detect_delimiter_tab_def temp_fs_def detect_delimiter_def choose_delimiter_def sample_size_def py_open_def)

lemma test_detect_delimiter_semicolon_passes: test_detect_delimiter_semicolon
  by (simp add: test_detect_delimiter_semicolon_def temp_fs_def detect_delimiter_def choose_delimiter_def sample_size_def py_open_def)

lemma test_group_by_position_passes: test_group_by_position
  by (simp add: test_group_by_position_def group_by_position_def group_append_def py_hashable_def py_getitem_def)

lemma test_calculate_average_performance_passes: test_calculate_average_performance
  by (simp add: test_calculate_average_performance_def calculate_average_performance_def py_truediv_len_def py_getitem_def)

lemma test_calculate_average_performance_empty_passes: test_calculate_average_performance_empty
  by (simp add: test_calculate_average_performance_empty_def calculate_average_performance_def)

lemma test_calculate_average_performance_single_passes: test_calculate_average_performance_single
  by (simp add: test_calculate_average_performance_single_def calculate_average_performance_def py_truediv_len_def py_getitem_def)

lemma contains_append_right: "contains s ys \<Longrightarrow> contains s (xs @ ys)"
  by (induction xs) auto

lemma contains_prefix: "contains s (s @ r)"
proof (cases "s @ r")
  case (Cons c cs)
  have "take (length s) (s @ r) = s"
    by simp
  then show ?thesis
    using Cons by simp
qed simp

lemma test_performance_report_display_passes: test_performance_report_display
proof -
  have "contains ''4.5'' [char_of (52::nat), CHR ''.'', char_of (53::nat), char_of (48::nat)]"
    by (simp add: char_of_eq_iff)
  then have "contains ''4.5'' (replicate 12 CHR '' '' @ CHR '' '' # replicate 6 CHR '' '' @
      [char_of (52::nat), CHR ''.'', char_of (53::nat), char_of (48::nat)])"
    by (intro contains_append_right) (simp add: contains_append_right)
  then show ?thesis
    by (simp add: test_performance_report_display_def display_def format_label_def pad_right_def pad_left_def fmt_eval
        shows_heading_def in_stdout_def out_texts_def)
qed

lemma test_reports_run_passes:
  "test_reports_run factory_init =
     ([True, True, True, True, True, True, True], \<lparr>f_reports = [(''performance'', PerformanceReport_cls), (''new'', NewReport_cls)]\<rparr>)"
  by (simp add: test_reports_run_def test_report_factory_def test_report_factory_invalid_report_def
      test_get_report_generator_def test_register_new_report_def get_report_generator_def create_report_def
      register_report_def factory_init_def NewReport_cls_def NotAReport_cls_def PerformanceReport_cls_def
      test_performance_report_generate_def test_performance_report_generate_empty_def test_performance_report_display_passes
      perf_test_data_def generate_def group_by_position_def group_append_def py_hashable_def py_getitem_def
      calculate_average_performance_def py_truediv_len_def sort_metric_desc_def py_sort_reverse_def sort_by_def
      display_def format_label_def pad_right_def pad_left_def fmt_eval shows_heading_def in_stdout_def out_texts_def)

lemmas report_eval = generate_def group_by_position_def group_append_def py_hashable_def py_getitem_def
  calculate_average_performance_def py_truediv_len_def sort_metric_desc_def py_sort_reverse_def sort_by_def
  display_def format_label_def pad_right_def pad_left_def fmt_eval
  run_report_def get_report_generator_def create_report_def factory_init_def PerformanceReport_cls_def
  shows_heading_def in_stdout_def out_texts_def rec_alex_def rec_maria_def

lemma test_cli_with_valid_args_passes: "test_cli_with_valid_args t"
  unfolding test_cli_with_valid_args_def main_def main_all_exist [OF exist_single] read_single
  by (cases t) (simp_all add: report_eval)

lemma test_cli_with_multiple_files_passes: "test_cli_with_multiple_files t"
  unfolding test_cli_with_multiple_files_def main_def main_all_exist [OF exist_two] read_two
  by (cases t) (simp_all add: report_eval)

lemma test_cli_with_nonexistent_file_passes: "test_cli_with_nonexistent_file t"
  by (simp add: test_cli_with_nonexistent_file_def main_def main_with_def temp_fs_def path_exists_def fail_def)

lemma test_cli_with_invalid_report_passes: "test_cli_with_invalid_report t"
  unfolding test_cli_with_invalid_report_def main_def main_all_exist [OF exist_single]
  by (simp add: tests_eval report_eval fail_def report_error_line_def)

lemma test_cli_with_invalid_csv_data_passes: "test_cli_with_invalid_csv_data t"
  unfolding test_cli_with_invalid_csv_data_def main_def main_all_exist [OF exist_single]
  by (simp add: tests_eval fail_def read_error_line_def)

lemma test_cli_with_report_generation_error_passes: "test_cli_with_report_generation_error t"
  unfolding test_cli_with_report_generation_error_def main_all_exist [OF exist_single]
  by (simp add: tests_eval run_report_def fail_def report_error_line_def)

lemma test_skills_report_passes: test_skills_report
proof -
  have "list_all skills_ok skills_test_data"
    by (simp add: skills_test_data_def skills_ok_def)
  moreover have "sort_key (\<lambda>x. - snd x) (counter_spec (all_techs skills_test_data)) =
      [(''Python'', 3), (''JavaScript'', 2), (''Django'', 1), (''React'', 1), (''PostgreSQL'', 1),
       (''Vue.js'', 1), (''Docker'', 1)]"
    by (simp add: skills_test_data_def counter_spec_def all_techs_def skills_str_of_def tech_list_def
        first_seen_def py_strip_def py_isspace_def)
  ultimately show ?thesis
    by (simp add: test_skills_report_def skills_generate_eq)
qed

lemma test_skills_report_display_passes: test_skills_report_display
proof -
  let ?s = "pad_right 35 ''Python'' @ CHR '' '' # pad_left 10 (int_str 5)"
  have r: "SLine ?s \<in> set (skills_display False [(''Python'', 5), (''JavaScript'', 3), (''Docker'', 2)])"
    by (rule skills_display_row) simp
  have p: "contains ''Python'' ?s"
    unfolding pad_right_def append_assoc by (rule contains_prefix)
  have "int_str 5 = ''5''"
    by (simp add: fmt_eval)
  then have "contains ''5'' (CHR '' '' # pad_left 10 (int_str 5))"
    unfolding pad_left_def
    by (simp only: contains_append_right contains_prefix [of _ "[]", simplified] contains.simps(2) disj_commute simp_thms)
  then have f: "contains ''5'' ?s"
    by (rule contains_append_right)
  show ?thesis
    unfolding test_skills_report_display_def Let_def list_ex_iff
  proof (intro conjI)
    show "\<exists>l\<in>set (skills_display False [(''Python'', 5), (''JavaScript'', 3), (''Docker'', 2)]).
            \<exists>x\<in>set (skills_texts l). contains ''Python'' x"
      by (rule bexI [OF _ r]) (simp add: skills_texts_def p)
    show "\<exists>l\<in>set (skills_display False [(''Python'', 5), (''JavaScript'', 3), (''Docker'', 2)]).
            \<exists>x\<in>set (skills_texts l). contains ''5'' x"
      by (rule bexI [OF _ r]) (simp add: skills_texts_def f)
  qed (rule skills_display_heading)
qed

lemma test_reports_run_activated_passes:
  "test_reports_run_activated factory_init =
     ([True, True, True, True, True, True, True, True, True, True],
      \<lparr>f_reports = [(''performance'', PerformanceReport_cls), (''skills'', SkillsReport_cls), (''new'', NewReport_cls)]\<rparr>)"
proof -
  have a: "activate_skills factory_init =
      Inr \<lparr>f_reports = [(''performance'', PerformanceReport_cls), (''skills'', SkillsReport_cls)]\<rparr>"
    by (simp add: activate_skills_def register_report_def factory_init_def SkillsReport_cls_def)
  have t: "test_reports_run \<lparr>f_reports = [(''performance'', PerformanceReport_cls), (''skills'', SkillsReport_cls)]\<rparr> =
      ([True, True, True, True, True, True, True],
       \<lparr>f_reports = [(''performance'', PerformanceReport_cls), (''skills'', SkillsReport_cls), (''new'', NewReport_cls)]\<rparr>)"
    by (simp add: test_reports_run_def test_report_factory_def test_report_factory_invalid_report_def
      test_get_report_generator_def test_register_new_report_def get_report_generator_def create_report_def
      register_report_def NewReport_cls_def NotAReport_cls_def PerformanceReport_cls_def SkillsReport_cls_def
      test_performance_report_generate_def test_performance_report_generate_empty_def test_performance_report_display_passes
      perf_test_data_def generate_def group_by_position_def group_append_def py_hashable_def py_getitem_def
      calculate_average_performance_def py_truediv_len_def sort_metric_desc_def py_sort_reverse_def sort_by_def)
  have r: "test_skills_report_registration
      \<lparr>f_reports = [(''performance'', PerformanceReport_cls), (''skills'', SkillsReport_cls), (''new'', NewReport_cls)]\<rparr> =
      (True, \<lparr>f_reports = [(''performance'', PerformanceReport_cls), (''skills'', SkillsReport_cls), (''new'', NewReport_cls)]\<rparr>)"
    by (simp add: test_skills_report_registration_def register_report_def create_report_def
        SkillsReport_cls_def PerformanceReport_cls_def NewReport_cls_def)
  show ?thesis
    unfolding test_reports_run_activated_def a sum.case t Let_def prod.case r
    using test_skills_report_passes test_skills_report_display_passes by simp
qed

end
