(* ===== verification/CsvWrite.thy ===== *)
theory CsvWrite
  imports Reader
begin

text \<open>
  Files as Python's \<^verbatim>\<open>csv.writer\<close> writes them (Excel dialect with the detected
  delimiter, \<^verbatim>\<open>lineterminator='\n'\<close>, \<^verbatim>\<open>QUOTE_MINIMAL\<close>): a field holding the
  delimiter, a quote or a line break is quoted with its quotes doubled, a row holding one
  empty field is written as \<^verbatim>\<open>""\<close>, and every row ends with a newline
  (\<open>quote_field\<close>, \<open>write_field\<close>, \<open>write_row\<close>, \<open>csv_write\<close>). The writer is not
  part of the program; it describes the files the program is meant to read. The lemmas
  follow the reader's state machine (Csv) through a written field: the quoted states
  for a quoted one, \<open>IN_FIELD\<close> for a plain one (\<open>process_chars\<close> is
  \<open>process_line\<close> without the final \<open>EOL\<close>). The result: \<^verbatim>\<open>read_csv_files\<close>
  reads every written file back as its rows when detection picks the writer's delimiter
  (Reader's \<open>read_csv_files_misdetected\<close> shows what happens when it does not).
\<close>

subsection \<open>The writer\<close>

definition quote_double :: "string \<Rightarrow> string" where
  "quote_double f = concat (map (\<lambda>c. if c = QUOTE then [QUOTE, QUOTE] else [c]) f)"

definition quote_field :: "string \<Rightarrow> string" where
  "quote_field f = QUOTE # quote_double f @ [QUOTE]"

definition write_field :: "char \<Rightarrow> string \<Rightarrow> string" where
  "write_field d f = (if d \<in> set f \<or> QUOTE \<in> set f \<or> LF \<in> set f \<or> CR \<in> set f then quote_field f else f)"

definition write_row :: "char \<Rightarrow> string list \<Rightarrow> string" where
  "write_row d r = (if r = [[]] then quote_field [] else join_fields d (map (write_field d) r))"

definition csv_write :: "char \<Rightarrow> string list list \<Rightarrow> string" where
  "csv_write d rows = concat (map (\<lambda>r. write_row d r @ [LF]) rows)"

definition writable_field :: "string \<Rightarrow> bool" where
  "writable_field f \<longleftrightarrow> LF \<notin> set f \<and> CR \<notin> set f \<and> length f \<le> field_limit"

subsection \<open>The reader on written fields\<close>

fun process_chars :: "char \<Rightarrow> string \<Rightarrow> parser \<Rightarrow> parser result" where
  "process_chars d [] p = Inr p"
| "process_chars d (c # cs) p = ebind (process_char d (Chr c) p) (process_chars d cs)"

lemma process_line_append:
  "process_line d (xs @ ys) p = ebind (process_chars d xs p) (process_line d ys)"
  by (induction xs arbitrary: p) (simp_all add: ebind_eq_case split: sum.splits)

lemma process_chars_append:
  "process_chars d (xs @ ys) p = ebind (process_chars d xs p) (process_chars d ys)"
  by (induction xs arbitrary: p) (simp_all add: ebind_eq_case split: sum.splits)

abbreviation at_field :: "pstate \<Rightarrow> string list \<Rightarrow> string \<Rightarrow> parser" where
  "at_field st fs f \<equiv> \<lparr>p_state = st, p_fields = fs, p_field = f\<rparr>"

lemma process_chars_in_field:
  "d \<notin> set cs \<Longrightarrow> QUOTE \<notin> set cs \<Longrightarrow> LF \<notin> set cs \<Longrightarrow> CR \<notin> set cs \<Longrightarrow>
   length acc + length cs \<le> field_limit \<Longrightarrow>
   process_chars d cs (at_field IN_FIELD fs acc) = Inr (at_field IN_FIELD fs (acc @ cs))"
proof (induction cs arbitrary: acc)
  case (Cons c cs)
  then have "c \<noteq> d" "c \<noteq> LF" "c \<noteq> CR" "length acc < field_limit" by auto
  then have "process_char d (Chr c) (at_field IN_FIELD fs acc) = Inr (at_field IN_FIELD fs (acc @ [c]))"
    by (simp add: process_char.simps add_char_def)
  with Cons.IH [of "acc @ [c]"] Cons.prems show ?case by simp
qed simp

lemma process_chars_quoted:
  "length acc + length f \<le> field_limit \<Longrightarrow>
   process_chars d (quote_double f) (at_field IN_QUOTED_FIELD fs acc) = Inr (at_field IN_QUOTED_FIELD fs (acc @ f))"
proof (induction f arbitrary: acc)
  case Nil
  then show ?case by (simp add: quote_double_def)
next
  case (Cons c f)
  have "process_chars d (if c = QUOTE then [QUOTE, QUOTE] else [c]) (at_field IN_QUOTED_FIELD fs acc)
      = Inr (at_field IN_QUOTED_FIELD fs (acc @ [c]))"
    using Cons.prems by (simp add: process_char.simps add_char_def)
  moreover have "process_chars d (quote_double f) (at_field IN_QUOTED_FIELD fs (acc @ [c])) =
      Inr (at_field IN_QUOTED_FIELD fs (acc @ c # f))"
    using Cons.IH [of "acc @ [c]"] Cons.prems by simp
  ultimately show ?case
    by (simp add: quote_double_def process_chars_append [where xs = "if c = QUOTE then [QUOTE, QUOTE] else [c]"])
qed

definition field_read :: "parser \<Rightarrow> string list \<Rightarrow> string \<Rightarrow> bool" where
  "field_read q fs f \<longleftrightarrow> q = at_field IN_FIELD fs f \<or> q = at_field QUOTE_IN_QUOTED_FIELD fs f \<or>
     (q = at_field START_FIELD fs [] \<and> f = [])"

lemma quote_field_read:
  "length f \<le> field_limit \<Longrightarrow>
   process_chars d (quote_field f) (at_field START_FIELD fs []) = Inr (at_field QUOTE_IN_QUOTED_FIELD fs f)"
  using process_chars_quoted [of "[]" f d fs]
  by (simp add: quote_field_def process_chars_append process_char.simps start_field_def)

lemma plain_field_read:
  assumes "d \<notin> set f" "QUOTE \<notin> set f" "LF \<notin> set f" "CR \<notin> set f" "length f \<le> field_limit" "f \<noteq> []"
  shows "process_chars d f (at_field START_FIELD fs []) = Inr (at_field IN_FIELD fs f)"
proof -
  obtain c cs where f: "f = c # cs" using assms(6) by (cases f) auto
  with assms have "c \<noteq> d" "c \<noteq> QUOTE" "c \<noteq> LF" "c \<noteq> CR" by auto
  then have "process_char d (Chr c) (at_field START_FIELD fs []) = Inr (at_field IN_FIELD fs [c])"
    by (simp add: process_char.simps start_field_def add_char_def field_limit_def)
  moreover have "process_chars d cs (at_field IN_FIELD fs [c]) = Inr (at_field IN_FIELD fs (c # cs))"
    using assms f process_chars_in_field [of d cs "[c]" fs] by simp
  ultimately show ?thesis using f by simp
qed

lemma write_field_read:
  assumes "writable_field f" "d \<notin> {QUOTE, LF, CR}"
  shows "\<exists>q. process_chars d (write_field d f) (at_field START_FIELD fs []) = Inr q \<and> field_read q fs f"
proof (cases "d \<in> set f \<or> QUOTE \<in> set f \<or> LF \<in> set f \<or> CR \<in> set f")
  case True
  then show ?thesis
    using assms quote_field_read [of f d fs] by (simp add: write_field_def writable_field_def field_read_def)
next
  case False
  then show ?thesis
    using assms plain_field_read [of d f fs]
    by (cases "f = []") (auto simp: write_field_def writable_field_def field_read_def)
qed

lemma field_read_delim:
  "field_read q fs f \<Longrightarrow> d \<notin> {QUOTE, LF, CR} \<Longrightarrow> process_char d (Chr d) q = Inr (at_field START_FIELD (fs @ [f]) [])"
  by (auto simp: field_read_def process_char.simps start_field_def save_field_def)

lemma field_read_end:
  "field_read q fs f \<Longrightarrow> d \<notin> {QUOTE, LF, CR} \<Longrightarrow> process_line d [LF] q = Inr (at_field START_RECORD (fs @ [f]) [])"
  by (auto simp: field_read_def process_char.simps start_field_def save_field_def end_state_def)

lemma join_written_read:
  "r \<noteq> [] \<Longrightarrow> list_all writable_field r \<Longrightarrow> d \<notin> {QUOTE, LF, CR} \<Longrightarrow>
   process_line d (join_fields d (map (write_field d) r) @ [LF]) (at_field START_FIELD fs []) =
     Inr (at_field START_RECORD (fs @ r) [])"
proof (induction r arbitrary: fs rule: induct_list012)
  case (2 f)
  then obtain q where "process_chars d (write_field d f) (at_field START_FIELD fs []) = Inr q" "field_read q fs f"
    using write_field_read [of f d fs] by auto
  with "2.prems"(3) show ?case by (simp add: process_line_append field_read_end del: process_line.simps)
next
  case (3 f g zs)
  then obtain q where "process_chars d (write_field d f) (at_field START_FIELD fs []) = Inr q" "field_read q fs f"
    using write_field_read [of f d fs] by auto
  moreover have "process_line d (join_fields d (map (write_field d) (g # zs)) @ [LF]) (at_field START_FIELD (fs @ [f]) []) =
      Inr (at_field START_RECORD (fs @ f # g # zs) [])"
    using "3.IH"(2) [of "fs @ [f]"] "3.prems" by simp
  ultimately show ?case using "3.prems"(3)
    by (simp add: process_line_append field_read_delim)
qed simp

lemma set_quote_double [simp]: "set (quote_double f) = set f"
  by (induction f) (auto simp: quote_double_def)

lemma set_write_field: "set (write_field d f) \<subseteq> insert QUOTE (set f)"
  by (auto simp: write_field_def quote_field_def)

lemma write_row_chars:
  assumes "list_all writable_field r" "d \<notin> {QUOTE, LF, CR}"
  shows "LF \<notin> set (write_row d r) \<and> CR \<notin> set (write_row d r)"
proof -
  have "set (join_fields d (map (write_field d) r)) \<subseteq> insert d (insert QUOTE (\<Union>f\<in>set r. set f))"
    using set_join_fields [of d "map (write_field d) r"] set_write_field [of d] by fastforce
  then show ?thesis
    using assms by (auto simp: write_row_def quote_field_def writable_field_def list_all_iff)
qed

lemma write_row_ne: "r \<noteq> [] \<Longrightarrow> write_row d r \<noteq> []"
proof (cases r)
  case (Cons f rest)
  assume "r \<noteq> []"
  show ?thesis
  proof (cases rest)
    case Nil
    with Cons show ?thesis
      by (cases "f = []") (auto simp: write_row_def write_field_def quote_field_def)
  next
    case (Cons g zs)
    with \<open>r = f # rest\<close> show ?thesis by (simp add: write_row_def)
  qed
qed simp

lemma write_row_read:
  assumes "r \<noteq> []" "list_all writable_field r" "d \<notin> {QUOTE, LF, CR}"
  shows "process_line d (write_row d r @ [LF]) parser_init = Inr (at_field START_RECORD r [])"
proof -
  obtain c cs where l: "write_row d r = c # cs" using write_row_ne [OF assms(1)] by (cases "write_row d r") auto
  have "c \<noteq> LF" "c \<noteq> CR" using write_row_chars [OF assms(2,3)] l by auto
  then have "process_line d (write_row d r @ [LF]) parser_init =
      process_line d (write_row d r @ [LF]) (at_field START_FIELD [] [])"
    using process_char_start_record [of parser_init "Chr c" d] l by (simp add: parser_init_def)
  also have "\<dots> = Inr (at_field START_RECORD r [])"
  proof (cases "r = [[]]")
    case True
    have "field_read (at_field QUOTE_IN_QUOTED_FIELD [] []) [] []" by (simp add: field_read_def)
    with True assms(3) show ?thesis
      using quote_field_read [of "[]" d "[]"]
      by (simp add: write_row_def process_line_append field_read_end del: process_line.simps)
  next
    case False
    then show ?thesis using join_written_read [OF assms, of "[]"] by (simp add: write_row_def)
  qed
  finally show ?thesis .
qed

lemma file_lines_lf: "list_all (\<lambda>l. LF \<notin> set l) ls \<Longrightarrow> file_lines (concat (map (\<lambda>l. l @ [LF]) ls)) = map (\<lambda>l. l @ [LF]) ls"
proof (induction ls)
  case (Cons l ls)
  then show ?case
    using split_lines_acc_nolf [of l "[]" "LF # concat (map (\<lambda>l. l @ [LF]) ls)"] by (simp add: file_lines_def)
qed (simp add: file_lines_def)

lemma reader_rows_written:
  assumes "d \<notin> {QUOTE, LF, CR}"
  shows "list_all (\<lambda>r. r \<noteq> [] \<and> list_all writable_field r) rows \<Longrightarrow>
    reader_rows d (file_lines (csv_write d rows)) = (rows, None)"
proof (induction rows)
  case Nil
  then show ?case by (simp add: csv_write_def file_lines_def reader_rows.simps parser_init_def)
next
  case (Cons r rows)
  have fl: "file_lines (csv_write d rows') = map (\<lambda>r. write_row d r @ [LF]) rows'"
    if "list_all (\<lambda>r. r \<noteq> [] \<and> list_all writable_field r) rows'" for rows'
    using file_lines_lf [of "map (write_row d) rows'"] write_row_chars [OF _ assms] that
    by (simp add: csv_write_def list_all_iff comp_def)
  have "reader_next d ((write_row d r @ [LF]) # map (\<lambda>r. write_row d r @ [LF]) rows) parser_init =
      Inr (Some r, map (\<lambda>r. write_row d r @ [LF]) rows)"
    using write_row_read [of r d] Cons.prems assms by simp
  then have "reader_rows d (file_lines (csv_write d (r # rows))) =
      (case reader_rows d (file_lines (csv_write d rows)) of (rs, e) \<Rightarrow> (r # rs, e))"
    using fl Cons.prems by (subst reader_rows.simps) (simp del: reader_next.simps)
  with Cons show ?case by simp
qed

lemma csv_write_no_CR:
  "d \<notin> {QUOTE, LF, CR} \<Longrightarrow> list_all (\<lambda>r. r \<noteq> [] \<and> list_all writable_field r) rows \<Longrightarrow>
   CR \<notin> set (csv_write d rows)"
proof
  assume d: "d \<notin> {QUOTE, LF, CR}" and rows: "list_all (\<lambda>r. r \<noteq> [] \<and> list_all writable_field r) rows"
    and "CR \<in> set (csv_write d rows)"
  then obtain r where r: "r \<in> set rows" and "CR \<in> set (write_row d r @ [LF])"
    unfolding csv_write_def set_concat set_map by blast
  then have "CR \<in> set (write_row d r)" by simp
  moreover have "list_all writable_field r" using rows r by (simp add: list_all_iff)
  ultimately show False using write_row_chars [of r d] d by blast
qed

lemma read_file_written:
  assumes "fs p = Some (RegularFile (csv_write d (hdr # rows)))" "detect_delimiter fs p = Inr d"
    "list_all (\<lambda>r. r \<noteq> [] \<and> list_all writable_field r) (hdr # rows)"
  shows "read_csv_files fs [p] = reraise_data_format p (convert_loop [] (map (dict_row hdr) rows) None)"
proof -
  let ?t = "csv_write d (hdr # rows)"
  from assms(1,2) have "d = choose_delimiter (take sample_size (translate_newlines ?t))" by simp
  then have d: "d \<notin> {QUOTE, LF, CR}" using choose_delimiter_in delimiter_plain by metis
  have "CR \<notin> set ?t" by (rule csv_write_no_CR [OF d assms(3)])
  then have op: "py_open fs p = Inr ?t" using assms(1) by (simp add: translate_newlines_id)
  have rr: "reader_rows d (file_lines ?t) = (hdr # rows, None)"
    by (rule reader_rows_written [OF d assms(3)])
  have dr: "dict_reader (hdr # rows, None) = (map (dict_row hdr) rows, None)"
    using assms(3) by (simp add: list_all_iff)
  have "read_csv_files fs [p] = read_file fs [] p" by (cases "read_file fs [] p") (simp_all add: read_csv_files_def)
  also have "\<dots> = reraise_data_format p (convert_loop [] (map (dict_row hdr) rows) None)"
    unfolding read_file_def using assms(2) op rr dr
    by (simp del: detect_delimiter_Inr_iff py_open_Inr_iff dict_reader.simps)
  finally show ?thesis .
qed

subsection \<open>Properties\<close>

text \<open>C34: A file written by \<^verbatim>\<open>csv.writer\<close> with the delimiter that detection
  picks, whose rows are non-empty and whose cells hold no line break and fit the field
  limit, is read by \<^verbatim>\<open>read_csv_files\<close> as the conversions of its data rows, quoted
  cells (holding the delimiter or quotes) included.\<close>

theorem read_csv_files_written_records:
  assumes "fs p = Some (RegularFile (csv_write d (hdr # rows)))"
    and "detect_delimiter fs p = Inr d"
    and "list_all (\<lambda>r. r \<noteq> [] \<and> list_all writable_field r) (hdr # rows)"
    and "list_all2 (\<lambda>r y. convert_row (dict_row hdr r) = Inr y) rows ys"
  shows "read_csv_files fs [p] = Inr ys"
proof -
  have "convert_loop [] (map (dict_row hdr) rows) None = Inr ys"
    using assms(4) by (simp add: convert_loop_Inr_iff list_all2_map1)
  with read_file_written [OF assms(1-3)] show ?thesis by simp
qed

theorem read_csv_files_written_records_witness:
  "[''t.csv'' \<mapsto> RegularFile (csv_write CHR '','' [[''position'', ''completed_tasks'', ''performance'', ''experience_years''], [''Lead, Backend'', ''3'', ''4.5'', ''2'']])] ''t.csv''
     = Some (RegularFile (csv_write CHR '','' [[''position'', ''completed_tasks'', ''performance'', ''experience_years''], [''Lead, Backend'', ''3'', ''4.5'', ''2'']])) \<and>
   detect_delimiter [''t.csv'' \<mapsto> RegularFile (csv_write CHR '','' [[''position'', ''completed_tasks'', ''performance'', ''experience_years''], [''Lead, Backend'', ''3'', ''4.5'', ''2'']])] ''t.csv'' = Inr CHR '','' \<and>
   list_all (\<lambda>r. r \<noteq> [] \<and> list_all writable_field r) [[''position'', ''completed_tasks'', ''performance'', ''experience_years''], [''Lead, Backend'', ''3'', ''4.5'', ''2'']] \<and>
   list_all2 (\<lambda>r y. convert_row (dict_row [''position'', ''completed_tasks'', ''performance'', ''experience_years''] r) = Inr y) [[''Lead, Backend'', ''3'', ''4.5'', ''2'']]
     [[(K_position, VStr ''Lead, Backend''), (K_completed_tasks, VInt 3), (K_performance, VFloat (Fin (9 / 2))), (K_experience_years, VInt 2)]] \<and>
   read_csv_files [''t.csv'' \<mapsto> RegularFile (csv_write CHR '','' [[''position'', ''completed_tasks'', ''performance'', ''experience_years''], [''Lead, Backend'', ''3'', ''4.5'', ''2'']])] [''t.csv'']
     = Inr [[(K_position, VStr ''Lead, Backend''), (K_completed_tasks, VInt 3), (K_performance, VFloat (Fin (9 / 2))), (K_experience_years, VInt 2)]]"
proof -
  let ?rows = "[[''position'', ''completed_tasks'', ''performance'', ''experience_years''], [''Lead, Backend'', ''3'', ''4.5'', ''2'']]"
  let ?fs = "[''t.csv'' \<mapsto> RegularFile (csv_write CHR '','' ?rows)]"
  have f: "?fs ''t.csv'' = Some (RegularFile (csv_write CHR '','' ?rows))"
    by simp
  have t: "csv_write CHR '','' ?rows = ''position,completed_tasks,performance,experience_years'' @ [LF] @
      [QUOTE] @ ''Lead, Backend'' @ [QUOTE] @ '',3,4.5,2'' @ [LF]"
    by (simp add: csv_write_def write_row_def write_field_def quote_field_def quote_double_def)
  have d: "detect_delimiter ?fs ''t.csv'' = Inr CHR '',''"
    unfolding t by (simp add: detect_delimiter_def choose_delimiter_def sample_size_def py_open_def)
  have w: "list_all (\<lambda>r. r \<noteq> [] \<and> list_all writable_field r) ?rows"
    by (simp add: writable_field_def field_limit_def)
  have c: "list_all2 (\<lambda>r y. convert_row (dict_row [''position'', ''completed_tasks'', ''performance'', ''experience_years''] r) = Inr y)
     [[''Lead, Backend'', ''3'', ''4.5'', ''2'']]
     [[(K_position, VStr ''Lead, Backend''), (K_completed_tasks, VInt 3), (K_performance, VFloat (Fin (9 / 2))), (K_experience_years, VInt 2)]]"
    by (simp add: reader_eval)
  show ?thesis using read_csv_files_written_records [OF f d w c] f d w c by simp
qed

end
