(* ===== verification/Spec2Isabelle.thy ===== *)
theory Spec2Isabelle
  imports Cli Tests Skills CsvWrite
begin

text \<open>
  \<^bold>\<open>A verification model of the developer-analytics tool\<close> (src/script).

  \<^bold>\<open>The program.\<close> \<^verbatim>\<open>cli.main\<close> checks that the files given with \<^verbatim>\<open>--files\<close>
  exist, reads them with \<^verbatim>\<open>reader.read_csv_files\<close> (which detects each file's delimiter
  with \<^verbatim>\<open>reader.detect_delimiter\<close>, parses it with \<^verbatim>\<open>csv.DictReader\<close> and converts
  three numeric columns), looks up the report named by \<^verbatim>\<open>--report\<close> in the class-level
  registry \<^verbatim>\<open>reports.ReportFactory\<close>, and lets the report generate its rows
  (\<^verbatim>\<open>PerformanceReport.generate\<close>: \<^verbatim>\<open>processors.group_by_position\<close>,
  \<^verbatim>\<open>processors.calculate_average_performance\<close>, a stable descending sort) and display
  them. Every exception is a value of \<open>exc\<close>; every raising operation returns
  \<open>exc + 'a\<close>, so each \<^verbatim>\<open>raise\<close> and each \<^verbatim>\<open>except\<close> of the source is a branch.

  \<^bold>\<open>The theories\<close>, in import order.
  \<^item> \<open>Prelude\<close>: Python values (\<open>pyval\<close>, floats as \<open>pyfloat\<close>), dictionaries as
    insertion-ordered association lists (\<open>pydict\<close>, \<open>py_getitem\<close>), the exceptions
    (\<open>exc\<close>), the error monad with \<open>ebind\<close>, and \<open>first_seen\<close>, the key order of a
    Python dictionary.
  \<^item> \<open>PyNum\<close>: \<^verbatim>\<open>int()\<close> and \<^verbatim>\<open>float()\<close> on strings (\<open>py_int_of_str\<close>,
    \<open>py_float_of_str\<close>), float addition, division and comparison, and the formatting
    \<^verbatim>\<open>str(int)\<close> and \<^verbatim>\<open>format(x, '.2f')\<close> (\<open>fmt_fixed2\<close>, round half to even).
  \<^item> \<open>PyIO\<close>: the file system, \<^verbatim>\<open>open\<close> in text mode with universal newlines
    (\<open>py_open\<close>) and line iteration (\<open>file_lines\<close>).
  \<^item> \<open>Delimiter\<close>: \<^verbatim>\<open>detect_delimiter\<close> (\<open>choose_delimiter\<close> on the 1024-character
    sample) and its specification by strict dominance.
  \<^item> \<open>Csv\<close>: CPython's CSV parser as a state machine (\<open>process_char\<close> on
    \<open>parser\<close> records), the reader loop (\<open>reader_next\<close>, \<open>reader_rows\<close>, a
    \<^theory_text>\<open>function\<close> whose termination is proved from the lines it consumes) and
    \<^verbatim>\<open>DictReader\<close> (\<open>dict_row\<close>, \<open>dict_reader\<close>); invariants: fields never pass
    the size limit, and on file input the only exception is the field-limit error; and
    the reading of files written as delimiter-joined plain rows.
  \<^item> \<open>Reader\<close>: \<^verbatim>\<open>read_csv_files\<close> (\<open>read_loop\<close>, \<open>read_file\<close>,
    \<open>convert_loop\<close>, \<open>convert_row\<close>, \<open>reraise_data_format\<close>) and its properties:
    composition over file lists (from which all-or-nothing failure follows), the records
    of plain files, the data-format error, the exceptions that escape it, and the
    rejection of a plain file whose delimiter detection misreads (detection counts
    characters inside cells).
  \<^item> \<open>CsvWrite\<close>: \<^verbatim>\<open>csv.writer\<close> (\<open>write_field\<close>, \<open>write_row\<close>,
    \<open>csv_write\<close>; not part of the program, a description of its input files) and
    the round trip: \<^verbatim>\<open>read_csv_files\<close> reads every written file back as its rows,
    quoted cells included, when detection picks the writer's delimiter.
  \<^item> \<open>Processors\<close>: \<open>group_by_position\<close> (the \<^verbatim>\<open>defaultdict\<close> as an association
    list, \<open>group_loop\<close>, \<open>group_append\<close>) refined to \<open>groups_spec\<close>, and
    \<open>calculate_average_performance\<close> (\<open>sum_perf\<close> from int 0, \<open>py_truediv_len\<close>),
    proved to be the arithmetic mean, and \<^verbatim>\<open>nan\<close> when a value is \<^verbatim>\<open>nan\<close>;
    every result of \<open>group_by_position\<close> partitions its input (a multiset identity).
  \<^item> \<open>PySort\<close>: CPython's \<^verbatim>\<open>list.sort(key=..., reverse=True)\<close> for any strict
    order (\<open>py_sort_reverse\<close>: reverse, stable insertion sort \<open>sort_by\<close>, reverse),
    proved equal to the library's \<open>sort_key\<close> when a linear rank represents the
    order on the keys present (\<open>ranks\<close>).
  \<^item> \<open>Reports\<close>: \<open>generate\<close> (\<open>report_loop\<close>, and \<open>sort_metric_desc\<close>, CPython's
    \<^verbatim>\<open>sort(reverse=True)\<close> as reverse, stable insertion sort by \<open><\<close>, reverse),
    proved equal to the library's \<open>sort_key\<close> by \<open>desc_key\<close> on rows without
    \<^verbatim>\<open>nan\<close>, so that \<open>generate\<close> refines \<open>perf_rows_spec\<close>; and \<open>display\<close> in
    both branches (\<open>tabulate\<close> importable or not; \<open>display_lines\<close>,
    \<open>format_label\<close>), output as \<open>out_line\<close>s plus the exception that stopped it.
  \<^item> \<open>Factory\<close>: the registry as a \<open>factory_state\<close> record, \<open>register_report\<close>,
    \<open>create_report\<close>, \<open>get_report_generator\<close>; classes as \<open>pyclass\<close> records of what
    these observe; \<open>factory_reach\<close>, an inductive reachability relation, with the
    invariant \<open>factory_inv\<close> proved by rule induction; the register/create round trip.
  \<^item> \<open>Skills\<close>: \<^verbatim>\<open>SkillsReport\<close> (reports.py 74 to 108), which sits in a
    string literal to be uncommented, modelled as it runs once activated:
    \<open>skills_generate\<close> (\<open>get_skills\<close>, \<open>tech_list\<close>, \<open>count_tech\<close>,
    \<open>skills_loop\<close>, the sort through \<open>PySort\<close>), \<open>skills_display\<close>, and the
    registration \<open>activate_skills\<close> as a registry step. Lemmas: the counter refines
    \<open>counter_spec\<close> (each technology with its number of occurrences, in order of
    first occurrence), the counts are positive and add up to the technologies named, a
    \<^verbatim>\<open>', '.join\<close> cell splits back, the fixed-width fallback layout, the
    \<open>AttributeError\<close> of a \<^verbatim>\<open>None\<close> cell. \<open>SkillsReport_cls\<close> is the
    class record written by hand (a \<^verbatim>\<open>Report\<close> subclass with no abstract method).
  \<^item> \<open>Cli\<close>: \<open>main_with\<close> is \<^verbatim>\<open>main\<close> after argument parsing (cli.py 27 to 62;
    the argparse setup of lines 9 to 25 is not modelled), and \<open>main\<close> binds it to the
    registry's \<open>get_report_generator\<close>, with the existence check, the three
    \<^verbatim>\<open>except\<close> clauses of the reading and the two of the report as \<open>err_line\<close>s,
    and the exit status in an \<open>outcome\<close> record.
  \<^item> \<open>Tests\<close>: the active tests of src/tests, each a boolean definition proved true
    (one lemma per test, checks of the model on the tests' fixed inputs rather than
    properties; \<^verbatim>\<open>pytest.approx\<close> is exact equality, as the model's floats are
    exact rationals); the report tests thread the shared registry in file order,
    the CLI tests hold with and without \<^verbatim>\<open>tabulate\<close>, and the monkeypatched
    \<^verbatim>\<open>get_report_generator\<close> is the parameter of \<open>main_with\<close>.
  \<^item> This theory: the pipeline end to end (\<open>main_performance_report\<close>) on plain files,
    with the spec's example as witness.

  \<^bold>\<open>Loops, termination and bounds.\<close> Every loop of the program runs over a finite list
  and is a structural \<^theory_text>\<open>fun\<close>, except the CSV reader loop, whose termination
  is proved (each record consumes at least one line). No fuel is used: every definition
  is total, so the theorems that a run returns a result are unconditional. The CSV field
  limit (131072 characters) and \<^verbatim>\<open>int()\<close>'s 4300-digit limit are constants of the
  model, as in CPython.

  \<^bold>\<open>What is not modelled.\<close> Binary64 rounding (finite floats are exact rationals, so
  sums and means are exact and \<^verbatim>\<open>.2f\<close> rounds the exact value); UTF-8 decoding (a
  \<open>char\<close> is one code point below 256, so \<^verbatim>\<open>UnicodeDecodeError\<close> does not arise);
  \<^verbatim>\<open>argparse\<close>; \<^verbatim>\<open>tabulate\<close>'s rendering (its input is modelled); the fixed Cyrillic
  texts of headings and messages (named by constructors); \<^verbatim>\<open>repr\<close> of a float label
  (a parameter); the timsort comparison order on \<^verbatim>\<open>nan\<close> keys, where the result
  depends on the algorithm. \<^verbatim>\<open>main\<close> dispatches on the report it is given only
  through \<open>generate\<close>/\<open>display\<close> of \<^verbatim>\<open>PerformanceReport\<close>, the one
  registered by the active code; the activated \<^verbatim>\<open>SkillsReport\<close> is checked by its
  own tests (\<open>Tests\<close>) rather than through \<open>main\<close>.
\<close>


subsection \<open>The pipeline end to end\<close>

text \<open>C1: For a file written as a header line and plain data rows whose cells convert,
  whose records all have a string position and a finite performance, running
  \<^verbatim>\<open>main --files p --report performance\<close> with \<^verbatim>\<open>tabulate\<close> available prints
  one table holding the rows of the specification, each position with its mean
  performance to two decimals, stably sorted by descending mean, writes nothing to
  standard error and exits with status 0.\<close>

theorem main_performance_report:
  assumes "fs p = Some (RegularFile (csv_text d (hdr # rows) @ eol))"
    and "detect_delimiter fs p = Inr d"
    and "list_all (plain_row d) (hdr # rows)" and "eol = [] \<or> eol = [LF]"
    and "list_all2 (\<lambda>r y. convert_row (dict_row hdr r) = Inr y) rows ys"
    and "list_all has_position ys" and "list_all perf_finite ys"
  shows "main fs True fr [p] ''performance'' =
           \<lparr>out_stdout = [PerfGrid (map (\<lambda>(k, f). (k, fmt_fixed2 f)) (perf_rows_spec ys))],
            out_stderr = [], out_exit = 0\<rparr>"
proof -
  have "convert_loop [] (map (dict_row hdr) rows) None = Inr ys"
    using assms(5) by (simp add: convert_loop_Inr_iff list_all2_map1)
  with read_file_plain [OF assms(1-4)] have rd: "read_csv_files fs [p] = Inr ys" by simp
  have "get_report_generator factory_init ''performance'' = Inr (Instance PerformanceReport_cls)"
    by (simp add: get_report_generator_def create_report_def factory_init_def PerformanceReport_cls_def)
  with rd read_ok_exist [OF rd] generate_fin [OF assms(6,7)] show ?thesis
    by (simp add: main_def main_all_exist run_report_def display_def)
qed

theorem main_performance_report_witness:
  "[''dev.csv'' \<mapsto> RegularFile (csv_text CHR '','' ([''position'', ''completed_tasks'', ''performance'', ''experience_years''] # [[''Backend Developer'', ''1'', ''3'', ''1''], [''Frontend Developer'', ''1'', ''4'', ''1''], [''Backend Developer'', ''1'', ''4'', ''1''], [''Frontend Developer'', ''1'', ''5'', ''1'']]))] ''dev.csv'' = Some (RegularFile (csv_text CHR '','' ([''position'', ''completed_tasks'', ''performance'', ''experience_years''] # [[''Backend Developer'', ''1'', ''3'', ''1''], [''Frontend Developer'', ''1'', ''4'', ''1''], [''Backend Developer'', ''1'', ''4'', ''1''], [''Frontend Developer'', ''1'', ''5'', ''1'']]) @ [])) \<and>
   detect_delimiter [''dev.csv'' \<mapsto> RegularFile (csv_text CHR '','' ([''position'', ''completed_tasks'', ''performance'', ''experience_years''] # [[''Backend Developer'', ''1'', ''3'', ''1''], [''Frontend Developer'', ''1'', ''4'', ''1''], [''Backend Developer'', ''1'', ''4'', ''1''], [''Frontend Developer'', ''1'', ''5'', ''1'']]))] ''dev.csv'' = Inr CHR '','' \<and>
   list_all (plain_row CHR '','') ([''position'', ''completed_tasks'', ''performance'', ''experience_years''] # [[''Backend Developer'', ''1'', ''3'', ''1''], [''Frontend Developer'', ''1'', ''4'', ''1''], [''Backend Developer'', ''1'', ''4'', ''1''], [''Frontend Developer'', ''1'', ''5'', ''1'']]) \<and>
   list_all2 (\<lambda>r y. convert_row (dict_row [''position'', ''completed_tasks'', ''performance'', ''experience_years''] r) = Inr y) [[''Backend Developer'', ''1'', ''3'', ''1''], [''Frontend Developer'', ''1'', ''4'', ''1''], [''Backend Developer'', ''1'', ''4'', ''1''], [''Frontend Developer'', ''1'', ''5'', ''1'']] [[(K_position, VStr ''Backend Developer''), (K_completed_tasks, VInt 1), (K_performance, VFloat (Fin 3)), (K_experience_years, VInt 1)],
       [(K_position, VStr ''Frontend Developer''), (K_completed_tasks, VInt 1), (K_performance, VFloat (Fin 4)), (K_experience_years, VInt 1)],
       [(K_position, VStr ''Backend Developer''), (K_completed_tasks, VInt 1), (K_performance, VFloat (Fin 4)), (K_experience_years, VInt 1)],
       [(K_position, VStr ''Frontend Developer''), (K_completed_tasks, VInt 1), (K_performance, VFloat (Fin 5)), (K_experience_years, VInt 1)]] \<and>
   list_all has_position [[(K_position, VStr ''Backend Developer''), (K_completed_tasks, VInt 1), (K_performance, VFloat (Fin 3)), (K_experience_years, VInt 1)],
       [(K_position, VStr ''Frontend Developer''), (K_completed_tasks, VInt 1), (K_performance, VFloat (Fin 4)), (K_experience_years, VInt 1)],
       [(K_position, VStr ''Backend Developer''), (K_completed_tasks, VInt 1), (K_performance, VFloat (Fin 4)), (K_experience_years, VInt 1)],
       [(K_position, VStr ''Frontend Developer''), (K_completed_tasks, VInt 1), (K_performance, VFloat (Fin 5)), (K_experience_years, VInt 1)]] \<and> list_all perf_finite [[(K_position, VStr ''Backend Developer''), (K_completed_tasks, VInt 1), (K_performance, VFloat (Fin 3)), (K_experience_years, VInt 1)],
       [(K_position, VStr ''Frontend Developer''), (K_completed_tasks, VInt 1), (K_performance, VFloat (Fin 4)), (K_experience_years, VInt 1)],
       [(K_position, VStr ''Backend Developer''), (K_completed_tasks, VInt 1), (K_performance, VFloat (Fin 4)), (K_experience_years, VInt 1)],
       [(K_position, VStr ''Frontend Developer''), (K_completed_tasks, VInt 1), (K_performance, VFloat (Fin 5)), (K_experience_years, VInt 1)]] \<and>
   main [''dev.csv'' \<mapsto> RegularFile (csv_text CHR '','' ([''position'', ''completed_tasks'', ''performance'', ''experience_years''] # [[''Backend Developer'', ''1'', ''3'', ''1''], [''Frontend Developer'', ''1'', ''4'', ''1''], [''Backend Developer'', ''1'', ''4'', ''1''], [''Frontend Developer'', ''1'', ''5'', ''1'']]))] True (\<lambda>_. []) [''dev.csv''] ''performance'' =
     \<lparr>out_stdout = [PerfGrid [(VStr ''Frontend Developer'', ''4.50''), (VStr ''Backend Developer'', ''3.50'')]],
      out_stderr = [], out_exit = 0\<rparr>"
proof -
  have f: "[''dev.csv'' \<mapsto> RegularFile (csv_text CHR '','' ([''position'', ''completed_tasks'', ''performance'', ''experience_years''] # [[''Backend Developer'', ''1'', ''3'', ''1''], [''Frontend Developer'', ''1'', ''4'', ''1''], [''Backend Developer'', ''1'', ''4'', ''1''], [''Frontend Developer'', ''1'', ''5'', ''1'']]))] ''dev.csv'' = Some (RegularFile (csv_text CHR '','' ([''position'', ''completed_tasks'', ''performance'', ''experience_years''] # [[''Backend Developer'', ''1'', ''3'', ''1''], [''Frontend Developer'', ''1'', ''4'', ''1''], [''Backend Developer'', ''1'', ''4'', ''1''], [''Frontend Developer'', ''1'', ''5'', ''1'']]) @ []))" by simp
  have d: "detect_delimiter [''dev.csv'' \<mapsto> RegularFile (csv_text CHR '','' ([''position'', ''completed_tasks'', ''performance'', ''experience_years''] # [[''Backend Developer'', ''1'', ''3'', ''1''], [''Frontend Developer'', ''1'', ''4'', ''1''], [''Backend Developer'', ''1'', ''4'', ''1''], [''Frontend Developer'', ''1'', ''5'', ''1'']]))] ''dev.csv'' = Inr CHR '',''"
    by (simp add: csv_text_def detect_delimiter_def choose_delimiter_def sample_size_def py_open_def)
  have pl: "list_all (plain_row CHR '','') ([''position'', ''completed_tasks'', ''performance'', ''experience_years''] # [[''Backend Developer'', ''1'', ''3'', ''1''], [''Frontend Developer'', ''1'', ''4'', ''1''], [''Backend Developer'', ''1'', ''4'', ''1''], [''Frontend Developer'', ''1'', ''5'', ''1'']])"
    by (simp add: plain_row_def simple_chars_def field_limit_def)
  have cv: "list_all2 (\<lambda>r y. convert_row (dict_row [''position'', ''completed_tasks'', ''performance'', ''experience_years''] r) = Inr y) [[''Backend Developer'', ''1'', ''3'', ''1''], [''Frontend Developer'', ''1'', ''4'', ''1''], [''Backend Developer'', ''1'', ''4'', ''1''], [''Frontend Developer'', ''1'', ''5'', ''1'']] [[(K_position, VStr ''Backend Developer''), (K_completed_tasks, VInt 1), (K_performance, VFloat (Fin 3)), (K_experience_years, VInt 1)],
       [(K_position, VStr ''Frontend Developer''), (K_completed_tasks, VInt 1), (K_performance, VFloat (Fin 4)), (K_experience_years, VInt 1)],
       [(K_position, VStr ''Backend Developer''), (K_completed_tasks, VInt 1), (K_performance, VFloat (Fin 4)), (K_experience_years, VInt 1)],
       [(K_position, VStr ''Frontend Developer''), (K_completed_tasks, VInt 1), (K_performance, VFloat (Fin 5)), (K_experience_years, VInt 1)]]"
    by (simp add: reader_eval)
  have hp: "list_all has_position [[(K_position, VStr ''Backend Developer''), (K_completed_tasks, VInt 1), (K_performance, VFloat (Fin 3)), (K_experience_years, VInt 1)],
       [(K_position, VStr ''Frontend Developer''), (K_completed_tasks, VInt 1), (K_performance, VFloat (Fin 4)), (K_experience_years, VInt 1)],
       [(K_position, VStr ''Backend Developer''), (K_completed_tasks, VInt 1), (K_performance, VFloat (Fin 4)), (K_experience_years, VInt 1)],
       [(K_position, VStr ''Frontend Developer''), (K_completed_tasks, VInt 1), (K_performance, VFloat (Fin 5)), (K_experience_years, VInt 1)]]" "list_all perf_finite [[(K_position, VStr ''Backend Developer''), (K_completed_tasks, VInt 1), (K_performance, VFloat (Fin 3)), (K_experience_years, VInt 1)],
       [(K_position, VStr ''Frontend Developer''), (K_completed_tasks, VInt 1), (K_performance, VFloat (Fin 4)), (K_experience_years, VInt 1)],
       [(K_position, VStr ''Backend Developer''), (K_completed_tasks, VInt 1), (K_performance, VFloat (Fin 4)), (K_experience_years, VInt 1)],
       [(K_position, VStr ''Frontend Developer''), (K_completed_tasks, VInt 1), (K_performance, VFloat (Fin 5)), (K_experience_years, VInt 1)]]"
    by (simp_all add: has_position_def py_hashable_def perf_finite_def)
  have "perf_rows_spec [[(K_position, VStr ''Backend Developer''), (K_completed_tasks, VInt 1), (K_performance, VFloat (Fin 3)), (K_experience_years, VInt 1)],
       [(K_position, VStr ''Frontend Developer''), (K_completed_tasks, VInt 1), (K_performance, VFloat (Fin 4)), (K_experience_years, VInt 1)],
       [(K_position, VStr ''Backend Developer''), (K_completed_tasks, VInt 1), (K_performance, VFloat (Fin 4)), (K_experience_years, VInt 1)],
       [(K_position, VStr ''Frontend Developer''), (K_completed_tasks, VInt 1), (K_performance, VFloat (Fin 5)), (K_experience_years, VInt 1)]] = [(VStr ''Frontend Developer'', Fin (9 / 2)), (VStr ''Backend Developer'', Fin (7 / 2))]"
    by (simp add: perf_rows_spec_def groups_spec_def position_of_def first_seen_def mean_perf_def perf_val_def
        desc_key_def)
  then show ?thesis
    using main_performance_report [OF f d pl _ cv hp, of "\<lambda>_. []"] f d pl cv hp by (simp add: fmt_eval)
qed

end
